theory Spec2Isabelle
  imports Main "HOL-Library.Word"
begin

unbundle bit_operations_syntax

section \<open>Machine integers, error numbers and the register bus\<close>

type_synonym u8 = "8 word"
type_synonym u16 = "16 word"
type_synonym u32 = "32 word"

text \<open>
  The driver is \<^verbatim>\<open>drivers/gpu/drm/bridge/lontium-lt9211c-eideal.c\<close>. Its integers are
  modelled with their widths: \<^verbatim>\<open>u8\<close>, \<open>u16\<close> and \<open>u32\<close> are words that wrap around,
  C's \<^verbatim>\<open>int\<close> results (return codes, promoted sub-expressions) are \<open>int\<close>.
\<close>

text \<open>
  Modelled from the spec: the error numbers \<^verbatim>\<open>ENOPARAM\<close> and \<^verbatim>\<open>EPROBE_DEFER\<close> and the
  flag \<^verbatim>\<open>MIPI_DSI_MODE_VIDEO_BURST\<close> are constants of kernel headers that the driver
  includes (\<^verbatim>\<open>linux/errno.h\<close>, \<^verbatim>\<open>drm/drm_mipi_dsi.h\<close>). The specification only needs
  a failure to be a negative code and burst mode to be one flag of the attached source;
  the values are the kernel's.
\<close>

definition ENOPARAM :: int where
  "ENOPARAM = 519"

definition EPROBE_DEFER :: int where
  "EPROBE_DEFER = 517"

definition MIPI_DSI_MODE_VIDEO_BURST :: u32 where
  "MIPI_DSI_MODE_VIDEO_BURST = 2"

text \<open>
  A division by zero is undefined behaviour in C; the model makes it a value, so that
  every function that can reach one returns \<open>fault + result\<close>.
\<close>

datatype fault = DivideByZero

text \<open>
  Everything the driver does to the outside world goes through the regmap (an 8-bit
  register address, an 8-bit value: \<^verbatim>\<open>lt9211c_regmap_config\<close>), the reset GPIO and
  sleeping. The model records these in order of occurrence: a write with the address
  and value put on the bus, a read with its first address and the number of registers,
  a sleep with its length in microseconds, a GPIO level.
\<close>

datatype event =
    RegWrite u8 u8
  | RegRead u8 nat
  | Usleep nat
  | GpioSet int

text \<open>
  Modelled from the spec: the register interface. \<^verbatim>\<open>regmap_write\<close>,
  \<^verbatim>\<open>regmap_bulk_read\<close> and \<^verbatim>\<open>regmap_multi_reg_write\<close> are kernel functions that
  the driver calls; the specification describes them as synchronous \<open>write(addr, value)\<close>,
  \<open>read(addr, count)\<close> and \<open>write_sequence\<close>, each call able to fail with a transport
  error on its own.

  The chip is an oracle \<open>hw\<close>: the \<open>n\<close>-th single-register access of a run, at register
  \<open>r\<close>, returns the code \<open>fst (hw n r)\<close> (0, or a negative error number) and, for a
  read, leaves the byte \<open>snd (hw n r)\<close> in the receiving buffer. Any device behaviour,
  transport errors included, is one such oracle. A read of several registers takes one
  access per register and returns the code of the first.

  Five functions receive one byte in a local \<^verbatim>\<open>u32 data\<close> that has no initialiser, so
  that its three upper bytes are whatever the stack held. In
  \<^verbatim>\<open>lt9211c_mipi_rx_phy_poweron\<close>, \<^verbatim>\<open>lt9211c_system_video_chk_clk_src_sel\<close>,
  \<^verbatim>\<open>lt9211c_system_video_chk_src_sel\<close> and \<^verbatim>\<open>lt9211c_system_act_rx_sel\<close> the value is
  either masked with an 8-bit constant (\<^verbatim>\<open>0xfc & data\<close>, \<^verbatim>\<open>0xf8 & data\<close>) or only sent
  back to an 8-bit register, which puts its low byte on the bus: the upper bytes have no
  effect and the model takes the byte zero-extended. In
  \<^verbatim>\<open>lt9211c_video_check_framerate_get\<close> they enter the arithmetic, and the model
  carries them as a parameter.
\<close>

type_synonym chip = "nat \<Rightarrow> u8 \<Rightarrow> int \<times> u8"

record io =
  ops :: nat
  trace :: "event list"

definition regmap_write :: "chip \<Rightarrow> u32 \<Rightarrow> u32 \<Rightarrow> io \<Rightarrow> int \<times> io" where
  "regmap_write hw reg val m =
     (fst (hw (ops m) (ucast reg)),
      m\<lparr>ops := ops m + 1, trace := trace m @ [RegWrite (ucast reg) (ucast val)]\<rparr>)"

definition regmap_bulk_read :: "chip \<Rightarrow> u32 \<Rightarrow> nat \<Rightarrow> io \<Rightarrow> int \<times> (nat \<Rightarrow> u8) \<times> io" where
  "regmap_bulk_read hw reg val_count m =
     (fst (hw (ops m) (ucast reg)),
      (\<lambda>i. snd (hw (ops m + i) (ucast reg + of_nat i))),
      m\<lparr>ops := ops m + val_count, trace := trace m @ [RegRead (ucast reg) val_count]\<rparr>)"

text \<open>
  Modelled from the spec: \<^verbatim>\<open>regmap_multi_reg_write\<close>, the \<open>write_sequence\<close> of the
  register interface. On a bus without multi-write support (the I2C regmap) it writes
  the sequence register by register and stops at the first write that fails.
\<close>

fun regmap_multi_reg_write :: "chip \<Rightarrow> (u32 \<times> u32) list \<Rightarrow> io \<Rightarrow> int \<times> io" where
  "regmap_multi_reg_write hw [] m = (0, m)"
| "regmap_multi_reg_write hw ((reg, def) # regs) m =
     (let (ret, m) = regmap_write hw reg def m in
      if ret \<noteq> 0 then (ret, m) else regmap_multi_reg_write hw regs m)"

text \<open>
  Modelled from the spec: \<^verbatim>\<open>usleep_range\<close> and \<^verbatim>\<open>gpiod_set_value_cansleep\<close>, the
  fixed-duration waits and the reset line of the specification, are kernel functions;
  the model records the call.
\<close>

definition usleep_range :: "nat \<Rightarrow> nat \<Rightarrow> io \<Rightarrow> io" where
  "usleep_range min_us max_us m = m\<lparr>trace := trace m @ [Usleep min_us]\<rparr>"

definition gpiod_set_value_cansleep :: "int \<Rightarrow> io \<Rightarrow> io" where
  "gpiod_set_value_cansleep v m = m\<lparr>trace := trace m @ [GpioSet v]\<rparr>"

section \<open>The driver's data\<close>

datatype lt9211c_state =
    LT9211C_STATE_PREPARE
  | LT9211C_STATE_CHIPRX_VIDTIMING_CONFIG
  | LT9211C_STATE_CHIPRX_PLL_CONFIG
  | LT9211C_STATE_CHIPTX_CONFIG_VIDEO
  | LT9211C_STATE_CHIPTX_VIDEO_OUT

record lt9211c_mipi_rx_video_timing =
  wc :: u16
  hact :: u16
  vact :: u16
  fmt :: u8
  pa_lpn :: u8
  frame_rate :: u8

record lt9211c_video_timing =
  hfront_porch :: u16
  hsync_len :: u16
  hback_porch :: u16
  hactive :: u16
  htotal :: u16
  vfront_porch :: u16
  vsync_len :: u16
  vback_porch :: u16
  vactive :: u16
  vtotal :: u16
  framerate :: u8
  pclk_khz :: u32

record lt9211c_pcr_setting =
  pcr_m :: u32
  pcr_k :: u32
  pcr_up_limit :: u32
  pcr_down_limit :: u32

text \<open>
  \<^verbatim>\<open>struct lt9211c\<close>, reduced to the fields the bring-up code reads or writes:
  \<open>lanes\<close> and \<open>mode_flags\<close> are those of \<^verbatim>\<open>ctx->dsi\<close>; \<open>counter\<close> is the
  \<^verbatim>\<open>static int counter\<close> of \<^verbatim>\<open>lt9211c_module_config\<close>; \<open>delayed_work\<close> lists the
  delays (in ms) of the calls of \<^verbatim>\<open>schedule_delayed_work\<close> made so far.
\<close>

record lt9211c =
  lanes :: u32
  mode_flags :: u32
  state :: lt9211c_state
  mipi_rx_video_timing :: lt9211c_mipi_rx_video_timing
  lt9211c_video_timing :: lt9211c_video_timing
  counter :: int
  delayed_work :: "nat list"

definition zero_mipi_rx_video_timing :: lt9211c_mipi_rx_video_timing where
  "zero_mipi_rx_video_timing =
     \<lparr>wc = 0, hact = 0, vact = 0, fmt = 0, pa_lpn = 0, frame_rate = 0\<rparr>"

definition timing ::
  "u16 \<Rightarrow> u16 \<Rightarrow> u16 \<Rightarrow> u16 \<Rightarrow> u16 \<Rightarrow> u16 \<Rightarrow> u16 \<Rightarrow> u16 \<Rightarrow> u16 \<Rightarrow> u16 \<Rightarrow> u8 \<Rightarrow> lt9211c_video_timing"
where
  "timing hfp hs hbp ha ht vfp vs vbp va vt fr =
     \<lparr>hfront_porch = hfp, hsync_len = hs, hback_porch = hbp, hactive = ha, htotal = ht,
      vfront_porch = vfp, vsync_len = vs, vback_porch = vbp, vactive = va, vtotal = vt,
      framerate = fr, pclk_khz = 0\<rparr>"

definition lt9211c_support_timing :: "lt9211c_video_timing list" where
  "lt9211c_support_timing =
    [timing 24 96 40 640 800 33 2 10 480 525 60,
     timing 16 62 60 720 858 9 6 30 480 525 60,
     timing 12 64 88 720 864 5 5 39 576 625 50,
     timing 48 128 88 800 1056 1 4 23 600 628 60,
     timing 110 40 220 1280 1650 5 5 20 720 750 30,
     timing 440 40 220 1280 1980 5 5 20 720 750 50,
     timing 110 40 220 1280 1650 5 5 20 720 750 60,
     timing 24 136 160 1024 1344 3 6 29 768 806 60,
     timing 26 110 110 1366 1592 13 6 13 768 800 60,
     timing 110 40 220 1280 1650 5 5 20 720 750 30,
     timing 48 32 80 1920 2080 5 5 20 720 750 60,
     timing 48 112 248 1280 1688 1 3 38 1024 1066 60,
     timing 88 44 148 1920 2200 4 5 36 1080 1125 30,
     timing 88 44 148 1920 2200 4 5 36 1080 1125 60,
     timing 88 44 148 1920 2200 4 5 36 1080 1125 90,
     timing 64 192 304 1600 2160 1 3 46 1200 1250 60,
     timing 48 32 80 1920 2080 3 6 26 1200 1235 60,
     timing 32 48 80 2048 2208 6 3 28 1280 1317 60,
     timing 50 48 80 2304 2482 6 3 32 1440 1481 60,
     timing 48 32 80 2560 2720 3 5 33 1440 1481 60,
     timing 1276 88 296 3840 5500 8 10 72 2160 2250 24]"

section \<open>Timing probe\<close>

text \<open>
  \<^verbatim>\<open>lt9211c_video_check_framerate_get\<close>: three one-byte reads assemble the frame time;
  the rate is \<open>(25000000 * 2 / frametime + 1) / 2\<close> in \<open>u32\<close>, cut to \<open>u8\<close>.

  The first read stores one byte into \<^verbatim>\<open>u32 frametime = 0\<close>. The second and the third store
  one byte into \<^verbatim>\<open>u32 data\<close>, which is declared without an initialiser: on the
  little-endian targets of the driver each read replaces the low byte of \<open>data\<close> and leaves
  its three upper bytes as the stack slot held them on entry (nothing writes them between
  the two reads, and the address of \<open>data\<close> is taken, so that they are an unspecified value
  of the type). That content is the parameter \<open>stale\<close>; \<open>data_after_read stale b\<close> is the
  value of \<open>data\<close> after a read that delivered the byte \<open>b\<close>.
\<close>

definition data_after_read :: "u32 \<Rightarrow> u8 \<Rightarrow> u32" where
  "data_after_read stale b = (stale AND 0xffffff00) OR ucast b"

definition lt9211c_video_check_framerate_get :: "chip \<Rightarrow> u32 \<Rightarrow> io \<Rightarrow> fault + (u8 \<times> io)" where
  "lt9211c_video_check_framerate_get hw stale m =
     (let (ret, m) = regmap_write hw 0xff 0x86 m;
          (ret, b, m) = regmap_bulk_read hw 0x43 1 m;
          frametime = (ucast (b 0) :: u32);
          (ret, b, m) = regmap_bulk_read hw 0x44 1 m;
          data = data_after_read stale (b 0);
          frametime = push_bit 8 frametime + data;
          (ret, b, m) = regmap_bulk_read hw 0x45 1 m;
          data = data_after_read stale (b 0);
          frametime = push_bit 8 frametime + data
      in if frametime = 0 then Inl DivideByZero
         else (let frametime = (25000000 * 2 div frametime + 1) div 2
               in Inr (ucast frametime, m)))"

definition lt9211c_mipi_rx_sot_get :: "chip \<Rightarrow> io \<Rightarrow> int \<times> io" where
  "lt9211c_mipi_rx_sot_get hw m =
     (let (ret, m) = regmap_write hw 0xff 0xd0 m;
          (ret, lane_sot_num0, m) = regmap_bulk_read hw 0x88 1 m;
          (ret, lane_sot_data0, m) = regmap_bulk_read hw 0x89 1 m;
          (ret, lane_sot_num1, m) = regmap_bulk_read hw 0x8a 1 m;
          (ret, lane_sot_data1, m) = regmap_bulk_read hw 0x8b 1 m;
          (ret, lane_sot_num2, m) = regmap_bulk_read hw 0x8c 1 m;
          (ret, lane_sot_data2, m) = regmap_bulk_read hw 0x8d 1 m;
          (ret, lane_sot_num3, m) = regmap_bulk_read hw 0x8e 1 m;
          (ret, lane_sot_data3, m) = regmap_bulk_read hw 0x8f 1 m
      in (ret, m))"

definition lt9211c_mipi_rx_hs_settle_set :: "chip \<Rightarrow> io \<Rightarrow> int \<times> io" where
  "lt9211c_mipi_rx_hs_settle_set hw m =
     (let (ret, m) = regmap_multi_reg_write hw [(0xff, 0xd0), (0x02, 0x0a)] m
      in if ret < 0 then (- EPROBE_DEFER, m) else (ret, m))"

text \<open>
  The \<^verbatim>\<open>switch\<close> of \<^verbatim>\<open>lt9211c_mipi_rx_hact_get\<close>: the word count is promoted to
  \<^verbatim>\<open>int\<close>, scaled, and the result is stored into the \<open>u16\<close> field \<open>hact\<close>.
\<close>

definition hact_of_wc :: "u8 \<Rightarrow> u16 \<Rightarrow> u16" where
  "hact_of_wc f w =
     (if f = 0x01 \<or> f = 0x0e then word_of_int (uint w * 5 div 2)
      else if f = 0x02 then word_of_int (uint w div 3)
      else if f = 0x03 then word_of_int (uint w div 2)
      else if f = 0x04 then word_of_int (uint w * 15 div 4)
      else if f = 0x05 then word_of_int (uint w * 9 div 2)
      else if f = 0x06 then word_of_int (uint w div 3)
      else if f = 0x0a then word_of_int (uint w div 3)
      else if f = 0x07 then word_of_int (uint w div 2)
      else if f = 0x08 \<or> f = 0x09 then word_of_int (uint w * 9 div 4)
      else if f = 0x0b then word_of_int (uint w div 1)
      else if f = 0x0c then word_of_int (uint w * 5 div 4)
      else if f = 0x0d then word_of_int (uint w * 3 div 2)
      else word_of_int (uint w div 3))"

definition lt9211c_mipi_rx_hact_get :: "chip \<Rightarrow> lt9211c \<Rightarrow> io \<Rightarrow> int \<times> lt9211c \<times> io" where
  "lt9211c_mipi_rx_hact_get hw ctx m =
     (let (ret, m) = regmap_write hw 0xff 0xd0 m;
          (ret, data, m) = regmap_bulk_read hw 0x82 5 m;
          t = mipi_rx_video_timing ctx;
          t = t\<lparr>vact := word_of_int (uint (data 3) * 256 + uint (data 4))\<rparr>;
          t = t\<lparr>fmt := data 2 AND 0x0f\<rparr>;
          (ret, lpn, m) = regmap_bulk_read hw 0x9c 1 m;
          t = t\<lparr>pa_lpn := lpn 0\<rparr>;
          t = t\<lparr>wc := word_of_int (uint (data 0) * 256 + uint (data 1))\<rparr>;
          t = t\<lparr>hact := hact_of_wc (fmt t) (wc t)\<rparr>
      in (ret, ctx\<lparr>mipi_rx_video_timing := t\<rparr>, m))"

definition lt9211c_mipi_rx_video_timing_get :: "chip \<Rightarrow> lt9211c \<Rightarrow> io \<Rightarrow> int \<times> lt9211c \<times> io" where
  "lt9211c_mipi_rx_video_timing_get hw ctx m =
     (let (r, m) = lt9211c_mipi_rx_sot_get hw m;
          (r, m) = lt9211c_mipi_rx_hs_settle_set hw m;
          (r, ctx, m) = lt9211c_mipi_rx_hact_get hw ctx m
      in if hact (mipi_rx_video_timing ctx) < 400 \<or> vact (mipi_rx_video_timing ctx) < 400
         then (- EPROBE_DEFER, ctx, m)
         else (0, ctx, m))"

section \<open>Mode matcher\<close>

definition lt9211c_mipi_rx_video_timing_set :: "chip \<Rightarrow> lt9211c_video_timing \<Rightarrow> io \<Rightarrow> int \<times> io" where
  "lt9211c_mipi_rx_video_timing_set hw vt m =
     (let (ret, m) = regmap_write hw 0xff 0xd0 m;
          (ret, m) = regmap_write hw 0x0d (ucast (drop_bit 8 (vtotal vt))) m;
          (ret, m) = regmap_write hw 0x0e (ucast (vtotal vt)) m;
          (ret, m) = regmap_write hw 0x0f (ucast (drop_bit 8 (vactive vt))) m;
          (ret, m) = regmap_write hw 0x10 (ucast (vactive vt)) m;
          (ret, m) = regmap_write hw 0x15 (ucast (vsync_len vt)) m;
          (ret, m) = regmap_write hw 0x17 (ucast (drop_bit 8 (vfront_porch vt))) m;
          (ret, m) = regmap_write hw 0x18 (ucast (vfront_porch vt)) m;
          (ret, m) = regmap_write hw 0x11 (ucast (drop_bit 8 (htotal vt))) m;
          (ret, m) = regmap_write hw 0x12 (ucast (htotal vt)) m;
          (ret, m) = regmap_write hw 0x13 (ucast (drop_bit 8 (hactive vt))) m;
          (ret, m) = regmap_write hw 0x14 (ucast (hactive vt)) m;
          (ret, m) = regmap_write hw 0x4c (ucast (hsync_len vt)) m;
          (ret, m) = regmap_write hw 0x19 (ucast (drop_bit 8 (hfront_porch vt))) m;
          (ret, m) = regmap_write hw 0x1a (ucast (hfront_porch vt)) m
      in (ret, m))"

text \<open>
  The two tests of the scan in \<^verbatim>\<open>lt9211c_mipi_rx_video_timing_sel\<close>. The rates are
  \<open>u8\<close>, promoted to \<^verbatim>\<open>int\<close> before 3 is subtracted or added.
\<close>

definition resolution_not_match :: "lt9211c_mipi_rx_video_timing \<Rightarrow> lt9211c_video_timing \<Rightarrow> bool" where
  "resolution_not_match rx e \<longleftrightarrow> hact rx \<noteq> hactive e \<or> vact rx \<noteq> vactive e"

definition frame_rate_not_match :: "u8 \<Rightarrow> lt9211c_video_timing \<Rightarrow> bool" where
  "frame_rate_not_match current_framerate e \<longleftrightarrow>
     uint current_framerate < uint (framerate e) - 3 \<or>
     uint current_framerate > uint (framerate e) + 3"

text \<open>
  What the body of the scan stores on a match: the entry's eleven fields, with
  \<open>framerate\<close> the measured rate, and the pixel clock computed in \<open>u32\<close>.
\<close>

definition resolved_timing :: "lt9211c_video_timing \<Rightarrow> u8 \<Rightarrow> lt9211c_video_timing" where
  "resolved_timing e current_framerate =
     \<lparr>hfront_porch = hfront_porch e, hsync_len = hsync_len e, hback_porch = hback_porch e,
      hactive = hactive e, htotal = htotal e,
      vfront_porch = vfront_porch e, vsync_len = vsync_len e, vback_porch = vback_porch e,
      vactive = vactive e, vtotal = vtotal e,
      framerate = current_framerate,
      pclk_khz = (ucast (htotal e) :: u32) * ucast (vtotal e) * ucast (framerate e) div 1000\<rparr>"

function video_timing_scan ::
  "chip \<Rightarrow> u8 \<Rightarrow> nat \<Rightarrow> lt9211c \<Rightarrow> io \<Rightarrow> int \<times> lt9211c \<times> io"
where
  "video_timing_scan hw current_framerate index ctx m =
     (if index < length lt9211c_support_timing then
        if resolution_not_match (mipi_rx_video_timing ctx) (lt9211c_support_timing ! index)
        then video_timing_scan hw current_framerate (index + 1) ctx m
        else if frame_rate_not_match current_framerate (lt9211c_support_timing ! index)
        then video_timing_scan hw current_framerate (index + 1) ctx m
        else
          (let ctx = ctx\<lparr>lt9211c_video_timing :=
                 resolved_timing (lt9211c_support_timing ! index) current_framerate\<rparr>;
               (ret, m) = lt9211c_mipi_rx_video_timing_set hw (lt9211c_video_timing ctx) m
           in (ret, ctx, m))
      else (- ENOPARAM, ctx, m))"
  by pat_completeness auto
termination
  by (relation "measure (\<lambda>(hw, cf, index, ctx, m). length lt9211c_support_timing - index)") auto

definition lt9211c_mipi_rx_video_timing_sel ::
  "chip \<Rightarrow> u32 \<Rightarrow> lt9211c \<Rightarrow> io \<Rightarrow> fault + (int \<times> lt9211c \<times> io)"
where
  "lt9211c_mipi_rx_video_timing_sel hw stale ctx m =
     (case lt9211c_video_check_framerate_get hw stale m of
        Inl f \<Rightarrow> Inl f
      | Inr (current_framerate, m) \<Rightarrow> Inr (video_timing_scan hw current_framerate 0 ctx m))"

definition lt9211c_mipi_rx_video_timing_config ::
  "chip \<Rightarrow> u32 \<Rightarrow> lt9211c \<Rightarrow> io \<Rightarrow> fault + (int \<times> lt9211c \<times> io)"
where
  "lt9211c_mipi_rx_video_timing_config hw stale ctx m =
     (let (ret, ctx, m) = lt9211c_mipi_rx_video_timing_get hw ctx m
      in if ret < 0 then Inr (ret, ctx, m)
         else lt9211c_mipi_rx_video_timing_sel hw stale ctx m)"

section \<open>Clock recovery engine\<close>

definition lt9211c_mipi_rx_dessc_pll_sdm_cal :: "chip \<Rightarrow> lt9211c_pcr_setting \<Rightarrow> io \<Rightarrow> int \<times> io" where
  "lt9211c_mipi_rx_dessc_pll_sdm_cal hw pcr_setting m =
     (let (ret, m) = regmap_multi_reg_write hw [(0xff, 0xd0), (0x08, 0x00)] m;
          (ret, m) = regmap_write hw 0x26 (0x80 OR ucast (ucast (pcr_m pcr_setting) :: u8)) m;
          (ret, m) = regmap_write hw 0x2d (pcr_up_limit pcr_setting) m;
          (ret, m) = regmap_write hw 0x31 (pcr_down_limit pcr_setting) m;
          (ret, m) = regmap_write hw 0x27 (ucast (ucast (drop_bit 16 (pcr_k pcr_setting)) :: u8)) m;
          (ret, m) = regmap_write hw 0x28 (ucast (ucast (drop_bit 8 (pcr_k pcr_setting)) :: u8)) m;
          (ret, m) = regmap_write hw 0x29 (ucast (ucast (pcr_k pcr_setting) :: u8)) m;
          (ret, data, m) = regmap_bulk_read hw 0x26 1 m;
          (ret, m) = regmap_write hw 0x26 (ucast (data 0 AND 0x7f)) m
      in (ret, m))"

text \<open>
  The band chain of \<^verbatim>\<open>lt9211c_mipi_rx_dessc_pll_set\<close>: the value it writes to
  register 0x2f, the value it gives \<^verbatim>\<open>dessc_pll_pixel_clock_div\<close>, and whether the
  branch also writes 0x01 to register 0x2c (the last one does).
\<close>

definition dessc_pll_divsel :: "u32 \<Rightarrow> u32 \<times> u8 \<times> bool" where
  "dessc_pll_divsel pclk =
     (if pclk \<ge> 352000 then (0x04, 2, False)
      else if pclk \<ge> 176000 then (0x04, 2, False)
      else if pclk \<ge> 88000 then (0x05, 4, False)
      else if pclk \<ge> 44000 then (0x06, 8, False)
      else if pclk \<ge> 22000 then (0x07, 16, False)
      else (0x07, 16, True))"

definition dessc_pll_divider :: "u32 \<Rightarrow> u8" where
  "dessc_pll_divider pclk = fst (snd (dessc_pll_divsel pclk))"

text \<open>
  The six assignments to \<^verbatim>\<open>pcr_setting\<close>, in the order of the source, all in
  \<open>u32\<close>.
\<close>

definition pcr_setting_calc :: "u32 \<Rightarrow> u8 \<Rightarrow> lt9211c_pcr_setting" where
  "pcr_setting_calc pclk dessc_pll_pixel_clock_div =
     (let p = \<lparr>pcr_m = 0, pcr_k = 0, pcr_up_limit = 0, pcr_down_limit = 0\<rparr>;
          p = p\<lparr>pcr_m := pclk * ucast dessc_pll_pixel_clock_div div 25\<rparr>;
          p = p\<lparr>pcr_k := pcr_m p mod 1000\<rparr>;
          p = p\<lparr>pcr_m := pcr_m p div 1000\<rparr>;
          p = p\<lparr>pcr_up_limit := pcr_m p + 1\<rparr>;
          p = p\<lparr>pcr_down_limit := pcr_m p - 1\<rparr>;
          p = p\<lparr>pcr_k := push_bit 14 (pcr_k p)\<rparr>
      in p)"

definition lt9211c_mipi_rx_dessc_pll_set :: "chip \<Rightarrow> lt9211c \<Rightarrow> io \<Rightarrow> int \<times> io" where
  "lt9211c_mipi_rx_dessc_pll_set hw ctx m =
     (let (ret, m) = regmap_multi_reg_write hw [(0xff, 0x82), (0x26, 0x20), (0x27, 0x40)] m;
          (divsel, dessc_pll_pixel_clock_div, lowf) = dessc_pll_divsel (pclk_khz (lt9211c_video_timing ctx));
          (ret, m) = regmap_write hw 0x2f divsel m;
          (ret, m) = (if lowf then regmap_write hw 0x2c 0x01 m else (ret, m));
          pcr_setting = pcr_setting_calc (pclk_khz (lt9211c_video_timing ctx)) dessc_pll_pixel_clock_div;
          (r, m) = lt9211c_mipi_rx_dessc_pll_sdm_cal hw pcr_setting m;
          (ret, m) = regmap_multi_reg_write hw [(0xff, 0x81), (0x03, 0xfe)] m;
          m = usleep_range 1000 1000 m;
          (ret, m) = regmap_write hw 0x03 0xff m
      in (ret, m))"

text \<open>
  \<^verbatim>\<open>lt9211c_mipi_rx_pcr_calibration\<close>: the register set-up up to the second sleep,
  then the \<^verbatim>\<open>while(1)\<close> loop, which sleeps 500 ms, reads the registers 0x94 and 0x87,
  leaves on the stable mask and gives up once \<^verbatim>\<open>pcr_cal_count\<close> is above 50.
\<close>

definition pcr_calibration_setup :: "chip \<Rightarrow> lt9211c \<Rightarrow> io \<Rightarrow> io" where
  "pcr_calibration_setup hw ctx m =
     (let (ret, m) = regmap_multi_reg_write hw
            [(0xff, 0xd0), (0x0c, 0x60), (0x1c, 0x60), (0x24, 0x70),
             (0x2d, 0x30), (0x31, 0x0a),
             (0x25, 0xf0), (0x2a, 0x30), (0x21, 0x4f), (0x22, 0x00),
             (0x1e, 0x01), (0x23, 0x80),
             (0x0a, 0x02), (0x38, 0x02), (0x39, 0x04), (0x3a, 0x08), (0x3b, 0x10),
             (0x3f, 0x04), (0x40, 0x08), (0x41, 0x10), (0x42, 0x20),
             (0x2b, 0xa0),
             (0xff, 0xd0),
             (0x26, 0x97), (0x26, 0x17), (0x27, 0x0f),
             (0xff, 0x81), (0x20, 0xbf), (0x20, 0xff)] m;
          m = usleep_range 5000 5000 m;
          (ret, m) = regmap_write hw 0x0b 0x6f m;
          (ret, m) = regmap_write hw 0x0b 0xff m;
          (ret, m) =
            (if pclk_khz (lt9211c_video_timing ctx) < 44000 then
               if mode_flags ctx AND MIPI_DSI_MODE_VIDEO_BURST \<noteq> 0
               then regmap_multi_reg_write hw [(0x0c, 0x40), (0x1b, 0x00), (0x1c, 0x40)] m
               else regmap_multi_reg_write hw [(0x0c, 0x60), (0x1b, 0x00), (0x1c, 0x60)] m
             else regmap_multi_reg_write hw [(0x0c, 0x40), (0x1b, 0x00), (0x1c, 0x40)] m);
          (ret, m) = regmap_multi_reg_write hw
            [(0xff, 0x81), (0x09, 0xdb), (0x09, 0xdf),
             (0xff, 0xd0), (0x08, 0x80), (0x08, 0x00)] m;
          m = usleep_range (10 * 1000) (10 * 1000) m
      in m)"

function pcr_calibration_poll :: "chip \<Rightarrow> u8 \<Rightarrow> io \<Rightarrow> int \<times> io" where
  "pcr_calibration_poll hw pcr_cal_count m =
     (let m = usleep_range (500 * 1000) (500 * 1000) m;
          (ret, data, m) = regmap_bulk_read hw 0x94 1 m;
          (ret, data, m) = regmap_bulk_read hw 0x87 1 m
      in if data 0 AND 0x18 = 0x18 then (ret, m)
         else if pcr_cal_count > 50 then (- ENOPARAM, m)
         else pcr_calibration_poll hw (pcr_cal_count + 1) m)"
  by pat_completeness auto
termination
proof (relation "measure (\<lambda>(hw, c, m). 51 - unat c)")
  show "wf (measure (\<lambda>(hw :: chip, c :: u8, m :: io). 51 - unat c))"
    by simp
next
  fix hw :: chip and pcr_cal_count :: u8 and m ya :: io
  assume "\<not> 50 < pcr_cal_count"
  then have "unat pcr_cal_count \<le> 50"
    by (simp add: word_less_nat_alt not_less)
  then have "unat (pcr_cal_count + 1) = unat pcr_cal_count + 1"
    by (simp add: unat_word_ariths)
  with \<open>unat pcr_cal_count \<le> 50\<close>
  show "((hw, pcr_cal_count + 1, ya), (hw, pcr_cal_count, m))
          \<in> measure (\<lambda>(hw, c, m). 51 - unat c)"
    by simp
qed

definition lt9211c_mipi_rx_pcr_calibration :: "chip \<Rightarrow> lt9211c \<Rightarrow> io \<Rightarrow> int \<times> io" where
  "lt9211c_mipi_rx_pcr_calibration hw ctx m =
     pcr_calibration_poll hw 0 (pcr_calibration_setup hw ctx m)"

definition lt9211c_system_video_chk_clk_src_sel :: "chip \<Rightarrow> u8 \<Rightarrow> io \<Rightarrow> int \<times> io" where
  "lt9211c_system_video_chk_clk_src_sel hw clk_src m =
     (let (ret, m) = regmap_write hw 0xff 0x81 m;
          (ret, data, m) = regmap_bulk_read hw 0x80 1 m;
          (ret, m) = regmap_multi_reg_write hw [(0x80, 0xfc AND ucast (data 0))] m
      in if ret < 0 then (- EPROBE_DEFER, m)
         else (let (ret, data, m) = regmap_bulk_read hw 0x80 1 m;
                   (ret, m) = regmap_write hw 0x80 (ucast (data 0) OR ucast clk_src) m
               in (ret, m)))"

definition lt9211c_system_video_chk_src_sel :: "chip \<Rightarrow> io \<Rightarrow> int \<times> io" where
  "lt9211c_system_video_chk_src_sel hw m =
     (let (ret, m) = regmap_write hw 0xff 0x86 m;
          (ret, data, m) = regmap_bulk_read hw 0x80 1 m;
          (ret, m) = regmap_multi_reg_write hw [(0x3f, 0xf8 AND ucast (data 0)), (0x3f, 0x05)] m
      in if ret < 0 then (- EPROBE_DEFER, m) else (ret, m))"

definition LT9211C_MLRX_BYTE_CLK :: u8 where
  "LT9211C_MLRX_BYTE_CLK = 0x03"

definition LT9211C_DESSCPLL_PIX_CLK :: u8 where
  "LT9211C_DESSCPLL_PIX_CLK = 0x01"

definition LT9211C_AD_DESSCPLL_PIX_CLK :: u8 where
  "LT9211C_AD_DESSCPLL_PIX_CLK = 0x10"

definition lt9211c_mipi_rx_pll_config :: "chip \<Rightarrow> lt9211c \<Rightarrow> io \<Rightarrow> int \<times> io" where
  "lt9211c_mipi_rx_pll_config hw ctx m =
     (let (ret, m) = lt9211c_mipi_rx_dessc_pll_set hw ctx m;
          (ret, m) = lt9211c_mipi_rx_pcr_calibration hw ctx m
      in if ret < 0 then (ret, m)
         else (let (ret, m) = lt9211c_system_video_chk_clk_src_sel hw LT9211C_DESSCPLL_PIX_CLK m;
                   (ret, m) = lt9211c_system_video_chk_src_sel hw m
               in (ret, m)))"

definition lt9211c_mipi_rx_video_check_stable :: "chip \<Rightarrow> io \<Rightarrow> int \<times> io" where
  "lt9211c_mipi_rx_video_check_stable hw m =
     (let (ret, m) = regmap_write hw 0xff 0x86 m;
          (ret, data, m) = regmap_bulk_read hw 0x40 1 m;
          data = data 0 AND 0x01
      in (if data = 0x01 then 0 else - ENOPARAM, m))"

section \<open>Input and output front ends\<close>

definition lt9211c_read_chipid :: "chip \<Rightarrow> io \<Rightarrow> int \<times> io" where
  "lt9211c_read_chipid hw m =
     (let (ret, m) = regmap_write hw 0xff 0x81 m;
          (ret, chipid_data, m) = regmap_bulk_read hw 0x00 3 m
      in (ret, m))"

definition lt9211c_mipi_rx_phy_poweron :: "chip \<Rightarrow> lt9211c \<Rightarrow> io \<Rightarrow> int \<times> io" where
  "lt9211c_mipi_rx_phy_poweron hw ctx m =
     (let (ret, m) = regmap_write hw 0xff 0xd0 m;
          (ret, data, m) = regmap_bulk_read hw 0x00 1 m;
          def0 = (ucast (data 0) :: u32);
          def0 = (if lanes ctx \<noteq> 4 then def0 OR lanes ctx else def0);
          (ret, m) = regmap_multi_reg_write hw [(0x00, def0), (0xff, 0x82), (0x01, 0x11)] m
      in if ret < 0 then (- EPROBE_DEFER, m)
         else
          (let (ret, m) = regmap_multi_reg_write hw
                 [(0x18, 0x48), (0x01, 0x91), (0x02, 0x00), (0x03, 0xee), (0x09, 0x21),
                  (0x04, 0x44), (0x05, 0xc4), (0x06, 0x44), (0x13, 0x0c)] m;
               (ret, m) = (if mode_flags ctx AND MIPI_DSI_MODE_VIDEO_BURST \<noteq> 0
                           then regmap_write hw 0x13 0x00 m else (ret, m))
           in if ret < 0 then (- EPROBE_DEFER, m)
              else
               (let (ret, m) = regmap_multi_reg_write hw
                      [(0xff, 0xd0), (0x01, 0x00), (0x02, 0x0e), (0x05, 0x00), (0x0a, 0x59),
                       (0x0b, 0x20), (0xff, 0x81), (0x09, 0xde), (0x09, 0xdf)] m
                in if ret < 0 then (- EPROBE_DEFER, m) else (ret, m))))"

definition lt9211c_mipi_rx_clk_sel :: "chip \<Rightarrow> io \<Rightarrow> int \<times> io" where
  "lt9211c_mipi_rx_clk_sel hw m =
     (let (ret, m) = regmap_multi_reg_write hw
            [(0xff, 0x85), (0xe9, 0x88), (0xff, 0x81), (0x80, 0x51), (0x81, 0x10),
             (0xff, 0x86), (0x32, 0x03)] m
      in if ret < 0 then (- EPROBE_DEFER, m) else (ret, m))"

definition lt9211c_mipi_rx_input_sel :: "chip \<Rightarrow> io \<Rightarrow> int \<times> io" where
  "lt9211c_mipi_rx_input_sel hw m =
     (let (ret, m) = regmap_multi_reg_write hw [(0xff, 0xd0), (0x04, 0x00), (0x21, 0x46)] m
      in if ret < 0 then (- EPROBE_DEFER, m) else (ret, m))"

definition lt9211c_mipi_rx_lane_set :: "chip \<Rightarrow> io \<Rightarrow> int \<times> io" where
  "lt9211c_mipi_rx_lane_set hw m =
     (let (ret, m) = regmap_multi_reg_write hw
            [(0xff, 0x85), (0x3f, 0x08), (0x40, 0x04), (0x41, 0x03), (0x42, 0x02), (0x43, 0x01),
             (0x45, 0x04), (0x46, 0x03), (0x47, 0x02), (0x48, 0x01),
             (0x44, 0x00), (0x49, 0x00)] m
      in if ret < 0 then (- EPROBE_DEFER, m) else (ret, m))"

definition lt9211c_mipi_rx_dig_set :: "chip \<Rightarrow> io \<Rightarrow> int \<times> io" where
  "lt9211c_mipi_rx_dig_set hw m =
     (let (ret, m) = lt9211c_mipi_rx_input_sel hw m;
          (ret, m) = lt9211c_mipi_rx_lane_set hw m
      in (ret, m))"

definition lt9211c_system_act_rx_sel :: "chip \<Rightarrow> io \<Rightarrow> int \<times> io" where
  "lt9211c_system_act_rx_sel hw m =
     (let (ret, m) = regmap_write hw 0xff 0x85 m;
          (ret, data, m) = regmap_bulk_read hw 0x30 1 m;
          (ret, m) = regmap_multi_reg_write hw [(0x30, 0xf8 AND ucast (data 0))] m
      in if ret < 0 then (- EPROBE_DEFER, m)
         else (let (ret, data, m) = regmap_bulk_read hw 0x30 1 m;
                   (ret, m) = regmap_write hw 0x30 (ucast (data 0) OR 0x01) m;
                   (ret, data, m) = regmap_bulk_read hw 0x30 1 m;
                   (ret, m) = regmap_write hw 0x30 (ucast (data 0) OR 0x10) m
               in (ret, m)))"

definition lt9211c_mipi_rx_source_config :: "chip \<Rightarrow> lt9211c \<Rightarrow> io \<Rightarrow> int \<times> io" where
  "lt9211c_mipi_rx_source_config hw ctx m =
     (let (ret, m) = lt9211c_mipi_rx_phy_poweron hw ctx m;
          (ret, m) = lt9211c_mipi_rx_clk_sel hw m;
          (ret, m) = lt9211c_system_video_chk_clk_src_sel hw LT9211C_MLRX_BYTE_CLK m;
          (ret, m) = lt9211c_system_video_chk_src_sel hw m;
          (ret, m) = lt9211c_system_act_rx_sel hw m;
          (ret, m) = lt9211c_mipi_rx_dig_set hw m
      in (ret, m))"

definition lt9211c_lvds_tx_phy_poweroff :: "chip \<Rightarrow> io \<Rightarrow> int \<times> io" where
  "lt9211c_lvds_tx_phy_poweroff hw m =
     (let (ret, m) = regmap_multi_reg_write hw [(0xff, 0x82), (0x36, 0x00), (0x37, 0x00)] m
      in if ret < 0 then (- EPROBE_DEFER, m) else (ret, m))"

definition lt9211c_lvds_tx_phy_poweron :: "chip \<Rightarrow> io \<Rightarrow> int \<times> io" where
  "lt9211c_lvds_tx_phy_poweron hw m =
     (let (ret, m) = regmap_multi_reg_write hw
            [(0xff, 0x82), (0x36, 0x03), (0x37, 0x44),
             (0x38, 0x14), (0x39, 0x31), (0x3a, 0xc8), (0x3b, 0x00), (0x3c, 0x0f),
             (0x46, 0x40), (0x47, 0x40), (0x48, 0x40), (0x49, 0x40), (0x4a, 0x40), (0x4b, 0x40),
             (0x4c, 0x40), (0x4d, 0x40), (0x4e, 0x40), (0x4f, 0x40), (0x50, 0x40), (0x51, 0x40),
             (0xff, 0x81), (0x03, 0xbf), (0x03, 0xff)] m
      in if ret < 0 then (- EPROBE_DEFER, m) else (ret, m))"

definition lt9211c_system_tx_sram_sel :: "chip \<Rightarrow> io \<Rightarrow> int \<times> io" where
  "lt9211c_system_tx_sram_sel hw m =
     (let (ret, m) = regmap_multi_reg_write hw [(0xff, 0x85)] m
      in if ret < 0 then (- EPROBE_DEFER, m)
         else (let (ret, data, m) = regmap_bulk_read hw 0x30 1 m;
                   (ret, m) = regmap_write hw 0x30 (ucast (data 0 AND 0x3f)) m;
                   (ret, data, m) = regmap_bulk_read hw 0x30 1 m;
                   (ret, m) = regmap_write hw 0x30 (ucast (data 0) OR 0x40) m
               in (ret, m)))"

definition lt9211c_lvds_tx_source_config :: "chip \<Rightarrow> io \<Rightarrow> int \<times> io" where
  "lt9211c_lvds_tx_source_config hw m =
     (let (ret, m) = lt9211c_system_tx_sram_sel hw m;
          (ret, m) = lt9211c_lvds_tx_phy_poweron hw m
      in (ret, m))"

section \<open>Output PLL engine\<close>

definition lt9211c_system_fm_clk_get :: "chip \<Rightarrow> u8 \<Rightarrow> io \<Rightarrow> u32 \<times> io" where
  "lt9211c_system_fm_clk_get hw clk_src m =
     (let (ret, m) = regmap_write hw 0xff 0x86 m;
          (ret, m) = regmap_write hw 0x90 (ucast clk_src) m;
          m = usleep_range 5000 5000 m;
          (ret, m) = regmap_write hw 0x90 (ucast clk_src OR 0x80) m;
          (ret, data, m) = regmap_bulk_read hw 0x98 1 m;
          return_data = (ucast (data 0 AND 0x0f) :: u32);
          (ret, data, m) = regmap_bulk_read hw 0x99 1 m;
          return_data = push_bit 8 return_data + ucast (data 0);
          (ret, data, m) = regmap_bulk_read hw 0x9a 1 m;
          return_data = push_bit 8 return_data + ucast (data 0);
          (ret, data, m) = regmap_bulk_read hw 0x90 1 m;
          (ret, m) = regmap_write hw 0x90 (ucast clk_src OR 0x7f) m
      in (return_data, m))"

definition lt9211c_lvds_tx_pll_ref_pixel_clk_get :: "chip \<Rightarrow> lt9211c \<Rightarrow> io \<Rightarrow> int \<times> lt9211c \<times> io" where
  "lt9211c_lvds_tx_pll_ref_pixel_clk_get hw ctx m =
     (let (clk, m) = lt9211c_system_fm_clk_get hw LT9211C_AD_DESSCPLL_PIX_CLK m
      in (0, ctx\<lparr>lt9211c_video_timing := (lt9211c_video_timing ctx)\<lparr>pclk_khz := clk\<rparr>\<rparr>, m))"

definition lt9211c_lvds_tx_pll_ref_pixel_clk_set :: "chip \<Rightarrow> io \<Rightarrow> int \<times> io" where
  "lt9211c_lvds_tx_pll_ref_pixel_clk_set hw m =
     (let (ret, m) = regmap_multi_reg_write hw [(0xff, 0x82), (0x30, 0x00)] m
      in if ret < 0 then (- EPROBE_DEFER, m) else (ret, m))"

text \<open>
  The three band chains of \<^verbatim>\<open>lt9211c_lvds_tx_pll_config\<close>. Each gives the value the
  branch writes (to register 0x31, 0x32 or 0x33) and, for the first two, the divider it
  assigns.
\<close>

definition lvds_tx_phy_clk :: "u32 \<Rightarrow> u32" where
  "lvds_tx_phy_clk pclk = pclk * 7 div 2"

definition txpll_prediv_sel :: "u32 \<Rightarrow> u32 \<times> u8" where
  "txpll_prediv_sel pclk =
     (if pclk < 20000 then (0x28, 1)
      else if pclk < 40000 then (0x28, 1)
      else if pclk < 80000 then (0x29, 2)
      else if pclk < 160000 then (0x2a, 4)
      else if pclk < 320000 then (0x2b, 8)
      else (0x2f, 16))"

definition txpll_serick_divsel :: "u32 \<Rightarrow> u32 \<times> u8" where
  "txpll_serick_divsel phy_clk =
     (if phy_clk \<ge> 640000 then (0x42, 1)
      else if phy_clk \<ge> 320000 then (0x02, 2)
      else if phy_clk \<ge> 160000 then (0x12, 4)
      else if phy_clk \<ge> 80000 then (0x22, 8)
      else (0x32, 16))"

definition pre_div_of :: "u32 \<Rightarrow> u8" where
  "pre_div_of pclk = snd (txpll_prediv_sel pclk)"

definition serial_clk_div_of :: "u32 \<Rightarrow> u8" where
  "serial_clk_div_of phy_clk = snd (txpll_serick_divsel phy_clk)"

definition txpll_pixdiv_sel :: "u32 \<Rightarrow> u32" where
  "txpll_pixdiv_sel pixel_clk_div =
     (if pixel_clk_div \<le> 1 * 2 then 0x00
      else if pixel_clk_div \<le> 2 * 2 then 0x01
      else if pixel_clk_div \<le> 4 * 2 then 0x02
      else if pixel_clk_div \<le> 8 * 2 then 0x03
      else 0x03)"

definition lt9211c_lvds_tx_pll_config :: "chip \<Rightarrow> lt9211c \<Rightarrow> io \<Rightarrow> fault + (int \<times> io)" where
  "lt9211c_lvds_tx_pll_config hw ctx m =
     (let pclk = pclk_khz (lt9211c_video_timing ctx);
          phy_clk = lvds_tx_phy_clk pclk;
          (ret, m) = regmap_write hw 0xff 0x85 m;
          (ret, data, m) = regmap_bulk_read hw 0x6f 1 m;
          (ret, m) = regmap_write hw 0x6f (ucast (data 0 OR 0x01)) m;
          (ret, m) = regmap_write hw 0xff 0x82 m;
          (prediv_sel, pre_div) = txpll_prediv_sel pclk;
          (ret, m) = regmap_write hw 0x31 prediv_sel m;
          (ret, m) = regmap_write hw 0xff 0x82 m;
          (serick_divsel, serial_clk_div) = txpll_serick_divsel phy_clk;
          (ret, m) = regmap_write hw 0x32 serick_divsel m;
          (ret, m) = regmap_write hw 0xff 0x82 m
      in if pclk \<ge> 150000 \<and> pclk * 7 = 0 then Inl DivideByZero
         else
          (let (ret, m) =
                 (if pclk < 150000 then regmap_write hw 0x33 0x04 m
                  else
                    (let pixel_clk_div =
                           (ucast (ucast (phy_clk * ucast serial_clk_div * 2 div (pclk * 7)) :: u8) :: u32)
                     in regmap_write hw 0x33 (txpll_pixdiv_sel pixel_clk_div) m))
           in if pclk div ucast pre_div = 0 then Inl DivideByZero
              else
               (let div_set = (ucast (phy_clk * ucast serial_clk_div div (pclk div ucast pre_div)) :: u8);
                    (ret, m) = regmap_write hw 0x34 0x01 m;
                    (ret, m) = regmap_write hw 0x35 (ucast div_set) m
                in Inr (ret, m))))"

text \<open>
  The loop of \<^verbatim>\<open>lt9211c_lvds_tx_pll_calibration\<close>: at most four rounds
  (\<^verbatim>\<open>count <= 3\<close>), left early on the done bit.
\<close>

function tx_pll_calibration_rounds :: "chip \<Rightarrow> int \<Rightarrow> io \<Rightarrow> io" where
  "tx_pll_calibration_rounds hw count m =
     (if count \<le> 3 then
        (let (ret, m) = regmap_multi_reg_write hw [(0xff, 0x87), (0x0f, 0x00), (0x0f, 0x01)] m;
             m = usleep_range (20 * 1000) (20 * 1000) m;
             (ret, data, m) = regmap_bulk_read hw 0x39 1 m;
             data = data 0 AND 0x01
         in if data = 0x01 then m else tx_pll_calibration_rounds hw (count + 1) m)
      else m)"
  by pat_completeness auto
termination
  by (relation "measure (\<lambda>(hw, count, m). nat (4 - count))") auto

definition lt9211c_lvds_tx_pll_calibration :: "chip \<Rightarrow> io \<Rightarrow> int \<times> io" where
  "lt9211c_lvds_tx_pll_calibration hw m =
     (let (ret, m) = regmap_write hw 0xff 0x81 m;
          (ret, m) = regmap_write hw 0x0c 0xfe m;
          m = usleep_range 1000 1000 m;
          (ret, m) = regmap_write hw 0x0c 0xff m;
          m = tx_pll_calibration_rounds hw 0 m;
          (ret, data, m) = regmap_bulk_read hw 0x39 1 m
      in if data 0 AND 0x04 \<noteq> 0 then (0, m) else (- ENOPARAM, m))"

definition lt9211c_lvds_tx_config_video ::
  "chip \<Rightarrow> lt9211c \<Rightarrow> io \<Rightarrow> fault + (int \<times> lt9211c \<times> io)"
where
  "lt9211c_lvds_tx_config_video hw ctx m =
     (let (ret, ctx, m) = lt9211c_lvds_tx_pll_ref_pixel_clk_get hw ctx m;
          (ret, m) = lt9211c_lvds_tx_pll_ref_pixel_clk_set hw m
      in case lt9211c_lvds_tx_pll_config hw ctx m of
           Inl f \<Rightarrow> Inl f
         | Inr (ret, m) \<Rightarrow>
             (let (ret, m) = lt9211c_lvds_tx_pll_calibration hw m in Inr (ret, ctx, m)))"

section \<open>Output formatter\<close>

definition lt9211c_lvds_tx_port_set :: "chip \<Rightarrow> io \<Rightarrow> int \<times> io" where
  "lt9211c_lvds_tx_port_set hw m =
     (let (ret, m) = regmap_write hw 0xff 0x85 m;
          (ret, data, m) = regmap_bulk_read hw 0x6f 1 m;
          (ret, m) = regmap_write hw 0x6f (ucast (data 0 OR 0x90)) m
      in (ret, m))"

definition lt9211c_lvds_tx_video_format_set :: "chip \<Rightarrow> lt9211c_video_timing \<Rightarrow> io \<Rightarrow> int \<times> io" where
  "lt9211c_lvds_tx_video_format_set hw vt m =
     (let (ret, m) = regmap_write hw 0xff 0x85 m;
          (ret, data, m) = regmap_bulk_read hw 0x6e 1 m;
          (ret, m) = regmap_write hw 0x6e (ucast (data 0) AND 0xf7) m;
          (ret, data, m) = regmap_bulk_read hw 0x6f 1 m;
          (ret, m) = regmap_write hw 0x6f (ucast (data 0) AND 0xbf) m;
          (ret, data, m) = regmap_bulk_read hw 0x6f 1 m;
          (ret, m) = regmap_write hw 0x6f (ucast (data 0 OR 0x04)) m;
          (ret, m) = regmap_write hw 0x68 0x00 m
      in (ret, m))"

definition lt9211c_lvds_tx_lane_num_set :: "chip \<Rightarrow> io \<Rightarrow> int \<times> io" where
  "lt9211c_lvds_tx_lane_num_set hw m =
     (let (ret, m) = regmap_multi_reg_write hw
            [(0xff, 0x85), (0x4a, 0x01), (0x4b, 0x00), (0x4c, 0x10), (0x4d, 0x20),
             (0x4e, 0x50), (0x4f, 0x30),
             (0x50, 0x46), (0x51, 0x10), (0x52, 0x20), (0x53, 0x50), (0x54, 0x30),
             (0x55, 0x00), (0x56, 0x20)] m
      in if ret < 0 then (- EPROBE_DEFER, m) else (ret, m))"

definition lt9211c_lvds_tx_port_swap :: "chip \<Rightarrow> io \<Rightarrow> int \<times> io" where
  "lt9211c_lvds_tx_port_swap hw m =
     (let (ret, m) = regmap_multi_reg_write hw [(0xff, 0x85), (0x4a, 0x01)] m;
          (ret, data, m) = regmap_bulk_read hw 0x50 1 m;
          data = data 0 AND 0x40;
          (ret, m) = regmap_write hw 0x50 (ucast data) m
      in (ret, m))"

definition lt9211c_lvds_tx_sw_reset :: "chip \<Rightarrow> io \<Rightarrow> int \<times> io" where
  "lt9211c_lvds_tx_sw_reset hw m =
     (let (ret, m) = regmap_multi_reg_write hw [(0xff, 0x81), (0x08, 0x6f)] m;
          m = usleep_range 2000 2000 m;
          (ret, m) = regmap_write hw 0x08 0x7f m
      in (ret, m))"

definition lt9211c_lvds_tx_dig_set :: "chip \<Rightarrow> lt9211c_video_timing \<Rightarrow> io \<Rightarrow> int \<times> io" where
  "lt9211c_lvds_tx_dig_set hw vt m =
     (let (ret, m) = lt9211c_lvds_tx_port_set hw m;
          (ret, m) = lt9211c_lvds_tx_video_format_set hw vt m;
          (ret, m) = lt9211c_lvds_tx_lane_num_set hw m;
          (ret, m) = lt9211c_lvds_tx_port_swap hw m;
          (ret, m) = lt9211c_lvds_tx_sw_reset hw m
      in (ret, m))"

text \<open>
  One 16-bit field of \<^verbatim>\<open>lt9211c_video_check_get\<close>: the high byte is read, shifted and
  stored, then the low byte is read and added.
\<close>

definition video_check_read16 :: "chip \<Rightarrow> u32 \<Rightarrow> io \<Rightarrow> int \<times> u16 \<times> io" where
  "video_check_read16 hw reg m =
     (let (ret, data, m) = regmap_bulk_read hw reg 1 m;
          v = (word_of_int (uint (data 0) * 256) :: u16);
          (ret, data, m) = regmap_bulk_read hw (reg + 1) 1 m;
          v = v + ucast (data 0)
      in (ret, v, m))"

definition zero_video_timing :: lt9211c_video_timing where
  "zero_video_timing = timing 0 0 0 0 0 0 0 0 0 0 0"

definition lt9211c_video_check_get ::
  "chip \<Rightarrow> lt9211c_video_timing \<Rightarrow> io \<Rightarrow> int \<times> lt9211c_video_timing \<times> io"
where
  "lt9211c_video_check_get hw vt m =
     (let (ret, m) = regmap_multi_reg_write hw [(0xff, 0x81), (0x0b, 0x7f), (0x0b, 0xff)] m;
          m = usleep_range (80 * 1000) (80 * 1000) m;
          (ret, m) = regmap_write hw 0xff 0x86 m;
          (ret, v, m) = video_check_read16 hw 0x60 m; vt = vt\<lparr>htotal := v\<rparr>;
          (ret, v, m) = video_check_read16 hw 0x5c m; vt = vt\<lparr>hactive := v\<rparr>;
          (ret, v, m) = video_check_read16 hw 0x58 m; vt = vt\<lparr>hfront_porch := v\<rparr>;
          (ret, v, m) = video_check_read16 hw 0x50 m; vt = vt\<lparr>hsync_len := v\<rparr>;
          (ret, v, m) = video_check_read16 hw 0x54 m; vt = vt\<lparr>hback_porch := v\<rparr>;
          (ret, v, m) = video_check_read16 hw 0x62 m; vt = vt\<lparr>vtotal := v\<rparr>;
          (ret, v, m) = video_check_read16 hw 0x5e m; vt = vt\<lparr>vactive := v\<rparr>;
          (ret, v, m) = video_check_read16 hw 0x5a m; vt = vt\<lparr>vfront_porch := v\<rparr>;
          (ret, v, m) = video_check_read16 hw 0x52 m; vt = vt\<lparr>vsync_len := v\<rparr>;
          (ret, v, m) = video_check_read16 hw 0x56 m; vt = vt\<lparr>vback_porch := v\<rparr>
      in (ret, vt, m))"

definition lt9211c_lvds_tx_config_video_out :: "chip \<Rightarrow> io \<Rightarrow> int \<times> io" where
  "lt9211c_lvds_tx_config_video_out hw m =
     (let vt = zero_video_timing;
          (ret, vt, m) = lt9211c_video_check_get hw vt m;
          (ret, m) = lt9211c_lvds_tx_dig_set hw vt m
      in (ret, m))"

section \<open>Bring-up state machine\<close>

definition lt9211c_module_reset :: "io \<Rightarrow> io" where
  "lt9211c_module_reset m =
     (let m = gpiod_set_value_cansleep 0 m;
          m = usleep_range (60 * 1000) (60 * 1000) m;
          m = gpiod_set_value_cansleep 1 m;
          m = usleep_range (60 * 1000) (60 * 1000) m
      in m)"

text \<open>
  Modelled from the spec: \<^verbatim>\<open>schedule_delayed_work\<close> is the kernel's work queue; the
  model records the delay of each request to run the handler again.
\<close>

definition schedule_delayed_work :: "nat \<Rightarrow> lt9211c \<Rightarrow> lt9211c" where
  "schedule_delayed_work delayed_msec ctx = ctx\<lparr>delayed_work := delayed_work ctx @ [delayed_msec]\<rparr>"

text \<open>
  The wait for a stable input in the PLL stage:
  \<^verbatim>\<open>while (lt9211c_mipi_rx_video_check_stable(ctx) < 0) { counter++; if (counter > 50) break; }\<close>
\<close>

function video_stable_wait :: "chip \<Rightarrow> int \<Rightarrow> io \<Rightarrow> int \<times> io" where
  "video_stable_wait hw cnt m =
     (let (ret, m) = lt9211c_mipi_rx_video_check_stable hw m
      in if ret < 0 then
           (let cnt = cnt + 1
            in if cnt > 50 then (cnt, m) else video_stable_wait hw cnt m)
         else (cnt, m))"
  by pat_completeness auto
termination
  by (relation "measure (\<lambda>(hw, cnt, m). nat (50 - cnt))") auto

text \<open>
  \<^verbatim>\<open>lt9211c_module_config\<close>. Each \<^verbatim>\<open>case\<close> label of the \<^verbatim>\<open>switch\<close> is one function;
  falling through to the next label is the call of the next function, and a
  \<^verbatim>\<open>return\<close> ends the chain.
\<close>

definition case_CHIPTX_VIDEO_OUT :: "chip \<Rightarrow> lt9211c \<Rightarrow> io \<Rightarrow> fault + (int \<times> lt9211c \<times> io)" where
  "case_CHIPTX_VIDEO_OUT hw ctx m =
     (let (ret, m) = lt9211c_lvds_tx_config_video_out hw m in Inr (ret, ctx, m))"

definition case_CHIPTX_CONFIG_VIDEO :: "chip \<Rightarrow> lt9211c \<Rightarrow> io \<Rightarrow> fault + (int \<times> lt9211c \<times> io)" where
  "case_CHIPTX_CONFIG_VIDEO hw ctx m =
     (case lt9211c_lvds_tx_config_video hw ctx m of
        Inl f \<Rightarrow> Inl f
      | Inr (ret, ctx, m) \<Rightarrow>
          if ret < 0 then Inr (ret, schedule_delayed_work 0 ctx, m)
          else case_CHIPTX_VIDEO_OUT hw (ctx\<lparr>state := LT9211C_STATE_CHIPTX_VIDEO_OUT\<rparr>) m)"

text \<open>
  The statements of \<^verbatim>\<open>case LT9211C_STATE_CHIPRX_PLL_CONFIG\<close> that follow a successful
  \<^verbatim>\<open>lt9211c_mipi_rx_pll_config\<close>, up to the next label.
\<close>

definition after_pll_config :: "chip \<Rightarrow> lt9211c \<Rightarrow> io \<Rightarrow> lt9211c \<times> io" where
  "after_pll_config hw ctx m =
     (let (cnt, m) = video_stable_wait hw 0 m;
          ctx = ctx\<lparr>counter := cnt\<rparr>;
          (r, m) = lt9211c_lvds_tx_source_config hw m;
          ctx = ctx\<lparr>state := LT9211C_STATE_CHIPTX_CONFIG_VIDEO\<rparr>
      in (ctx, m))"

definition case_CHIPRX_PLL_CONFIG :: "chip \<Rightarrow> lt9211c \<Rightarrow> io \<Rightarrow> fault + (int \<times> lt9211c \<times> io)" where
  "case_CHIPRX_PLL_CONFIG hw ctx m =
     (let (ret, m) = lt9211c_mipi_rx_pll_config hw ctx m
      in if ret < 0
         then Inr (ret, schedule_delayed_work 0
                          (ctx\<lparr>state := LT9211C_STATE_CHIPRX_VIDTIMING_CONFIG\<rparr>), m)
         else
          (let (ctx, m) = after_pll_config hw ctx m
           in case_CHIPTX_CONFIG_VIDEO hw ctx m))"

definition case_CHIPRX_VIDTIMING_CONFIG ::
  "chip \<Rightarrow> u32 \<Rightarrow> lt9211c \<Rightarrow> io \<Rightarrow> fault + (int \<times> lt9211c \<times> io)"
where
  "case_CHIPRX_VIDTIMING_CONFIG hw stale ctx m =
     (case lt9211c_mipi_rx_video_timing_config hw stale ctx m of
        Inl f \<Rightarrow> Inl f
      | Inr (ret, ctx, m) \<Rightarrow>
          if ret \<ge> 0
          then case_CHIPRX_PLL_CONFIG hw (ctx\<lparr>state := LT9211C_STATE_CHIPRX_PLL_CONFIG\<rparr>) m
          else
           (let ctx = ctx\<lparr>counter := counter ctx + 1\<rparr>;
                ctx = (if fmt (mipi_rx_video_timing ctx) = 0x0a then ctx\<lparr>counter := 0\<rparr> else ctx);
                ctx = (if counter ctx > 30 then ctx\<lparr>state := LT9211C_STATE_PREPARE\<rparr> else ctx);
                ctx = schedule_delayed_work 0 ctx
            in Inr (ret, ctx, m)))"

text \<open>
  The statements of \<^verbatim>\<open>case LT9211C_STATE_PREPARE\<close>, up to the next label.
\<close>

definition prepare :: "chip \<Rightarrow> lt9211c \<Rightarrow> io \<Rightarrow> lt9211c \<times> io" where
  "prepare hw ctx m =
     (let ctx = ctx\<lparr>counter := 0\<rparr>;
          m = lt9211c_module_reset m;
          (r, m) = lt9211c_read_chipid hw m;
          (ret, m) = lt9211c_mipi_rx_source_config hw ctx m;
          (ret, m) = lt9211c_lvds_tx_phy_poweroff hw m;
          ctx = ctx\<lparr>state := LT9211C_STATE_CHIPRX_VIDTIMING_CONFIG\<rparr>
      in (ctx, m))"

definition case_PREPARE ::
  "chip \<Rightarrow> u32 \<Rightarrow> lt9211c \<Rightarrow> io \<Rightarrow> fault + (int \<times> lt9211c \<times> io)"
where
  "case_PREPARE hw stale ctx m =
     (let (ctx, m) = prepare hw ctx m
      in case_CHIPRX_VIDTIMING_CONFIG hw stale ctx m)"

text \<open>
  One invocation of the handler measures the frame rate at most once, so one value \<open>stale\<close>
  stands for the stack content that \<^verbatim>\<open>lt9211c_video_check_framerate_get\<close> finds in its
  local \<open>data\<close> during this invocation.
\<close>

definition lt9211c_module_config ::
  "chip \<Rightarrow> u32 \<Rightarrow> lt9211c \<Rightarrow> io \<Rightarrow> fault + (int \<times> lt9211c \<times> io)"
where
  "lt9211c_module_config hw stale ctx m =
     (let ctx = ctx\<lparr>mipi_rx_video_timing := zero_mipi_rx_video_timing\<rparr>
      in case state ctx of
           LT9211C_STATE_PREPARE \<Rightarrow> case_PREPARE hw stale ctx m
         | LT9211C_STATE_CHIPRX_VIDTIMING_CONFIG \<Rightarrow> case_CHIPRX_VIDTIMING_CONFIG hw stale ctx m
         | LT9211C_STATE_CHIPRX_PLL_CONFIG \<Rightarrow> case_CHIPRX_PLL_CONFIG hw ctx m
         | LT9211C_STATE_CHIPTX_CONFIG_VIDEO \<Rightarrow> case_CHIPTX_CONFIG_VIDEO hw ctx m
         | LT9211C_STATE_CHIPTX_VIDEO_OUT \<Rightarrow> case_CHIPTX_VIDEO_OUT hw ctx m)"

section \<open>Reference tables and concrete devices\<close>

text \<open>
  The conversion factors of the packed pixel formats, as (code, numerator, denominator):
  the active pixel count of a line is the word count times numerator over denominator
  (RAW10, code 0x0c: 5/4; RGB 8 bpc, code 0x0a: 1/3). The codes are the fourteen that
  the driver enumerates; a code that is not listed takes the 24 bits per pixel factor
  1/3.
\<close>

definition pixel_format_factors :: "(u8 \<times> nat \<times> nat) list" where
  "pixel_format_factors =
     [(0x01, 5, 2), (0x0e, 5, 2), (0x02, 1, 3), (0x03, 1, 2), (0x04, 15, 4), (0x05, 9, 2),
      (0x06, 1, 3), (0x0a, 1, 3), (0x07, 1, 2), (0x08, 9, 4), (0x09, 9, 4), (0x0b, 1, 1),
      (0x0c, 5, 4), (0x0d, 3, 2)]"

definition format_factor :: "u8 \<Rightarrow> nat \<times> nat" where
  "format_factor code =
     (case map_of pixel_format_factors code of Some f \<Rightarrow> f | None \<Rightarrow> (1, 3))"

text \<open>
  The bits per pixel that the comment on each arm of the \<^verbatim>\<open>switch\<close> gives for its format
  code (\<^verbatim>\<open>//wc = hact * 36bpp/8\<close> on the arm of code 0x05, \<^verbatim>\<open>//wc = hact * 24bpp/8\<close> on
  the default arm): by these comments a line of \<open>hact\<close> pixels has the word count
  \<open>hact * bpp / 8\<close>, so the pixel count of a word count is \<open>wc * 8 / bpp\<close>.
\<close>

definition comment_bits_per_pixel :: "u8 \<Rightarrow> nat" where
  "comment_bits_per_pixel code =
     (case map_of [(0x01, 20), (0x0e, 20), (0x02, 24), (0x03, 16), (0x04, 30), (0x05, 36),
                   (0x06, 24), (0x0a, 24), (0x07, 16), (0x08, 18), (0x09, 18), (0x0b, 8),
                   (0x0c, 10), (0x0d, 12 :: nat)] code of
        Some b \<Rightarrow> b
      | None \<Rightarrow> 24)"

text \<open>
  A table entry qualifies for a probe \<open>(h, v)\<close> at a measured rate when its active
  sizes equal the probe's and its nominal rate is within 3 of the measured one.
\<close>

definition qualifies :: "u16 \<Rightarrow> u16 \<Rightarrow> u8 \<Rightarrow> lt9211c_video_timing \<Rightarrow> bool" where
  "qualifies h v rate e \<longleftrightarrow>
     hactive e = h \<and> vactive e = v \<and> \<bar>int (unat (framerate e)) - int (unat rate)\<bar> \<le> 3"

text \<open>What the scan does with the entry it selects.\<close>

definition program_timing ::
  "chip \<Rightarrow> lt9211c_video_timing \<Rightarrow> u8 \<Rightarrow> lt9211c \<Rightarrow> io \<Rightarrow> int \<times> lt9211c \<times> io"
where
  "program_timing hw e rate ctx m =
     (fst (lt9211c_mipi_rx_video_timing_set hw (resolved_timing e rate) m),
      ctx\<lparr>lt9211c_video_timing := resolved_timing e rate\<rparr>,
      snd (lt9211c_mipi_rx_video_timing_set hw (resolved_timing e rate) m))"

text \<open>The bus traffic of the frame rate measurement and of programming a timing.\<close>

definition framerate_events :: "event list" where
  "framerate_events = [RegWrite 0xff 0x86, RegRead 0x43 1, RegRead 0x44 1, RegRead 0x45 1]"

definition timing_events :: "lt9211c_video_timing \<Rightarrow> event list" where
  "timing_events vt =
     [RegWrite 0xff 0xd0,
      RegWrite 0x0d (ucast (drop_bit 8 (vtotal vt))), RegWrite 0x0e (ucast (vtotal vt)),
      RegWrite 0x0f (ucast (drop_bit 8 (vactive vt))), RegWrite 0x10 (ucast (vactive vt)),
      RegWrite 0x15 (ucast (vsync_len vt)),
      RegWrite 0x17 (ucast (drop_bit 8 (vfront_porch vt))), RegWrite 0x18 (ucast (vfront_porch vt)),
      RegWrite 0x11 (ucast (drop_bit 8 (htotal vt))), RegWrite 0x12 (ucast (htotal vt)),
      RegWrite 0x13 (ucast (drop_bit 8 (hactive vt))), RegWrite 0x14 (ucast (hactive vt)),
      RegWrite 0x4c (ucast (hsync_len vt)),
      RegWrite 0x19 (ucast (drop_bit 8 (hfront_porch vt))), RegWrite 0x1a (ucast (hfront_porch vt))]"

text \<open>One round of the calibration poll: the sleep and the two reads.\<close>

definition poll_events :: "event list" where
  "poll_events = [Usleep 500000, RegRead 0x94 1, RegRead 0x87 1]"

text \<open>
  What the handler does before it calls \<^verbatim>\<open>lt9211c_mipi_rx_video_timing_config\<close>, when it is
  entered in \<^verbatim>\<open>LT9211C_STATE_PREPARE\<close> or in \<^verbatim>\<open>LT9211C_STATE_CHIPRX_VIDTIMING_CONFIG\<close>:
  the \<^verbatim>\<open>memset\<close> of the probe result and, from \<^verbatim>\<open>LT9211C_STATE_PREPARE\<close>, the statements
  of that label, which fall through to the timing stage.
\<close>

definition timing_stage_entry :: "chip \<Rightarrow> lt9211c \<Rightarrow> io \<Rightarrow> lt9211c \<times> io" where
  "timing_stage_entry hw ctx m =
     (let ctx = ctx\<lparr>mipi_rx_video_timing := zero_mipi_rx_video_timing\<rparr>
      in if state ctx = LT9211C_STATE_PREPARE then prepare hw ctx m else (ctx, m))"

text \<open>
  Concrete devices: no transport error, and every register reads a fixed byte.
  \<open>regs_1080p60\<close> is a 1920x1080 RGB888 stream at 60 Hz on which every stage succeeds;
  \<open>regs_1080p59\<close> measures 59 Hz and \<open>regs_1080p75\<close> 75 Hz; \<open>regs_rgb12_3840\<close> is a
  3840 pixel RGB 12 bpc line (word count 17280); \<open>regs_silent\<close> reads zero everywhere.
\<close>

definition chip_regs :: "(u8 \<Rightarrow> u8) \<Rightarrow> chip" where
  "chip_regs f = (\<lambda>n r. (0, f r))"

definition regs_1080p60 :: "u8 \<Rightarrow> u8" where
  "regs_1080p60 r =
     (if r = 0x82 then 0x16 else if r = 0x83 then 0x80 else if r = 0x84 then 0x0a
      else if r = 0x85 then 0x04 else if r = 0x86 then 0x38
      else if r = 0x43 then 0x06 else if r = 0x44 then 0x5b else if r = 0x45 then 0x9b
      else if r = 0x87 then 0x18 else if r = 0x40 then 0x01 else if r = 0x39 then 0x05
      else if r = 0x98 then 0x02 else if r = 0x99 then 0x44 else if r = 0x9a then 0x14
      else 0)"

definition regs_1080p59 :: "u8 \<Rightarrow> u8" where
  "regs_1080p59 r =
     (if r = 0x82 then 0x16 else if r = 0x83 then 0x80 else if r = 0x84 then 0x0a
      else if r = 0x85 then 0x04 else if r = 0x86 then 0x38
      else if r = 0x43 then 0x06 else if r = 0x44 then 0x77 else if r = 0x45 then 0x31
      else 0)"

definition regs_1080p75 :: "u8 \<Rightarrow> u8" where
  "regs_1080p75 r =
     (if r = 0x82 then 0x16 else if r = 0x83 then 0x80 else if r = 0x84 then 0x0a
      else if r = 0x85 then 0x04 else if r = 0x86 then 0x38
      else if r = 0x43 then 0x05 else if r = 0x44 then 0x16 else if r = 0x45 then 0x15
      else 0)"

definition regs_rgb12_3840 :: "u8 \<Rightarrow> u8" where
  "regs_rgb12_3840 r =
     (if r = 0x82 then 0x43 else if r = 0x83 then 0x80 else if r = 0x84 then 0x05
      else if r = 0x85 then 0x08 else if r = 0x86 then 0x70
      else 0)"

definition regs_silent :: "u8 \<Rightarrow> u8" where
  "regs_silent r = 0"

definition io0 :: io where
  "io0 = \<lparr>ops = 0, trace = []\<rparr>"

text \<open>The context as \<^verbatim>\<open>lt9211c_attach_dsi\<close> and \<^verbatim>\<open>lt9211c_init_work\<close> leave it.\<close>

definition ctx_attached :: lt9211c where
  "ctx_attached =
     \<lparr>lanes = 4, mode_flags = 0xe3, state = LT9211C_STATE_PREPARE,
      mipi_rx_video_timing = zero_mipi_rx_video_timing,
      lt9211c_video_timing = zero_video_timing, counter = 0, delayed_work = []\<rparr>"

text \<open>The context once the probe has seen a 1920x1080 RGB888 line.\<close>

definition ctx_probed_1080p :: lt9211c where
  "ctx_probed_1080p =
     ctx_attached\<lparr>mipi_rx_video_timing :=
       \<lparr>wc = 5760, hact = 1920, vact = 1080, fmt = 0x0a, pa_lpn = 0, frame_rate = 0\<rparr>\<rparr>"

text \<open>
  The bus traffic of \<^verbatim>\<open>lt9211c_lvds_tx_pll_config\<close> for a pixel clock, given the byte
  it reads from register 0x6f.
\<close>

definition tx_pll_config_events :: "u32 \<Rightarrow> u8 \<Rightarrow> event list" where
  "tx_pll_config_events pclk data =
     (let phy_clk = lvds_tx_phy_clk pclk;
          pre_div = pre_div_of pclk;
          serial_clk_div = serial_clk_div_of phy_clk
      in [RegWrite 0xff 0x85, RegRead 0x6f 1, RegWrite 0x6f (data OR 0x01),
          RegWrite 0xff 0x82, RegWrite 0x31 (ucast (fst (txpll_prediv_sel pclk))),
          RegWrite 0xff 0x82, RegWrite 0x32 (ucast (fst (txpll_serick_divsel phy_clk))),
          RegWrite 0xff 0x82,
          RegWrite 0x33
            (if pclk < 150000 then 0x04
             else ucast (txpll_pixdiv_sel
                    (ucast (ucast (phy_clk * ucast serial_clk_div * 2 div (pclk * 7)) :: u8)))),
          RegWrite 0x34 0x01,
          RegWrite 0x35 (ucast (phy_clk * ucast serial_clk_div div (pclk div ucast pre_div)))])"

text \<open>
  The bus traffic of \<^verbatim>\<open>lt9211c_mipi_rx_dessc_pll_set\<close> on a bus without transport
  errors, given the byte it reads back from register 0x26.
\<close>

definition dessc_pll_events :: "u32 \<Rightarrow> u8 \<Rightarrow> event list" where
  "dessc_pll_events pclk data =
     (let d = dessc_pll_divider pclk; p = pcr_setting_calc pclk d
      in [RegWrite 0xff 0x82, RegWrite 0x26 0x20, RegWrite 0x27 0x40,
          RegWrite 0x2f (ucast (fst (dessc_pll_divsel pclk)))] @
         (if pclk < 22000 then [RegWrite 0x2c 0x01] else []) @
         [RegWrite 0xff 0xd0, RegWrite 0x08 0x00,
          RegWrite 0x26 (0x80 OR ucast (pcr_m p)),
          RegWrite 0x2d (ucast (pcr_up_limit p)),
          RegWrite 0x31 (ucast (pcr_down_limit p)),
          RegWrite 0x27 (ucast (drop_bit 16 (pcr_k p))),
          RegWrite 0x28 (ucast (drop_bit 8 (pcr_k p))),
          RegWrite 0x29 (ucast (pcr_k p)),
          RegRead 0x26 1, RegWrite 0x26 (data AND 0x7f),
          RegWrite 0xff 0x81, RegWrite 0x03 0xfe, Usleep 1000, RegWrite 0x03 0xff])"

text \<open>The context once the 1920x1080 at 60 Hz entry has been resolved.\<close>

definition ctx_resolved_1080p60 :: lt9211c where
  "ctx_resolved_1080p60 =
     ctx_probed_1080p\<lparr>lt9211c_video_timing :=
       resolved_timing (timing 88 44 148 1920 2200 4 5 36 1080 1125 60) 60\<rparr>"

text \<open>
  In a calibration poll entered with the bus at \<open>m\<close>, round \<open>k\<close> (counted from 0) reads
  the status register 0x87 as its second access; \<open>pcr_stable_seen hw m k\<close> says that
  this read has both bits of the mask 0x18 set.
\<close>

definition pcr_stable_seen :: "chip \<Rightarrow> io \<Rightarrow> nat \<Rightarrow> bool" where
  "pcr_stable_seen hw m k \<longleftrightarrow> snd (hw (ops m + 2 * k + 1) 0x87) AND 0x18 = 0x18"

text \<open>The bus after one round of the calibration poll.\<close>

definition poll_round :: "chip \<Rightarrow> io \<Rightarrow> io" where
  "poll_round hw m =
     snd (snd (regmap_bulk_read hw 0x87 1
       (snd (snd (regmap_bulk_read hw 0x94 1 (usleep_range (500 * 1000) (500 * 1000) m))))))"

text \<open>
  \<open>regs_rgb8_idle\<close> reports the RGB 8 bpc format code with no active video. The two
  contexts are in \<^verbatim>\<open>LT9211C_STATE_CHIPRX_VIDTIMING_CONFIG\<close> after 30 failures.
\<close>

definition regs_rgb8_idle :: "u8 \<Rightarrow> u8" where
  "regs_rgb8_idle r = (if r = 0x84 then 0x0a else 0)"

definition ctx_retrying :: lt9211c where
  "ctx_retrying = ctx_attached\<lparr>state := LT9211C_STATE_CHIPRX_VIDTIMING_CONFIG, counter := 30\<rparr>"

text \<open>
  The bus traffic of the stages of the handler, as the register tables and the
  read-modify-write sequences of the source give it. The lists from
  \<open>timing_stage_events\<close> on are those of one pass on the device \<open>regs_1080p60\<close> (every
  register that it does not list reads 0).
\<close>

text \<open>
  The bus and GPIO traffic of the statements of \<^verbatim>\<open>case LT9211C_STATE_PREPARE\<close> for a
  source with four lanes in burst mode, on a device whose registers 0x00, 0x80 and 0x30
  read zero: the reset pulse, the chip id read, the input front end set-up and the output
  PHY power-down.
\<close>

definition prepare_events :: "event list" where
  "prepare_events =
     [GpioSet 0, Usleep 60000, GpioSet 1, Usleep 60000, RegWrite 0xff 0x81, RegRead 0x00 3,
      RegWrite 0xff 0xd0, RegRead 0x00 1, RegWrite 0x00 0x00, RegWrite 0xff 0x82,
      RegWrite 0x01 0x11, RegWrite 0x18 0x48, RegWrite 0x01 0x91, RegWrite 0x02 0x00,
      RegWrite 0x03 0xee, RegWrite 0x09 0x21, RegWrite 0x04 0x44, RegWrite 0x05 0xc4,
      RegWrite 0x06 0x44, RegWrite 0x13 0x0c, RegWrite 0x13 0x00, RegWrite 0xff 0xd0,
      RegWrite 0x01 0x00, RegWrite 0x02 0x0e, RegWrite 0x05 0x00, RegWrite 0x0a 0x59,
      RegWrite 0x0b 0x20, RegWrite 0xff 0x81, RegWrite 0x09 0xde, RegWrite 0x09 0xdf,
      RegWrite 0xff 0x85, RegWrite 0xe9 0x88, RegWrite 0xff 0x81, RegWrite 0x80 0x51,
      RegWrite 0x81 0x10, RegWrite 0xff 0x86, RegWrite 0x32 0x03, RegWrite 0xff 0x81,
      RegRead 0x80 1, RegWrite 0x80 0x00, RegRead 0x80 1, RegWrite 0x80 0x03,
      RegWrite 0xff 0x86, RegRead 0x80 1, RegWrite 0x3f 0x00, RegWrite 0x3f 0x05,
      RegWrite 0xff 0x85, RegRead 0x30 1, RegWrite 0x30 0x00, RegRead 0x30 1,
      RegWrite 0x30 0x01, RegRead 0x30 1, RegWrite 0x30 0x10, RegWrite 0xff 0xd0,
      RegWrite 0x04 0x00, RegWrite 0x21 0x46, RegWrite 0xff 0x85, RegWrite 0x3f 0x08,
      RegWrite 0x40 0x04, RegWrite 0x41 0x03, RegWrite 0x42 0x02, RegWrite 0x43 0x01,
      RegWrite 0x45 0x04, RegWrite 0x46 0x03, RegWrite 0x47 0x02, RegWrite 0x48 0x01,
      RegWrite 0x44 0x00, RegWrite 0x49 0x00, RegWrite 0xff 0x82, RegWrite 0x36 0x00,
      RegWrite 0x37 0x00]"

text \<open>
  The bus traffic of \<^verbatim>\<open>lt9211c_mipi_rx_video_timing_get\<close>: the start-of-transmission
  reads, the settle time and the probe of the line.
\<close>

definition probe_events :: "event list" where
  "probe_events =
     [RegWrite 0xff 0xd0, RegRead 0x88 1, RegRead 0x89 1, RegRead 0x8a 1, RegRead 0x8b 1,
      RegRead 0x8c 1, RegRead 0x8d 1, RegRead 0x8e 1, RegRead 0x8f 1, RegWrite 0xff 0xd0,
      RegWrite 0x02 0x0a, RegWrite 0xff 0xd0, RegRead 0x82 5, RegRead 0x9c 1]"

text \<open>
  The bus traffic of \<^verbatim>\<open>lt9211c_mipi_rx_video_timing_config\<close> when it resolves the
  1920x1080 at 60 Hz entry: the probe, the frame rate measurement and the fifteen timing
  registers.
\<close>

definition timing_stage_events :: "event list" where
  "timing_stage_events =
     [RegWrite 0xff 0xd0, RegRead 0x88 1, RegRead 0x89 1, RegRead 0x8a 1, RegRead 0x8b 1,
      RegRead 0x8c 1, RegRead 0x8d 1, RegRead 0x8e 1, RegRead 0x8f 1, RegWrite 0xff 0xd0,
      RegWrite 0x02 0x0a, RegWrite 0xff 0xd0, RegRead 0x82 5, RegRead 0x9c 1,
      RegWrite 0xff 0x86, RegRead 0x43 1, RegRead 0x44 1, RegRead 0x45 1,
      RegWrite 0xff 0xd0, RegWrite 0x0d 0x04, RegWrite 0x0e 0x65, RegWrite 0x0f 0x04,
      RegWrite 0x10 0x38, RegWrite 0x15 0x05, RegWrite 0x17 0x00, RegWrite 0x18 0x04,
      RegWrite 0x11 0x08, RegWrite 0x12 0x98, RegWrite 0x13 0x07, RegWrite 0x14 0x80,
      RegWrite 0x4c 0x2c, RegWrite 0x19 0x00, RegWrite 0x1a 0x58]"

text \<open>
  The bus traffic of \<^verbatim>\<open>lt9211c_mipi_rx_pll_config\<close> at 148500 kHz when the clock
  recovery is stable at the first poll: the PLL set-up with the divider 4, the clock
  recovery set-up, one round of the poll and the selection of the video check source.
\<close>

definition pll_stage_events :: "event list" where
  "pll_stage_events =
     [RegWrite 0xff 0x82, RegWrite 0x26 0x20, RegWrite 0x27 0x40, RegWrite 0x2f 0x05,
      RegWrite 0xff 0xd0, RegWrite 0x08 0x00, RegWrite 0x26 0x97, RegWrite 0x2d 0x18,
      RegWrite 0x31 0x16, RegWrite 0x27 0xbe, RegWrite 0x28 0x00, RegWrite 0x29 0x00,
      RegRead 0x26 1, RegWrite 0x26 0x00, RegWrite 0xff 0x81, RegWrite 0x03 0xfe,
      Usleep 1000, RegWrite 0x03 0xff, RegWrite 0xff 0xd0, RegWrite 0x0c 0x60,
      RegWrite 0x1c 0x60, RegWrite 0x24 0x70, RegWrite 0x2d 0x30, RegWrite 0x31 0x0a,
      RegWrite 0x25 0xf0, RegWrite 0x2a 0x30, RegWrite 0x21 0x4f, RegWrite 0x22 0x00,
      RegWrite 0x1e 0x01, RegWrite 0x23 0x80, RegWrite 0x0a 0x02, RegWrite 0x38 0x02,
      RegWrite 0x39 0x04, RegWrite 0x3a 0x08, RegWrite 0x3b 0x10, RegWrite 0x3f 0x04,
      RegWrite 0x40 0x08, RegWrite 0x41 0x10, RegWrite 0x42 0x20, RegWrite 0x2b 0xa0,
      RegWrite 0xff 0xd0, RegWrite 0x26 0x97, RegWrite 0x26 0x17, RegWrite 0x27 0x0f,
      RegWrite 0xff 0x81, RegWrite 0x20 0xbf, RegWrite 0x20 0xff, Usleep 5000,
      RegWrite 0x0b 0x6f, RegWrite 0x0b 0xff, RegWrite 0x0c 0x40, RegWrite 0x1b 0x00,
      RegWrite 0x1c 0x40, RegWrite 0xff 0x81, RegWrite 0x09 0xdb, RegWrite 0x09 0xdf,
      RegWrite 0xff 0xd0, RegWrite 0x08 0x80, RegWrite 0x08 0x00, Usleep 10000,
      Usleep 500000, RegRead 0x94 1, RegRead 0x87 1, RegWrite 0xff 0x81, RegRead 0x80 1,
      RegWrite 0x80 0x00, RegRead 0x80 1, RegWrite 0x80 0x01, RegWrite 0xff 0x86,
      RegRead 0x80 1, RegWrite 0x3f 0x00, RegWrite 0x3f 0x05]"

text \<open>
  The bus traffic of the rest of \<^verbatim>\<open>case LT9211C_STATE_CHIPRX_PLL_CONFIG\<close> when the
  video is stable at the first check: the check, and the output source set-up.
\<close>

definition output_source_events :: "event list" where
  "output_source_events =
     [RegWrite 0xff 0x86, RegRead 0x40 1, RegWrite 0xff 0x85, RegRead 0x30 1,
      RegWrite 0x30 0x00, RegRead 0x30 1, RegWrite 0x30 0x40, RegWrite 0xff 0x82,
      RegWrite 0x36 0x03, RegWrite 0x37 0x44, RegWrite 0x38 0x14, RegWrite 0x39 0x31,
      RegWrite 0x3a 0xc8, RegWrite 0x3b 0x00, RegWrite 0x3c 0x0f, RegWrite 0x46 0x40,
      RegWrite 0x47 0x40, RegWrite 0x48 0x40, RegWrite 0x49 0x40, RegWrite 0x4a 0x40,
      RegWrite 0x4b 0x40, RegWrite 0x4c 0x40, RegWrite 0x4d 0x40, RegWrite 0x4e 0x40,
      RegWrite 0x4f 0x40, RegWrite 0x50 0x40, RegWrite 0x51 0x40, RegWrite 0xff 0x81,
      RegWrite 0x03 0xbf, RegWrite 0x03 0xff]"

text \<open>
  The bus traffic of \<^verbatim>\<open>lt9211c_lvds_tx_config_video\<close> when the frequency meter reads
  148500 kHz and the output PLL locks in the first calibration round: the measurement,
  the reference selection, the dividers and the calibration.
\<close>

definition output_pll_events :: "event list" where
  "output_pll_events =
     [RegWrite 0xff 0x86, RegWrite 0x90 0x10, Usleep 5000, RegWrite 0x90 0x90,
      RegRead 0x98 1, RegRead 0x99 1, RegRead 0x9a 1, RegRead 0x90 1, RegWrite 0x90 0x7f,
      RegWrite 0xff 0x82, RegWrite 0x30 0x00, RegWrite 0xff 0x85, RegRead 0x6f 1,
      RegWrite 0x6f 0x01, RegWrite 0xff 0x82, RegWrite 0x31 0x2a, RegWrite 0xff 0x82,
      RegWrite 0x32 0x02, RegWrite 0xff 0x82, RegWrite 0x33 0x04, RegWrite 0x34 0x01,
      RegWrite 0x35 0x1c, RegWrite 0xff 0x81, RegWrite 0x0c 0xfe, Usleep 1000,
      RegWrite 0x0c 0xff, RegWrite 0xff 0x87, RegWrite 0x0f 0x00, RegWrite 0x0f 0x01,
      Usleep 20000, RegRead 0x39 1, RegRead 0x39 1]"

text \<open>
  The bus traffic of \<^verbatim>\<open>lt9211c_lvds_tx_config_video_out\<close>: the read-back of the timing
  the chip measures, and the output formatter set-up.
\<close>

definition video_out_events :: "event list" where
  "video_out_events =
     [RegWrite 0xff 0x81, RegWrite 0x0b 0x7f, RegWrite 0x0b 0xff, Usleep 80000,
      RegWrite 0xff 0x86, RegRead 0x60 1, RegRead 0x61 1, RegRead 0x5c 1, RegRead 0x5d 1,
      RegRead 0x58 1, RegRead 0x59 1, RegRead 0x50 1, RegRead 0x51 1, RegRead 0x54 1,
      RegRead 0x55 1, RegRead 0x62 1, RegRead 0x63 1, RegRead 0x5e 1, RegRead 0x5f 1,
      RegRead 0x5a 1, RegRead 0x5b 1, RegRead 0x52 1, RegRead 0x53 1, RegRead 0x56 1,
      RegRead 0x57 1, RegWrite 0xff 0x85, RegRead 0x6f 1, RegWrite 0x6f 0x90,
      RegWrite 0xff 0x85, RegRead 0x6e 1, RegWrite 0x6e 0x00, RegRead 0x6f 1,
      RegWrite 0x6f 0x00, RegRead 0x6f 1, RegWrite 0x6f 0x04, RegWrite 0x68 0x00,
      RegWrite 0xff 0x85, RegWrite 0x4a 0x01, RegWrite 0x4b 0x00, RegWrite 0x4c 0x10,
      RegWrite 0x4d 0x20, RegWrite 0x4e 0x50, RegWrite 0x4f 0x30, RegWrite 0x50 0x46,
      RegWrite 0x51 0x10, RegWrite 0x52 0x20, RegWrite 0x53 0x50, RegWrite 0x54 0x30,
      RegWrite 0x55 0x00, RegWrite 0x56 0x20, RegWrite 0xff 0x85, RegWrite 0x4a 0x01,
      RegRead 0x50 1, RegWrite 0x50 0x00, RegWrite 0xff 0x81, RegWrite 0x08 0x6f,
      Usleep 2000, RegWrite 0x08 0x7f]"

section \<open>Simplifier set-up\<close>

text \<open>
  The loops are unfolded one round at a time, by substitution, and never by the
  simplifier on its own.
\<close>

declare video_timing_scan.simps [simp del]
declare pcr_calibration_poll.simps [simp del]
declare tx_pll_calibration_rounds.simps [simp del]
declare video_stable_wait.simps [simp del]

section \<open>Word arithmetic\<close>

lemma unat_ucast_u16_u32: "unat (ucast (w :: u16) :: u32) = unat w"
proof -
  have "unat w < 2 ^ 16" using unsigned_less [of w] by simp
  then have "unat w < 2 ^ 32" by simp
  then show ?thesis
    by (simp add: unsigned_ucast_eq take_bit_nat_eq_self)
qed

lemma unat_ucast_u8_u32: "unat (ucast (w :: u8) :: u32) = unat w"
proof -
  have "unat w < 2 ^ 8" using unsigned_less [of w] by simp
  then have "unat w < 2 ^ 32" by simp
  then show ?thesis
    by (simp add: unsigned_ucast_eq take_bit_nat_eq_self)
qed

lemma scaled_word_count:
  "(word_of_int (uint w * int n div int d) :: u16) = word_of_nat (unat w * n div d)"
proof -
  have "uint w * int n div int d = int (unat w * n div d)"
    by (simp add: zdiv_int)
  then show ?thesis
    by (simp only: of_int_of_nat_eq)
qed

section \<open>Format to pixel count\<close>

lemma hact_of_wc_factor:
  "hact_of_wc code w =
     word_of_nat (unat w * fst (format_factor code) div snd (format_factor code))"
  unfolding hact_of_wc_def format_factor_def pixel_format_factors_def
  using scaled_word_count [of w 5 2] scaled_word_count [of w 1 3] scaled_word_count [of w 1 2]
    scaled_word_count [of w 15 4] scaled_word_count [of w 9 2] scaled_word_count [of w 9 4]
    scaled_word_count [of w 1 1] scaled_word_count [of w 5 4] scaled_word_count [of w 3 2]
  by simp

lemma format_factor_positive: "0 < fst (format_factor code) \<and> 0 < snd (format_factor code)"
  by (simp add: format_factor_def pixel_format_factors_def)

lemma format_factor_fallback:
  "code \<notin> set (map fst pixel_format_factors) \<Longrightarrow> format_factor code = (1, 3)"
  by (simp add: format_factor_def pixel_format_factors_def)

lemma hact_get_fields:
  assumes "lt9211c_mipi_rx_hact_get hw ctx m = (ret, ctx', m')"
  shows "hact (mipi_rx_video_timing ctx') =
           hact_of_wc (fmt (mipi_rx_video_timing ctx')) (wc (mipi_rx_video_timing ctx'))"
    and "fmt (mipi_rx_video_timing ctx') = snd (hw (ops m + 1 + 2) 0x84) AND 0x0f"
    and "wc (mipi_rx_video_timing ctx') =
           word_of_int (uint (snd (hw (ops m + 1 + 0) 0x82)) * 256 +
                        uint (snd (hw (ops m + 1 + 1) 0x83)))"
  using assms
  by (auto simp: lt9211c_mipi_rx_hact_get_def regmap_write_def regmap_bulk_read_def Let_def)

text \<open>
  What the code computes for every word count and format code: the word count times the
  factor of the code, reduced modulo \<open>2 ^ 16\<close> because it is stored in a 16-bit field.
\<close>

lemma hact_get_mod_65536:
  assumes "lt9211c_mipi_rx_hact_get hw ctx m = (ret, ctx', m')"
  shows "unat (hact (mipi_rx_video_timing ctx')) =
           (unat (wc (mipi_rx_video_timing ctx')) *
              fst (format_factor (fmt (mipi_rx_video_timing ctx'))) div
              snd (format_factor (fmt (mipi_rx_video_timing ctx')))) mod 65536"
proof -
  let ?t = "mipi_rx_video_timing ctx'"
  let ?n = "fst (format_factor (fmt ?t))" and ?d = "snd (format_factor (fmt ?t))"
  have "hact ?t = word_of_nat (unat (wc ?t) * ?n div ?d)"
    using hact_get_fields(1) [OF assms] hact_of_wc_factor by simp
  then show ?thesis
    by (simp add: unat_of_nat)
qed

lemma format_factors_table:
  "distinct (map fst pixel_format_factors)"
  "list_all (\<lambda>(c, n, d). 0 < n \<and> 0 < d) pixel_format_factors"
  "format_factor 0x0c = (5, 4)" "format_factor 0x0a = (1, 3)"
  by (simp_all add: pixel_format_factors_def format_factor_def)

text \<open>
  The arms that divide follow their comments (\<open>wc * 8 / bpp\<close>); the arms that multiply
  apply the ratio of their comments the other way round (\<open>wc * bpp / 8\<close>).
\<close>

lemma hact_dividing_arms:
  "list_all (\<lambda>c. \<forall>w. hact_of_wc c w = word_of_nat (unat w * 8 div comment_bits_per_pixel c))
     [0x02, 0x03, 0x06, 0x0a, 0x07, 0x0b]"
  by (simp add: hact_of_wc_factor format_factor_def pixel_format_factors_def
      comment_bits_per_pixel_def)

lemma hact_multiplying_arms:
  "list_all (\<lambda>c. \<forall>w. hact_of_wc c w = word_of_nat (unat w * comment_bits_per_pixel c div 8))
     [0x01, 0x0e, 0x04, 0x05, 0x08, 0x09, 0x0c, 0x0d]"
proof -
  have "n * 20 div 8 = n * 5 div 2" "n * 30 div 8 = n * 15 div 4" "n * 36 div 8 = n * 9 div 2"
    "n * 18 div 8 = n * 9 div 4" "n * 10 div 8 = n * 5 div 4" "n * 12 div 8 = n * 3 div 2"
    for n :: nat
    by presburger+
  then show ?thesis
    by (simp add: hact_of_wc_factor format_factor_def pixel_format_factors_def
        comment_bits_per_pixel_def)
qed

text \<open>
  C5 (the code at the failing input). For a 3840 pixel line of RGB 12 bpc (format code
  0x05, word count 17280 = 3840 * 36 / 8) the word count times the factor 9/2 of the
  code is 77760, and the driver stores the active pixel count 12224. The comment on the
  arm gives 36 bits per pixel, by which the line has 17280 * 8 / 36 = 3840 pixels; the
  arm multiplies by 36/8 where the arms that divide apply 8/bpp, and the product does
  not fit the 16-bit field.
\<close>

theorem hact_get_rgb12_overflows:
  "(let (ret, ctx', m') = lt9211c_mipi_rx_hact_get (chip_regs regs_rgb12_3840) ctx_attached io0;
        t = mipi_rx_video_timing ctx'
    in fmt t = 0x05 \<and> wc t = 17280 \<and> format_factor (fmt t) = (9, 2) \<and>
       unat (wc t) * 9 div 2 = 77760 \<and> hact t = 12224 \<and>
       comment_bits_per_pixel (fmt t) = 36 \<and>
       unat (wc t) * 8 div comment_bits_per_pixel (fmt t) = 3840) \<and>
   (\<forall>w. hact_of_wc 0x0a w = word_of_nat (unat w * 8 div comment_bits_per_pixel 0x0a)) \<and>
   (\<forall>w. hact_of_wc 0x05 w = word_of_nat (unat w * comment_bits_per_pixel 0x05 div 8))"
proof -
  have "(let (ret, ctx', m') = lt9211c_mipi_rx_hact_get (chip_regs regs_rgb12_3840) ctx_attached io0;
        t = mipi_rx_video_timing ctx'
    in fmt t = 0x05 \<and> wc t = 17280 \<and> format_factor (fmt t) = (9, 2) \<and>
       unat (wc t) * 9 div 2 = 77760 \<and> hact t = 12224 \<and>
       comment_bits_per_pixel (fmt t) = 36 \<and>
       unat (wc t) * 8 div comment_bits_per_pixel (fmt t) = 3840)"
    by (simp add: lt9211c_mipi_rx_hact_get_def regmap_write_def regmap_bulk_read_def Let_def
        chip_regs_def regs_rgb12_3840_def ctx_attached_def io0_def zero_mipi_rx_video_timing_def
        hact_of_wc_def format_factor_def pixel_format_factors_def comment_bits_per_pixel_def)
  with hact_dividing_arms hact_multiplying_arms show ?thesis
    by simp
qed

section \<open>Mode matcher: the scan is a first match\<close>

lemma not_rejected_iff:
  "\<not> (resolution_not_match rx e \<or> frame_rate_not_match rate e) \<longleftrightarrow>
     qualifies (hact rx) (vact rx) rate e"
  by (auto simp: resolution_not_match_def frame_rate_not_match_def qualifies_def)

lemma video_timing_scan_find:
  "video_timing_scan hw rate i ctx m =
     (case find (qualifies (hact (mipi_rx_video_timing ctx)) (vact (mipi_rx_video_timing ctx)) rate)
             (drop i lt9211c_support_timing) of
        None \<Rightarrow> (- ENOPARAM, ctx, m)
      | Some e \<Rightarrow> program_timing hw e rate ctx m)"
proof (induction hw rate i ctx m rule: video_timing_scan.induct)
  case (1 hw rate i ctx m)
  let ?rx = "mipi_rx_video_timing ctx"
  show ?case
  proof (cases "i < length lt9211c_support_timing")
    case False
    then show ?thesis
      by (subst video_timing_scan.simps) simp
  next
    case True
    then have d: "drop i lt9211c_support_timing =
        lt9211c_support_timing ! i # drop (Suc i) lt9211c_support_timing"
      by (simp add: Cons_nth_drop_Suc)
    show ?thesis
    proof (cases "qualifies (hact ?rx) (vact ?rx) rate (lt9211c_support_timing ! i)")
      case q: True
      then have "\<not> resolution_not_match ?rx (lt9211c_support_timing ! i)"
        and "\<not> frame_rate_not_match rate (lt9211c_support_timing ! i)"
        using not_rejected_iff by blast+
      with True q show ?thesis
        by (subst video_timing_scan.simps)
           (simp add: d program_timing_def split_def Let_def)
    next
      case q: False
      then have r: "resolution_not_match ?rx (lt9211c_support_timing ! i) \<or>
          frame_rate_not_match rate (lt9211c_support_timing ! i)"
        using not_rejected_iff by blast
      show ?thesis
      proof (cases "resolution_not_match ?rx (lt9211c_support_timing ! i)")
        case True
        with \<open>i < length lt9211c_support_timing\<close> q "1.IH"(1) show ?thesis
          by (subst video_timing_scan.simps) (simp add: d)
      next
        case False
        with r have "frame_rate_not_match rate (lt9211c_support_timing ! i)" by simp
        with False \<open>i < length lt9211c_support_timing\<close> q "1.IH"(2) show ?thesis
          by (subst video_timing_scan.simps) (simp add: d)
      qed
    qed
  qed
qed

lemma data_after_read_0: "data_after_read 0 b = ucast b"
  by (simp add: data_after_read_def)

lemma framerate_get_trace:
  assumes "lt9211c_video_check_framerate_get hw stale m = Inr (rate, m1)"
  shows "trace m1 = trace m @ framerate_events" and "ops m1 = ops m + 4"
  using assms
  by (auto simp: lt9211c_video_check_framerate_get_def regmap_write_def regmap_bulk_read_def
      framerate_events_def Let_def split: if_splits)

lemma sel_find:
  assumes "lt9211c_video_check_framerate_get hw stale m = Inr (rate, m1)"
  shows "lt9211c_mipi_rx_video_timing_sel hw stale ctx m =
     Inr (case find (qualifies (hact (mipi_rx_video_timing ctx)) (vact (mipi_rx_video_timing ctx)) rate)
             lt9211c_support_timing of
        None \<Rightarrow> (- ENOPARAM, ctx, m1)
      | Some e \<Rightarrow> program_timing hw e rate ctx m1)"
  using assms video_timing_scan_find [of hw rate 0 ctx m1]
  by (simp add: lt9211c_mipi_rx_video_timing_sel_def)

lemma ucast_u16_u32_u8: "(ucast (ucast (x :: u16) :: u32) :: u8) = ucast x"
  by (rule bit_word_eqI) (auto simp: bit_ucast_iff)

lemma timing_set_trace:
  "trace (snd (lt9211c_mipi_rx_video_timing_set hw vt m)) = trace m @ timing_events vt"
  by (simp add: lt9211c_mipi_rx_video_timing_set_def regmap_write_def Let_def timing_events_def
      ucast_u16_u32_u8)

lemma timing_set_no_error:
  "fst (lt9211c_mipi_rx_video_timing_set (chip_regs f) vt m) = 0"
  by (simp add: lt9211c_mipi_rx_video_timing_set_def regmap_write_def Let_def chip_regs_def)

lemma framerate_1080p59:
  "lt9211c_video_check_framerate_get (chip_regs regs_1080p59) 0 m =
     Inr (59, m\<lparr>ops := ops m + 4, trace := trace m @ framerate_events\<rparr>)"
  by (simp add: lt9211c_video_check_framerate_get_def regmap_write_def regmap_bulk_read_def
      framerate_events_def Let_def chip_regs_def regs_1080p59_def data_after_read_0)

lemma find_1080p59:
  "find (qualifies 1920 1080 59) lt9211c_support_timing = Some (lt9211c_support_timing ! 13)"
  by (simp add: lt9211c_support_timing_def qualifies_def timing_def)

lemma table_13_14:
  "lt9211c_support_timing ! 13 = timing 88 44 148 1920 2200 4 5 36 1080 1125 60"
  "lt9211c_support_timing ! 14 = timing 88 44 148 1920 2200 4 5 36 1080 1125 90"
  by (simp_all add: lt9211c_support_timing_def)


lemma table_products_fit:
  "list_all (\<lambda>e. unat (htotal e) * unat (vtotal e) * unat (framerate e) < 2 ^ 32)
     lt9211c_support_timing"
  by (simp add: lt9211c_support_timing_def timing_def)

lemma resolved_pclk_nat:
  assumes "unat (htotal e) * unat (vtotal e) * unat (framerate e) < 2 ^ 32"
  shows "unat (pclk_khz (resolved_timing e rate)) =
     unat (htotal e) * unat (vtotal e) * unat (framerate e) div 1000"
proof -
  let ?h = "ucast (htotal e) :: u32" and ?v = "ucast (vtotal e) :: u32"
    and ?f = "ucast (framerate e) :: u32"
  have h: "unat ?h = unat (htotal e)" and v: "unat ?v = unat (vtotal e)"
    and f: "unat ?f = unat (framerate e)"
    by (simp_all add: unat_ucast_u16_u32 unat_ucast_u8_u32)
  have hv: "unat (?h * ?v) = unat (htotal e) * unat (vtotal e)"
  proof -
    have "unat (htotal e) < 2 ^ 16" "unat (vtotal e) < 2 ^ 16"
      using unsigned_less [of "htotal e"] unsigned_less [of "vtotal e"] by simp_all
    then have "unat (htotal e) * unat (vtotal e) < 2 ^ 16 * 2 ^ 16"
      by (intro mult_strict_mono) simp_all
    then have "unat ?h * unat ?v < 2 ^ LENGTH(32)"
      by (simp add: h v)
    then show ?thesis
      by (simp add: unat_mult_lem [THEN iffD1] h v)
  qed
  have "unat (?h * ?v) * unat ?f < 2 ^ LENGTH(32)"
    using assms by (simp add: hv f)
  then have "unat (?h * ?v * ?f) = unat (htotal e) * unat (vtotal e) * unat (framerate e)"
    by (simp add: unat_mult_lem [THEN iffD1] hv f)
  then show ?thesis
    by (simp add: resolved_timing_def unat_div)
qed

text \<open>
  C4. The mode matcher scans the table in table order and selects the first entry whose
  active width and height equal the probe's and whose nominal rate is within 3 of the
  measured rate; it fails with \<open>-ENOPARAM\<close> only when no entry of the table qualifies.
  For the probe (1920, 1080) at the measured rate 59 the entry selected is entry 13,
  1920x1080 at 60 Hz, which precedes entry 14, 1920x1080 at 90 Hz.
\<close>

theorem mode_matcher_first_match:
  assumes "lt9211c_video_check_framerate_get hw stale m = Inr (rate, m1)"
  shows "lt9211c_mipi_rx_video_timing_sel hw stale ctx m =
           Inr (case find (qualifies (hact (mipi_rx_video_timing ctx))
                             (vact (mipi_rx_video_timing ctx)) rate) lt9211c_support_timing of
                  None \<Rightarrow> (- ENOPARAM, ctx, m1)
                | Some e \<Rightarrow> program_timing hw e rate ctx m1) \<and>
         find (qualifies 1920 1080 59) lt9211c_support_timing = Some (lt9211c_support_timing ! 13) \<and>
         lt9211c_support_timing ! 13 = timing 88 44 148 1920 2200 4 5 36 1080 1125 60 \<and>
         lt9211c_support_timing ! 14 = timing 88 44 148 1920 2200 4 5 36 1080 1125 90"
  using sel_find [OF assms] find_1080p59 table_13_14 by simp

theorem mode_matcher_first_match_witness:
  "(case lt9211c_mipi_rx_video_timing_sel (chip_regs regs_1080p59) 0 ctx_probed_1080p io0 of
      Inl f \<Rightarrow> False
    | Inr (ret, ctx', m') \<Rightarrow>
        ret = 0 \<and>
        lt9211c_video_timing ctx' =
          (timing 88 44 148 1920 2200 4 5 36 1080 1125 60)\<lparr>framerate := 59, pclk_khz := 148500\<rparr>)"
proof -
  have "hact (mipi_rx_video_timing ctx_probed_1080p) = 1920"
    "vact (mipi_rx_video_timing ctx_probed_1080p) = 1080"
    by (simp_all add: ctx_probed_1080p_def)
  with mode_matcher_first_match [OF framerate_1080p59 [of io0], where ctx = ctx_probed_1080p]
  have "lt9211c_mipi_rx_video_timing_sel (chip_regs regs_1080p59) 0 ctx_probed_1080p io0 =
      Inr (program_timing (chip_regs regs_1080p59) (timing 88 44 148 1920 2200 4 5 36 1080 1125 60) 59
             ctx_probed_1080p (io0\<lparr>ops := ops io0 + 4, trace := trace io0 @ framerate_events\<rparr>))"
    by simp
  then show ?thesis
    by (simp add: program_timing_def timing_set_no_error resolved_timing_def timing_def)
qed

text \<open>
  At a measured rate of 59 Hz the 1920x1080 at 60 Hz entry is matched and the pixel
  clock is 148500 kHz, not 2200 * 1125 * 59 / 1000 = 146025.
\<close>

theorem pclk_not_from_measured_rate_counterexample:
  "(case lt9211c_mipi_rx_video_timing_sel (chip_regs regs_1080p59) 0 ctx_probed_1080p io0 of
      Inl f \<Rightarrow> False
    | Inr (ret, ctx', m') \<Rightarrow>
        ret = 0 \<and> htotal (lt9211c_video_timing ctx') = 2200 \<and>
        vtotal (lt9211c_video_timing ctx') = 1125 \<and>
        framerate (lt9211c_video_timing ctx') = 59 \<and>
        pclk_khz (lt9211c_video_timing ctx') = 148500 \<and>
        unat (pclk_khz (lt9211c_video_timing ctx')) \<noteq> 2200 * 1125 * 59 div 1000)"
proof -
  have "hact (mipi_rx_video_timing ctx_probed_1080p) = 1920"
    "vact (mipi_rx_video_timing ctx_probed_1080p) = 1080"
    by (simp_all add: ctx_probed_1080p_def)
  with sel_find [OF framerate_1080p59 [of io0], where ctx = ctx_probed_1080p] find_1080p59 table_13_14(1)
  have "lt9211c_mipi_rx_video_timing_sel (chip_regs regs_1080p59) 0 ctx_probed_1080p io0 =
      Inr (program_timing (chip_regs regs_1080p59) (timing 88 44 148 1920 2200 4 5 36 1080 1125 60) 59
             ctx_probed_1080p (io0\<lparr>ops := ops io0 + 4, trace := trace io0 @ framerate_events\<rparr>))"
    by simp
  then show ?thesis
    by (simp add: program_timing_def timing_set_no_error resolved_timing_def timing_def)
qed

text \<open>
  C1 (as the code has it). On every successful match the resolved timing carries the
  measured rate in its \<open>framerate\<close> field, but its pixel clock in kHz is
  h-total * v-total * nominal rate / 1000, with the nominal rate of the matched entry.
\<close>

theorem resolved_pclk_from_nominal_rate:
  assumes "lt9211c_video_check_framerate_get hw stale m = Inr (rate, m1)"
    and "find (qualifies (hact (mipi_rx_video_timing ctx)) (vact (mipi_rx_video_timing ctx)) rate)
           lt9211c_support_timing = Some e"
  shows "\<exists>ret ctx' m'.
           lt9211c_mipi_rx_video_timing_sel hw stale ctx m = Inr (ret, ctx', m') \<and>
           htotal (lt9211c_video_timing ctx') = htotal e \<and>
           vtotal (lt9211c_video_timing ctx') = vtotal e \<and>
           framerate (lt9211c_video_timing ctx') = rate \<and>
           unat (pclk_khz (lt9211c_video_timing ctx')) =
             unat (htotal e) * unat (vtotal e) * unat (framerate e) div 1000"
proof -
  from assms(2) have "e \<in> set lt9211c_support_timing"
    by (auto simp: find_Some_iff)
  with table_products_fit
  have "unat (htotal e) * unat (vtotal e) * unat (framerate e) < 2 ^ 32"
    by (simp add: list_all_iff)
  then have p: "unat (pclk_khz (resolved_timing e rate)) =
      unat (htotal e) * unat (vtotal e) * unat (framerate e) div 1000"
    by (rule resolved_pclk_nat)
  have "lt9211c_mipi_rx_video_timing_sel hw stale ctx m = Inr (program_timing hw e rate ctx m1)"
    using sel_find [OF assms(1), of ctx] assms(2) by simp
  with p show ?thesis
    by (simp add: program_timing_def resolved_timing_def)
qed

theorem resolved_pclk_from_nominal_rate_witness:
  "\<exists>ret ctx' m'.
     lt9211c_mipi_rx_video_timing_sel (chip_regs regs_1080p59) 0 ctx_probed_1080p io0 =
       Inr (ret, ctx', m') \<and>
     framerate (lt9211c_video_timing ctx') = 59 \<and>
     unat (pclk_khz (lt9211c_video_timing ctx')) = 2200 * 1125 * 60 div 1000"
proof -
  have f: "find (qualifies (hact (mipi_rx_video_timing ctx_probed_1080p))
        (vact (mipi_rx_video_timing ctx_probed_1080p)) 59) lt9211c_support_timing =
      Some (timing 88 44 148 1920 2200 4 5 36 1080 1125 60)"
    using find_1080p59 table_13_14(1) by (simp add: ctx_probed_1080p_def)
  from resolved_pclk_from_nominal_rate [OF framerate_1080p59 [of io0] f]
  show ?thesis
    by (simp add: timing_def) blast
qed

text \<open>
  C10. When no entry of the table qualifies, the matcher returns \<open>-ENOPARAM\<close> with the
  context unchanged, and its only bus traffic is the frame rate measurement (the page
  select and three reads). The resolved timing is overwritten and the timing registers
  are written only when an entry has been found.
\<close>

theorem no_match_leaves_timing:
  assumes "lt9211c_video_check_framerate_get hw stale m = Inr (rate, m1)"
  shows "(find (qualifies (hact (mipi_rx_video_timing ctx)) (vact (mipi_rx_video_timing ctx)) rate)
            lt9211c_support_timing = None \<longrightarrow>
          lt9211c_mipi_rx_video_timing_sel hw stale ctx m = Inr (- ENOPARAM, ctx, m1) \<and>
          trace m1 = trace m @ framerate_events) \<and>
         (\<forall>e. find (qualifies (hact (mipi_rx_video_timing ctx)) (vact (mipi_rx_video_timing ctx)) rate)
            lt9211c_support_timing = Some e \<longrightarrow>
          (\<exists>ret m'. lt9211c_mipi_rx_video_timing_sel hw stale ctx m =
                       Inr (ret, ctx\<lparr>lt9211c_video_timing := resolved_timing e rate\<rparr>, m') \<and>
                     trace m' = trace m @ framerate_events @ timing_events (resolved_timing e rate)))"
  using sel_find [OF assms, of ctx] framerate_get_trace(1) [OF assms]
  by (auto simp: program_timing_def timing_set_trace)

lemma framerate_1080p75:
  "lt9211c_video_check_framerate_get (chip_regs regs_1080p75) 0 m =
     Inr (75, m\<lparr>ops := ops m + 4, trace := trace m @ framerate_events\<rparr>)"
  by (simp add: lt9211c_video_check_framerate_get_def regmap_write_def regmap_bulk_read_def
      framerate_events_def Let_def chip_regs_def regs_1080p75_def data_after_read_0)

theorem no_match_leaves_timing_witness:
  "lt9211c_mipi_rx_video_timing_sel (chip_regs regs_1080p75) 0 ctx_probed_1080p io0 =
     Inr (- ENOPARAM, ctx_probed_1080p, \<lparr>ops = 4, trace = framerate_events\<rparr>)"
proof -
  have "find (qualifies (hact (mipi_rx_video_timing ctx_probed_1080p))
        (vact (mipi_rx_video_timing ctx_probed_1080p)) 75) lt9211c_support_timing = None"
    by (simp add: ctx_probed_1080p_def lt9211c_support_timing_def qualifies_def timing_def)
  with no_match_leaves_timing [OF framerate_1080p75 [of io0], where ctx = ctx_probed_1080p]
  show ?thesis
    by (simp add: io0_def)
qed

section \<open>Frame rate measurement\<close>

lemma framerate_get_fault_iff:
  "lt9211c_video_check_framerate_get hw stale m = Inl DivideByZero \<longleftrightarrow>
     push_bit 8 (push_bit 8 (ucast (snd (hw (Suc (ops m)) 0x43)) :: u32)
                 + data_after_read stale (snd (hw (Suc (Suc (ops m))) 0x44)))
       + data_after_read stale (snd (hw (Suc (Suc (Suc (ops m)))) 0x45)) = 0"
  by (simp add: lt9211c_video_check_framerate_get_def regmap_write_def regmap_bulk_read_def
      Let_def)

lemma times_257_eq_0: "push_bit 8 (g :: u32) + g = 0 \<longleftrightarrow> g = 0"
proof
  assume "push_bit 8 g + g = 0"
  then have "257 * g = 0"
    by (simp add: push_bit_eq_mult algebra_simps)
  moreover have "(4278255361 :: u32) * 257 = 1"
    by simp
  then have "g = 4278255361 * (257 * g)"
    by (simp only: mult.assoc [symmetric] mult_1)
  ultimately show "g = 0"
    by simp
qed simp

text \<open>
  C9 (the code at the failing input). When the three frame time registers read zero and
  the upper three bytes of the stack slot of \<open>data\<close> are zero, the divisor of
  \<open>25000000 * 2 / frametime\<close> is zero: the measurement divides by zero. With the registers
  reading zero this happens for exactly these stack contents.
\<close>

theorem framerate_get_zero_frametime:
  "lt9211c_video_check_framerate_get (chip_regs regs_silent) 0 io0 = Inl DivideByZero \<and>
   (\<forall>stale. lt9211c_video_check_framerate_get (chip_regs regs_silent) stale io0 = Inl DivideByZero
      \<longleftrightarrow> stale AND 0xffffff00 = 0)"
proof -
  have "lt9211c_video_check_framerate_get (chip_regs regs_silent) stale io0 = Inl DivideByZero
      \<longleftrightarrow> push_bit 8 (data_after_read stale 0) + data_after_read stale 0 = 0" for stale
    by (simp add: framerate_get_fault_iff chip_regs_def regs_silent_def)
  moreover have "data_after_read stale 0 = stale AND 0xffffff00" for stale
    by (simp add: data_after_read_def)
  ultimately have "lt9211c_video_check_framerate_get (chip_regs regs_silent) stale io0 =
      Inl DivideByZero \<longleftrightarrow> stale AND 0xffffff00 = 0" for stale
    using times_257_eq_0 [of "data_after_read stale 0"] by simp
  then show ?thesis
    by simp
qed

section \<open>Clock recovery parameters and output dividers\<close>

lemma serial_clk_div_antimono: "a \<le> b \<Longrightarrow> serial_clk_div_of b \<le> serial_clk_div_of a"
  unfolding serial_clk_div_of_def txpll_serick_divsel_def
  by (simp add: word_le_nat_alt)

lemma pre_div_mono: "a \<le> b \<Longrightarrow> pre_div_of a \<le> pre_div_of b"
  unfolding pre_div_of_def txpll_prediv_sel_def
  by (simp add: word_le_nat_alt word_less_nat_alt)

lemma phy_clk_nat:
  assumes "unat pclk < 2 ^ 29"
  shows "unat (lvds_tx_phy_clk pclk) = unat pclk * 7 div 2"
proof -
  have "unat pclk * unat (7 :: u32) < 2 ^ LENGTH(32)"
    using assms by simp
  then have "unat (pclk * 7) = unat pclk * 7"
    by (simp add: unat_mult_lem [THEN iffD1])
  then show ?thesis
    by (simp add: lvds_tx_phy_clk_def unat_div)
qed

lemma fm_clk_get_bound: "unat (fst (lt9211c_system_fm_clk_get hw clk_src m)) < 2 ^ 20"
proof -
  define a where "a = (ucast (snd (hw (ops m + 1 + 1 + 1 + 0) 0x98) AND 0x0f) :: u32)"
  define b where "b = (ucast (snd (hw (ops m + 1 + 1 + 1 + 1 + 0) 0x99)) :: u32)"
  define c where "c = (ucast (snd (hw (ops m + 1 + 1 + 1 + 1 + 1 + 0) 0x9a)) :: u32)"
  have r: "fst (lt9211c_system_fm_clk_get hw clk_src m) = push_bit 8 (push_bit 8 a + b) + c"
    by (simp add: lt9211c_system_fm_clk_get_def regmap_write_def regmap_bulk_read_def
        usleep_range_def Let_def a_def b_def c_def)
  have "unat (snd (hw (ops m + 1 + 1 + 1 + 0) 0x98) AND 0x0f) \<le> unat (0x0f :: u8)"
    by (rule word_and_le1 [THEN word_le_nat_alt [THEN iffD1]])
  then have a: "unat a < 16"
    by (simp add: a_def unat_ucast_u8_u32)
  have b: "unat b < 256" and c: "unat c < 256"
    using unsigned_less [of "snd (hw (ops m + 1 + 1 + 1 + 1 + 0) 0x99)"]
      unsigned_less [of "snd (hw (ops m + 1 + 1 + 1 + 1 + 1 + 0) 0x9a)"]
    by (simp_all add: b_def c_def unat_ucast_u8_u32)
  have "unat (push_bit 8 (push_bit 8 a + b) + c) \<le> (unat a * 256 + unat b) * 256 + unat c"
    by (simp add: push_bit_eq_mult unat_word_ariths)
  with a b c show ?thesis
    by (simp add: r)
qed

lemma ucast_u8_u32_u8: "(ucast (ucast (x :: u8) :: u32) :: u8) = x"
  by (rule bit_word_eqI) (auto simp: bit_ucast_iff dest: bit_imp_le_length)

lemma ucast_u32_u8_u32_u8: "(ucast (ucast (ucast (x :: u32) :: u8) :: u32) :: u8) = ucast x"
  by (rule bit_word_eqI) (auto simp: bit_ucast_iff dest: bit_imp_le_length)

lemma ucast_or_u32_u8: "(ucast ((a :: u32) OR b) :: u8) = ucast a OR ucast b"
  by (rule bit_word_eqI) (auto simp: bit_ucast_iff bit_or_iff)

lemma regmap_write_proj:
  "fst (regmap_write hw reg val m) = fst (hw (ops m) (ucast reg))"
  "ops (snd (regmap_write hw reg val m)) = ops m + 1"
  "trace (snd (regmap_write hw reg val m)) = trace m @ [RegWrite (ucast reg) (ucast val)]"
  by (simp_all add: regmap_write_def)

lemma regmap_bulk_read_proj:
  "fst (regmap_bulk_read hw reg n m) = fst (hw (ops m) (ucast reg))"
  "fst (snd (regmap_bulk_read hw reg n m)) i = snd (hw (ops m + i) (ucast reg + of_nat i))"
  "ops (snd (snd (regmap_bulk_read hw reg n m))) = ops m + n"
  "trace (snd (snd (regmap_bulk_read hw reg n m))) = trace m @ [RegRead (ucast reg) n]"
  by (simp_all add: regmap_bulk_read_def)

lemma usleep_range_proj:
  "ops (usleep_range a b m) = ops m"
  "trace (usleep_range a b m) = trace m @ [Usleep a]"
  by (simp_all add: usleep_range_def)

lemma gpiod_proj:
  "ops (gpiod_set_value_cansleep v m) = ops m"
  "trace (gpiod_set_value_cansleep v m) = trace m @ [GpioSet v]"
  by (simp_all add: gpiod_set_value_cansleep_def)

lemmas io_proj = regmap_write_proj regmap_bulk_read_proj usleep_range_proj gpiod_proj

lemmas if_proj = if_distrib [of fst] if_distrib [of snd] if_distrib [of ops] if_distrib [of trace]

lemma multi_reg_write_ok:
  assumes "\<forall>n r. fst (hw n r) = 0"
  shows "fst (regmap_multi_reg_write hw regs m) = 0"
    and "ops (snd (regmap_multi_reg_write hw regs m)) = ops m + length regs"
    and "trace (snd (regmap_multi_reg_write hw regs m)) =
           trace m @ map (\<lambda>(r, v). RegWrite (ucast r) (ucast v)) regs"
  using assms
  by (induction regs arbitrary: m) (auto simp: regmap_write_def)

lemma tx_pll_config_trace:
  assumes "lt9211c_lvds_tx_pll_config hw ctx m = Inr r"
  shows "trace (snd r) = trace m @
     tx_pll_config_events (pclk_khz (lt9211c_video_timing ctx)) (snd (hw (ops m + 1 + 0) 0x6f))"
proof -
  let ?pclk = "pclk_khz (lt9211c_video_timing ctx)"
  from assms have "\<not> (?pclk \<ge> 150000 \<and> ?pclk * 7 = 0)"
    by (auto simp: lt9211c_lvds_tx_pll_config_def Let_def split_def)
  moreover from this assms have "?pclk div ucast (snd (txpll_prediv_sel ?pclk)) \<noteq> 0"
    by (auto simp: lt9211c_lvds_tx_pll_config_def Let_def split_def)
  ultimately show ?thesis
    using assms
    by (auto simp: lt9211c_lvds_tx_pll_config_def tx_pll_config_events_def Let_def split_def
        io_proj if_proj pre_div_of_def serial_clk_div_of_def ucast_u8_u32_u8)
qed

lemma dessc_pll_set_trace:
  assumes "\<forall>n r. fst (hw n r) = 0"
  shows "\<exists>data. trace (snd (lt9211c_mipi_rx_dessc_pll_set hw ctx m)) = trace m @
     dessc_pll_events (pclk_khz (lt9211c_video_timing ctx)) data"
proof -
  have l: "snd (snd (dessc_pll_divsel pclk)) \<longleftrightarrow> pclk < 22000" for pclk
    by (simp add: dessc_pll_divsel_def word_less_nat_alt word_le_nat_alt)
  show ?thesis
    by (cases "pclk_khz (lt9211c_video_timing ctx) < 22000"; rule exI;
        simp add: lt9211c_mipi_rx_dessc_pll_set_def lt9211c_mipi_rx_dessc_pll_sdm_cal_def
        dessc_pll_events_def multi_reg_write_ok [OF assms] io_proj if_proj
        Let_def split_def dessc_pll_divider_def l
        ucast_u8_u32_u8 ucast_u32_u8_u32_u8 ucast_or_u32_u8
        del: regmap_multi_reg_write.simps)
qed

lemma dessc_pll_divider_le: "unat (dessc_pll_divider pclk) \<le> 16"
  by (simp add: dessc_pll_divider_def dessc_pll_divsel_def)

lemma dessc_pll_divider_bands:
  "dessc_pll_divider pclk =
     (if 176000 \<le> pclk then 2 else if 88000 \<le> pclk then 4 else if 44000 \<le> pclk then 8 else 16)"
  by (simp add: dessc_pll_divider_def dessc_pll_divsel_def word_le_nat_alt)

lemma pcr_setting_words:
  "pcr_m (pcr_setting_calc pclk d) = pclk * ucast d div 25 div 1000"
  "pcr_k (pcr_setting_calc pclk d) = push_bit 14 (pclk * ucast d div 25 mod 1000)"
  "pcr_up_limit (pcr_setting_calc pclk d) = pcr_m (pcr_setting_calc pclk d) + 1"
  "pcr_down_limit (pcr_setting_calc pclk d) = pcr_m (pcr_setting_calc pclk d) - 1"
  by (simp_all add: pcr_setting_calc_def Let_def)

lemma pcr_setting_nat:
  assumes "unat pclk < 2 ^ 28" and "unat d \<le> 16"
  defines "derived \<equiv> unat pclk * unat d div 25"
  shows "unat (pclk * ucast d div 25) = derived"
    and "unat (pcr_m (pcr_setting_calc pclk d)) = derived div 1000"
    and "unat (pcr_k (pcr_setting_calc pclk d)) = (derived mod 1000) * 2 ^ 14"
    and "unat (pcr_up_limit (pcr_setting_calc pclk d)) = derived div 1000 + 1"
    and "0 < derived div 1000 \<Longrightarrow>
           unat (pcr_down_limit (pcr_setting_calc pclk d)) = derived div 1000 - 1"
proof -
  have "unat pclk * unat d \<le> unat pclk * 16"
    using assms(2) by simp
  also have "\<dots> < 2 ^ 28 * 16"
    using assms(1) by simp
  finally have lt: "unat pclk * unat d < 2 ^ 32"
    by simp
  then have "unat pclk * unat (ucast d :: u32) < 2 ^ LENGTH(32)"
    by (simp add: unat_ucast_u8_u32)
  then have "unat (pclk * ucast d) = unat pclk * unat d"
    by (simp add: unat_mult_lem [THEN iffD1] unat_ucast_u8_u32)
  then show d: "unat (pclk * ucast d div 25) = derived"
    by (simp add: unat_div derived_def)
  then show m: "unat (pcr_m (pcr_setting_calc pclk d)) = derived div 1000"
    by (simp add: pcr_setting_words unat_div)
  have "derived \<le> unat pclk * unat d"
    unfolding derived_def by (rule div_le_dividend)
  with lt have dlt: "derived < 2 ^ 32"
    by simp
  have "unat (pclk * ucast d div 25 mod 1000) = derived mod 1000"
    using d by (simp add: unat_mod)
  moreover have "derived mod 1000 < 1000"
    by simp
  ultimately have "unat (pclk * ucast d div 25 mod 1000) * unat (2 ^ 14 :: u32) < 2 ^ LENGTH(32)"
    by simp
  then have "unat (pclk * ucast d div 25 mod 1000 * 2 ^ 14) =
      unat (pclk * ucast d div 25 mod 1000) * unat (2 ^ 14 :: u32)"
    by (rule unat_mult_lem [THEN iffD1])
  with \<open>unat (pclk * ucast d div 25 mod 1000) = derived mod 1000\<close>
  show "unat (pcr_k (pcr_setting_calc pclk d)) = (derived mod 1000) * 2 ^ 14"
    by (simp add: pcr_setting_words push_bit_eq_mult)
  have "derived div 1000 \<le> derived"
    by (rule div_le_dividend)
  moreover have "derived \<noteq> 2 ^ 32 - 1 \<or> derived div 1000 < derived"
    by simp
  ultimately have mlt: "derived div 1000 < 2 ^ 32 - 1"
    using dlt by linarith
  then have "unat (pcr_m (pcr_setting_calc pclk d)) + unat (1 :: u32) < 2 ^ LENGTH(32)"
    using m by simp
  then have "unat (pcr_m (pcr_setting_calc pclk d) + 1) =
      unat (pcr_m (pcr_setting_calc pclk d)) + unat (1 :: u32)"
    by (rule unat_add_lem [THEN iffD1])
  with m show "unat (pcr_up_limit (pcr_setting_calc pclk d)) = derived div 1000 + 1"
    by (simp add: pcr_setting_words)
  show "unat (pcr_down_limit (pcr_setting_calc pclk d)) = derived div 1000 - 1"
    if "0 < derived div 1000"
  proof -
    from that m have "1 \<le> pcr_m (pcr_setting_calc pclk d)"
      by (simp add: word_le_nat_alt)
    then have "unat (pcr_m (pcr_setting_calc pclk d) - 1) =
        unat (pcr_m (pcr_setting_calc pclk d)) - unat (1 :: u32)"
      by (rule unat_sub)
    with m show ?thesis
      by (simp add: pcr_setting_words)
  qed
qed

lemma pcr_setting_148500:
  "dessc_pll_divider 148500 = 4"
  "pcr_setting_calc 148500 4 =
     \<lparr>pcr_m = 23, pcr_k = 12451840, pcr_up_limit = 24, pcr_down_limit = 22\<rparr>"
  "pcr_setting_calc 148500 2 =
     \<lparr>pcr_m = 11, pcr_k = 14417920, pcr_up_limit = 12, pcr_down_limit = 10\<rparr>"
  by (simp_all add: dessc_pll_divider_def dessc_pll_divsel_def pcr_setting_calc_def Let_def)

lemma chip_regs_no_error: "\<forall>n r. fst (chip_regs f n r) = 0"
  by (simp add: chip_regs_def)

lemma table_pclk_in_range:
  "list_all (\<lambda>e. unat (pclk_khz (resolved_timing e rate)) < 2 ^ 28 \<and>
       0 < unat (pcr_m (pcr_setting_calc (pclk_khz (resolved_timing e rate))
                 (dessc_pll_divider (pclk_khz (resolved_timing e rate))))))
     lt9211c_support_timing"
  by (simp add: lt9211c_support_timing_def timing_def resolved_timing_def
      dessc_pll_divider_def dessc_pll_divsel_def pcr_setting_calc_def Let_def)

text \<open>
  C6. For every pixel clock and every divider, the clock recovery parameters that
  \<^verbatim>\<open>lt9211c_mipi_rx_dessc_pll_set\<close> computes from them are
  derived = pclk * divider / 25, M = derived / 1000, K = (derived mod 1000) << 14,
  upper limit = M + 1 and lower limit = M - 1, in the arithmetic of the code. For a
  pixel clock below \<open>2 ^ 28\<close> kHz and a divider of at most 16 no product wraps and the
  same equations hold over the natural numbers (the lower limit when M is not 0); the
  divider the driver selects is at most 16, and every pixel clock it resolves from the
  table is below \<open>2 ^ 28\<close> and gives a non-zero M. The driver writes the parameters to
  the modulator registers. For 148500 kHz with the divider 2: derived = 11880, M = 11,
  K = 14417920, upper limit 12 and lower limit 10.
\<close>

theorem pcr_setting_formulas:
  "(let p = pcr_setting_calc pclk d; derived = pclk * ucast d div 25
    in pcr_m p = derived div 1000 \<and> pcr_k p = push_bit 14 (derived mod 1000) \<and>
       pcr_up_limit p = pcr_m p + 1 \<and> pcr_down_limit p = pcr_m p - 1 \<and>
       (unat pclk < 2 ^ 28 \<and> unat d \<le> 16 \<longrightarrow>
          unat derived = unat pclk * unat d div 25 \<and>
          unat (pcr_m p) = unat derived div 1000 \<and>
          unat (pcr_k p) = (unat derived mod 1000) * 2 ^ 14 \<and>
          unat (pcr_up_limit p) = unat (pcr_m p) + 1 \<and>
          (0 < unat (pcr_m p) \<longrightarrow> unat (pcr_down_limit p) = unat (pcr_m p) - 1))) \<and>
   unat (dessc_pll_divider pclk) \<le> 16 \<and>
   list_all (\<lambda>e. unat (pclk_khz (resolved_timing e rate)) < 2 ^ 28 \<and>
       0 < unat (pcr_m (pcr_setting_calc (pclk_khz (resolved_timing e rate))
                 (dessc_pll_divider (pclk_khz (resolved_timing e rate))))))
     lt9211c_support_timing \<and>
   (\<forall>hw ctx m. (\<forall>n r. fst (hw n r) = 0) \<longrightarrow>
      (\<exists>data. trace (snd (lt9211c_mipi_rx_dessc_pll_set hw ctx m)) =
         trace m @ dessc_pll_events (pclk_khz (lt9211c_video_timing ctx)) data)) \<and>
   (148500 :: u32) * ucast (2 :: u8) div 25 = 11880 \<and>
   pcr_setting_calc 148500 2 =
     \<lparr>pcr_m = 11, pcr_k = 14417920, pcr_up_limit = 12, pcr_down_limit = 10\<rparr>"
proof -
  let ?p = "pcr_setting_calc pclk d"
  have nat: "unat (pclk * ucast d div 25) = unat pclk * unat d div 25 \<and>
      unat (pcr_m ?p) = unat (pclk * ucast d div 25) div 1000 \<and>
      unat (pcr_k ?p) = (unat (pclk * ucast d div 25) mod 1000) * 2 ^ 14 \<and>
      unat (pcr_up_limit ?p) = unat (pcr_m ?p) + 1 \<and>
      (0 < unat (pcr_m ?p) \<longrightarrow> unat (pcr_down_limit ?p) = unat (pcr_m ?p) - 1)"
    if "unat pclk < 2 ^ 28" and "unat d \<le> 16"
    using pcr_setting_nat [OF that] by simp
  have i: "(148500 :: u32) * ucast (2 :: u8) div 25 = 11880"
    by simp
  show ?thesis
    using nat pcr_setting_words [of pclk d] dessc_pll_divider_le [of pclk]
      table_pclk_in_range [of rate] dessc_pll_set_trace pcr_setting_148500(3) i
    by (simp add: Let_def)
qed

theorem pcr_setting_formulas_witness:
  "unat (148500 :: u32) < 2 ^ 28 \<and> unat (2 :: u8) \<le> 16 \<and>
   (let p = pcr_setting_calc 148500 2
    in unat ((148500 :: u32) * ucast (2 :: u8) div 25) = 148500 * 2 div 25 \<and>
       unat (pcr_m p) = 11880 div 1000 \<and>
       unat (pcr_k p) = (11880 mod 1000) * 2 ^ 14 \<and>
       unat (pcr_up_limit p) = 12 \<and> unat (pcr_down_limit p) = 10) \<and>
   (\<exists>data. trace (snd (lt9211c_mipi_rx_dessc_pll_set (chip_regs regs_1080p60)
                 ctx_resolved_1080p60 io0)) =
      trace io0 @ dessc_pll_events (pclk_khz (lt9211c_video_timing ctx_resolved_1080p60)) data)"
proof -
  have b: "unat (148500 :: u32) < 2 ^ 28" "unat (2 :: u8) \<le> 16"
    by simp_all
  note t = pcr_setting_formulas [of 148500 2]
  from t b have
    "unat ((148500 :: u32) * ucast (2 :: u8) div 25) = 148500 * 2 div 25"
    "unat (pcr_m (pcr_setting_calc 148500 2)) = 11880 div 1000"
    "unat (pcr_k (pcr_setting_calc 148500 2)) = (11880 mod 1000) * 2 ^ 14"
    "unat (pcr_up_limit (pcr_setting_calc 148500 2)) = 12"
    "unat (pcr_down_limit (pcr_setting_calc 148500 2)) = 10"
    by (simp_all add: Let_def)
  moreover from t chip_regs_no_error
  have "\<exists>data. trace (snd (lt9211c_mipi_rx_dessc_pll_set (chip_regs regs_1080p60)
                 ctx_resolved_1080p60 io0)) =
      trace io0 @ dessc_pll_events (pclk_khz (lt9211c_video_timing ctx_resolved_1080p60)) data"
    by blast
  ultimately show ?thesis
    using b by (simp add: Let_def)
qed

text \<open>
  C8. In the output PLL configuration the serial clock divider is a non-increasing step
  function of the phy clock over its five bands, the pre-divider a non-decreasing step
  function of the pixel clock over its bands, and the phy clock is the pixel clock times
  7 over 2 (in \<open>u32\<close>; exact below \<open>2 ^ 29\<close> kHz, and the measured pixel clock the
  stage works on is below \<open>2 ^ 20\<close>). The driver writes the selected values to the
  registers 0x31, 0x32 and 0x35.
\<close>

theorem tx_pll_divider_bands:
  "(\<forall>a b. a \<le> b \<longrightarrow> serial_clk_div_of b \<le> serial_clk_div_of a) \<and>
   (\<forall>a b. a \<le> b \<longrightarrow> pre_div_of a \<le> pre_div_of b) \<and>
   serial_clk_div_of phy =
     (if 640000 \<le> phy then 1 else if 320000 \<le> phy then 2 else if 160000 \<le> phy then 4
      else if 80000 \<le> phy then 8 else 16) \<and>
   pre_div_of pclk =
     (if pclk < 20000 then 1 else if pclk < 40000 then 1 else if pclk < 80000 then 2
      else if pclk < 160000 then 4 else if pclk < 320000 then 8 else 16) \<and>
   lvds_tx_phy_clk pclk = pclk * 7 div 2 \<and>
   (unat pclk < 2 ^ 29 \<longrightarrow> unat (lvds_tx_phy_clk pclk) = unat pclk * 7 div 2) \<and>
   (\<forall>hw ctx m. unat (pclk_khz (lt9211c_video_timing
        (fst (snd (lt9211c_lvds_tx_pll_ref_pixel_clk_get hw ctx m))))) < 2 ^ 20) \<and>
   (\<forall>hw ctx m r. lt9211c_lvds_tx_pll_config hw ctx m = Inr r \<longrightarrow>
      trace (snd r) = trace m @
        tx_pll_config_events (pclk_khz (lt9211c_video_timing ctx)) (snd (hw (Suc (ops m)) 0x6f)))"
proof -
  have "unat (pclk_khz (lt9211c_video_timing
        (fst (snd (lt9211c_lvds_tx_pll_ref_pixel_clk_get hw ctx m))))) < 2 ^ 20" for hw ctx m
    using fm_clk_get_bound [of hw LT9211C_AD_DESSCPLL_PIX_CLK m]
    by (simp add: lt9211c_lvds_tx_pll_ref_pixel_clk_get_def split_def Let_def)
  moreover have "serial_clk_div_of phy =
     (if 640000 \<le> phy then 1 else if 320000 \<le> phy then 2 else if 160000 \<le> phy then 4
      else if 80000 \<le> phy then 8 else 16)"
    by (simp add: serial_clk_div_of_def txpll_serick_divsel_def)
  moreover have "pre_div_of pclk =
     (if pclk < 20000 then 1 else if pclk < 40000 then 1 else if pclk < 80000 then 2
      else if pclk < 160000 then 4 else if pclk < 320000 then 8 else 16)"
    by (simp add: pre_div_of_def txpll_prediv_sel_def)
  moreover have "lt9211c_lvds_tx_pll_config hw ctx m = Inr r \<longrightarrow>
      trace (snd r) = trace m @
        tx_pll_config_events (pclk_khz (lt9211c_video_timing ctx)) (snd (hw (Suc (ops m)) 0x6f))"
    for hw ctx m r
    using tx_pll_config_trace [of hw ctx m r] by simp
  ultimately show ?thesis
    using serial_clk_div_antimono pre_div_mono phy_clk_nat [of pclk]
    by (simp add: lvds_tx_phy_clk_def)
qed

theorem tx_pll_divider_bands_witness:
  "(100000 :: u32) \<le> 700000 \<and> serial_clk_div_of 700000 \<le> serial_clk_div_of 100000 \<and>
   (30000 :: u32) \<le> 148500 \<and> pre_div_of 30000 \<le> pre_div_of 148500 \<and>
   unat (148500 :: u32) < 2 ^ 29 \<and> unat (lvds_tx_phy_clk 148500) = 148500 * 7 div 2 \<and>
   (\<exists>r. lt9211c_lvds_tx_pll_config (chip_regs regs_1080p60) ctx_resolved_1080p60 io0 = Inr r \<and>
        trace (snd r) =
          [RegWrite 0xff 0x85, RegRead 0x6f 1, RegWrite 0x6f 0x01,
           RegWrite 0xff 0x82, RegWrite 0x31 0x2a,
           RegWrite 0xff 0x82, RegWrite 0x32 0x02,
           RegWrite 0xff 0x82, RegWrite 0x33 0x04,
           RegWrite 0x34 0x01, RegWrite 0x35 0x1c])"
proof -
  note t = tx_pll_divider_bands [of 0 148500]
  have a: "(100000 :: u32) \<le> 700000" "(30000 :: u32) \<le> 148500" "unat (148500 :: u32) < 2 ^ 29"
    by simp_all
  have p: "pclk_khz (lt9211c_video_timing ctx_resolved_1080p60) = 148500"
    by (simp add: ctx_resolved_1080p60_def resolved_timing_def timing_def)
  obtain r where
    r: "lt9211c_lvds_tx_pll_config (chip_regs regs_1080p60) ctx_resolved_1080p60 io0 = Inr r"
    by (simp add: lt9211c_lvds_tx_pll_config_def Let_def split_def p txpll_prediv_sel_def)
  from t r have "trace (snd r) = trace io0 @
      tx_pll_config_events (pclk_khz (lt9211c_video_timing ctx_resolved_1080p60))
        (snd (chip_regs regs_1080p60 (Suc (ops io0)) 0x6f))"
    by blast
  then have "trace (snd r) =
          [RegWrite 0xff 0x85, RegRead 0x6f 1, RegWrite 0x6f 0x01,
           RegWrite 0xff 0x82, RegWrite 0x31 0x2a,
           RegWrite 0xff 0x82, RegWrite 0x32 0x02,
           RegWrite 0xff 0x82, RegWrite 0x33 0x04,
           RegWrite 0x34 0x01, RegWrite 0x35 0x1c]"
    by (simp add: p io0_def chip_regs_def regs_1080p60_def tx_pll_config_events_def Let_def
        lvds_tx_phy_clk_def pre_div_of_def serial_clk_div_of_def txpll_prediv_sel_def
        txpll_serick_divsel_def)
  moreover from t a have "serial_clk_div_of 700000 \<le> serial_clk_div_of 100000"
    "pre_div_of 30000 \<le> pre_div_of 148500"
    by blast+
  moreover from t a have "unat (lvds_tx_phy_clk 148500) = 148500 * 7 div 2"
    by simp
  ultimately show ?thesis
    using a r by simp
qed

section \<open>Clock recovery calibration: the polling loop\<close>

lemma poll_step:
  "pcr_calibration_poll hw c m =
     (if pcr_stable_seen hw m 0 then (fst (hw (ops m + 1) 0x87), poll_round hw m)
      else if c > 50 then (- ENOPARAM, poll_round hw m)
      else pcr_calibration_poll hw (c + 1) (poll_round hw m))"
  by (subst pcr_calibration_poll.simps)
     (simp add: Let_def split_def io_proj pcr_stable_seen_def poll_round_def)

lemma poll_round_io:
  "ops (poll_round hw m) = ops m + 2"
  "trace (poll_round hw m) = trace m @ poll_events"
  by (simp_all add: io_proj poll_events_def poll_round_def)

lemma stable_seen_shift:
  "ops m' = ops m + 2 \<Longrightarrow> pcr_stable_seen hw m' k = pcr_stable_seen hw m (Suc k)"
  by (simp add: pcr_stable_seen_def)

lemma poll_never_stable:
  assumes "unat c = 51 - n" and "n \<le> 51"
    and "\<forall>k. k \<le> n \<longrightarrow> \<not> pcr_stable_seen hw m k"
  shows "fst (pcr_calibration_poll hw c m) = - ENOPARAM \<and>
         ops (snd (pcr_calibration_poll hw c m)) = ops m + 2 * (n + 1) \<and>
         trace (snd (pcr_calibration_poll hw c m)) =
           trace m @ concat (replicate (n + 1) poll_events)"
  using assms
proof (induction n arbitrary: c m)
  case 0
  then have "c > 50"
    by (simp add: word_less_nat_alt)
  with 0 have "pcr_calibration_poll hw c m = (- ENOPARAM, poll_round hw m)"
    by (subst poll_step) simp
  then show ?case
    by (simp add: poll_round_io)
next
  case (Suc n)
  from Suc.prems have c: "unat c = 50 - n" "n \<le> 50"
    by simp_all
  then have nc: "\<not> c > 50"
    by (simp add: word_less_nat_alt)
  from c have "unat c + unat (1 :: u8) < 2 ^ LENGTH(8)"
    by simp
  then have "unat (c + 1) = unat c + unat (1 :: u8)"
    by (rule unat_add_lem [THEN iffD1])
  with c have c1: "unat (c + 1) = 51 - n"
    by simp
  have ns: "\<forall>k. k \<le> n \<longrightarrow> \<not> pcr_stable_seen hw (poll_round hw m) k"
    using Suc.prems(3) by (simp add: stable_seen_shift [OF poll_round_io(1)])
  from Suc.prems(3) have n0: "\<not> pcr_stable_seen hw m 0"
    by simp
  have step: "pcr_calibration_poll hw c m = pcr_calibration_poll hw (c + 1) (poll_round hw m)"
    using n0 nc by (subst poll_step) simp
  from c(2) have "n \<le> 51"
    by simp
  from Suc.IH [OF c1 this ns] show ?case
    by (simp add: step poll_round_io)
qed

lemma poll_stable_at:
  assumes "unat c + j \<le> 51"
    and "\<forall>k. k < j \<longrightarrow> \<not> pcr_stable_seen hw m k"
    and "pcr_stable_seen hw m j"
  shows "fst (pcr_calibration_poll hw c m) = fst (hw (ops m + 2 * j + 1) 0x87) \<and>
         ops (snd (pcr_calibration_poll hw c m)) = ops m + 2 * (j + 1) \<and>
         trace (snd (pcr_calibration_poll hw c m)) =
           trace m @ concat (replicate (j + 1) poll_events)"
  using assms
proof (induction j arbitrary: c m)
  case 0
  then have "pcr_calibration_poll hw c m = (fst (hw (ops m + 1) 0x87), poll_round hw m)"
    by (subst poll_step) simp
  then show ?case
    by (simp add: poll_round_io)
next
  case (Suc j)
  from Suc.prems(1) have c: "unat c \<le> 50"
    by simp
  then have nc: "\<not> c > 50"
    by (simp add: word_less_nat_alt)
  from c have "unat c + unat (1 :: u8) < 2 ^ LENGTH(8)"
    by simp
  then have "unat (c + 1) = unat c + unat (1 :: u8)"
    by (rule unat_add_lem [THEN iffD1])
  with Suc.prems(1) have c1: "unat (c + 1) + j \<le> 51"
    by simp
  have ns: "\<forall>k. k < j \<longrightarrow> \<not> pcr_stable_seen hw (poll_round hw m) k"
    using Suc.prems(2) by (simp add: stable_seen_shift [OF poll_round_io(1)])
  have st: "pcr_stable_seen hw (poll_round hw m) j"
    using Suc.prems(3) by (simp add: stable_seen_shift [OF poll_round_io(1)])
  from Suc.prems(2) have n0: "\<not> pcr_stable_seen hw m 0"
    by simp
  have step: "pcr_calibration_poll hw c m = pcr_calibration_poll hw (c + 1) (poll_round hw m)"
    using n0 nc by (subst poll_step) simp
  from Suc.IH [OF c1 ns st] show ?case
    by (simp add: step poll_round_io)
qed

lemma count_concat_replicate: "count_list (concat (replicate n xs)) x = n * count_list xs x"
  by (induction n) simp_all

text \<open>
  C3 (as the code has it). With \<open>m0\<close> the bus as the register set-up leaves it: when
  none of the rounds 0 to 51 reads the stable mask (bits 0x18 of register 0x87) fully
  set, the calibration returns \<open>-ENOPARAM\<close> after exactly 52 rounds, each a sleep of
  500 ms and the two reads; when round \<open>j \<le> 51\<close> is the first to read the mask set, it
  leaves the loop after \<open>j + 1\<close> rounds and returns the code of that read.
\<close>

theorem pcr_calibration_poll_rounds:
  "(let m0 = pcr_calibration_setup hw ctx m; r = lt9211c_mipi_rx_pcr_calibration hw ctx m
    in ((\<forall>k. k \<le> 51 \<longrightarrow> \<not> pcr_stable_seen hw m0 k) \<longrightarrow>
          fst r = - ENOPARAM \<and>
          trace (snd r) = trace m0 @ concat (replicate 52 poll_events)) \<and>
       (\<forall>j. j \<le> 51 \<and> (\<forall>k. k < j \<longrightarrow> \<not> pcr_stable_seen hw m0 k) \<and>
            pcr_stable_seen hw m0 j \<longrightarrow>
          fst r = fst (hw (ops m0 + 2 * j + 1) 0x87) \<and>
          trace (snd r) = trace m0 @ concat (replicate (j + 1) poll_events)))"
proof -
  let ?m0 = "pcr_calibration_setup hw ctx m"
  have a: "fst (pcr_calibration_poll hw 0 ?m0) = - ENOPARAM \<and>
      trace (snd (pcr_calibration_poll hw 0 ?m0)) = trace ?m0 @ concat (replicate 52 poll_events)"
    if "\<forall>k. k \<le> 51 \<longrightarrow> \<not> pcr_stable_seen hw ?m0 k"
    using poll_never_stable [of 0 51 hw ?m0] that by simp
  have b: "fst (pcr_calibration_poll hw 0 ?m0) = fst (hw (ops ?m0 + 2 * j + 1) 0x87) \<and>
      trace (snd (pcr_calibration_poll hw 0 ?m0)) =
        trace ?m0 @ concat (replicate (j + 1) poll_events)"
    if "j \<le> 51" "\<forall>k. k < j \<longrightarrow> \<not> pcr_stable_seen hw ?m0 k" "pcr_stable_seen hw ?m0 j" for j
    using poll_stable_at [of 0 j hw ?m0] that by simp
  from a b show ?thesis
    unfolding lt9211c_mipi_rx_pcr_calibration_def Let_def by blast
qed

theorem pcr_calibration_poll_rounds_witness:
  "fst (lt9211c_mipi_rx_pcr_calibration (chip_regs regs_silent) ctx_resolved_1080p60 io0) =
     - ENOPARAM \<and>
   fst (lt9211c_mipi_rx_pcr_calibration (chip_regs regs_1080p60) ctx_resolved_1080p60 io0) = 0 \<and>
   trace (snd (lt9211c_mipi_rx_pcr_calibration (chip_regs regs_1080p60) ctx_resolved_1080p60 io0)) =
     trace (pcr_calibration_setup (chip_regs regs_1080p60) ctx_resolved_1080p60 io0) @ poll_events"
proof -
  have s: "\<forall>k. k \<le> 51 \<longrightarrow>
      \<not> pcr_stable_seen (chip_regs regs_silent)
          (pcr_calibration_setup (chip_regs regs_silent) ctx_resolved_1080p60 io0) k"
    by (simp add: pcr_stable_seen_def chip_regs_def regs_silent_def)
  have g: "(0 :: nat) \<le> 51 \<and>
      (\<forall>k. k < (0 :: nat) \<longrightarrow> \<not> pcr_stable_seen (chip_regs regs_1080p60)
          (pcr_calibration_setup (chip_regs regs_1080p60) ctx_resolved_1080p60 io0) k) \<and>
      pcr_stable_seen (chip_regs regs_1080p60)
          (pcr_calibration_setup (chip_regs regs_1080p60) ctx_resolved_1080p60 io0) 0"
    by (simp add: pcr_stable_seen_def chip_regs_def regs_1080p60_def)
  from pcr_calibration_poll_rounds [of "chip_regs regs_silent" ctx_resolved_1080p60 io0] s
  have "fst (lt9211c_mipi_rx_pcr_calibration (chip_regs regs_silent) ctx_resolved_1080p60 io0) =
     - ENOPARAM"
    unfolding Let_def by blast
  moreover
  from pcr_calibration_poll_rounds [of "chip_regs regs_1080p60" ctx_resolved_1080p60 io0] g
  have "fst (lt9211c_mipi_rx_pcr_calibration (chip_regs regs_1080p60) ctx_resolved_1080p60 io0) =
      fst (chip_regs regs_1080p60
        (ops (pcr_calibration_setup (chip_regs regs_1080p60) ctx_resolved_1080p60 io0) + 2 * 0 + 1)
        0x87) \<and>
    trace (snd (lt9211c_mipi_rx_pcr_calibration (chip_regs regs_1080p60) ctx_resolved_1080p60 io0)) =
      trace (pcr_calibration_setup (chip_regs regs_1080p60) ctx_resolved_1080p60 io0) @
      concat (replicate (0 + 1) poll_events)"
    unfolding Let_def by blast
  ultimately show ?thesis
    by (simp add: chip_regs_def)
qed

lemma pcr_setup_counts:
  assumes "\<forall>n r. fst (hw n r) = 0"
  shows "count_list (trace (pcr_calibration_setup hw ctx m)) (RegRead 0x87 1) =
           count_list (trace m) (RegRead 0x87 1)"
    and "count_list (trace (pcr_calibration_setup hw ctx m)) (Usleep 500000) =
           count_list (trace m) (Usleep 500000)"
  by (simp_all add: pcr_calibration_setup_def multi_reg_write_ok [OF assms] io_proj if_proj
      Let_def split_def del: regmap_multi_reg_write.simps)

text \<open>
  On a chip that never reports the mask the calibration polls the status register 52
  times, with 52 sleeps of 500 ms, before it gives up.
\<close>

theorem pcr_calibration_52_rounds_counterexample:
  "fst (lt9211c_mipi_rx_pcr_calibration (chip_regs regs_silent) ctx_resolved_1080p60 io0) =
     - ENOPARAM \<and>
   count_list (trace (snd (lt9211c_mipi_rx_pcr_calibration (chip_regs regs_silent)
       ctx_resolved_1080p60 io0))) (RegRead 0x87 1) = 52 \<and>
   count_list (trace (snd (lt9211c_mipi_rx_pcr_calibration (chip_regs regs_silent)
       ctx_resolved_1080p60 io0))) (Usleep 500000) = 52 \<and>
   \<not> count_list (trace (snd (lt9211c_mipi_rx_pcr_calibration (chip_regs regs_silent)
       ctx_resolved_1080p60 io0))) (RegRead 0x87 1) \<le> 51"
proof -
  let ?m0 = "pcr_calibration_setup (chip_regs regs_silent) ctx_resolved_1080p60 io0"
  have "\<forall>k. k \<le> 51 \<longrightarrow> \<not> pcr_stable_seen (chip_regs regs_silent) ?m0 k"
    by (simp add: pcr_stable_seen_def chip_regs_def regs_silent_def)
  with poll_never_stable [of 0 51 "chip_regs regs_silent" ?m0]
  have r: "fst (pcr_calibration_poll (chip_regs regs_silent) 0 ?m0) = - ENOPARAM"
    "trace (snd (pcr_calibration_poll (chip_regs regs_silent) 0 ?m0)) =
       trace ?m0 @ concat (replicate 52 poll_events)"
    by simp_all
  have c: "count_list (trace ?m0) (RegRead 0x87 1) = 0"
    "count_list (trace ?m0) (Usleep 500000) = 0"
    using pcr_setup_counts [OF chip_regs_no_error, of regs_silent ctx_resolved_1080p60 io0]
    by (simp_all add: io0_def)
  have n: "count_list (trace ?m0 @ concat (replicate 52 poll_events)) e =
      count_list (trace ?m0) e + 52 * count_list poll_events e" for e
    by (simp only: count_list_append count_concat_replicate)
  have p: "count_list poll_events (RegRead 0x87 1) = 1" "count_list poll_events (Usleep 500000) = 1"
    by (simp_all add: poll_events_def)
  show ?thesis
    unfolding lt9211c_mipi_rx_pcr_calibration_def r n c p by simp
qed

section \<open>The preparation and the probe on an idle front end\<close>

lemma chip_regs_app: "chip_regs f n r = (0, f r)"
  by (simp add: chip_regs_def)

lemmas bus_defs = regmap_write_def regmap_bulk_read_def usleep_range_def Let_def chip_regs_app

text \<open>
  The preparation and the probe of the line, on any device without transport errors
  whose registers 0x00, 0x80 and 0x30 read zero.
\<close>

lemma run_read_chipid:
  "lt9211c_read_chipid (chip_regs f) m =
     (0,
      m\<lparr>ops := ops m + 4,
        trace := trace m @
          [RegWrite 0xff 0x81, RegRead 0x00 3]\<rparr>)"
  by (simp add: lt9211c_read_chipid_def bus_defs)

lemma run_mipi_rx_phy_poweron:
  assumes "f 0x00 = 0"
    and "lanes ctx = 4"
    and "mode_flags ctx = 0xe3"
  shows "lt9211c_mipi_rx_phy_poweron (chip_regs f) ctx m =
     (0,
      m\<lparr>ops := ops m + 24,
        trace := trace m @
          [RegWrite 0xff 0xd0, RegRead 0x00 1, RegWrite 0x00 0x00, RegWrite 0xff 0x82,
           RegWrite 0x01 0x11, RegWrite 0x18 0x48, RegWrite 0x01 0x91, RegWrite 0x02 0x00,
           RegWrite 0x03 0xee, RegWrite 0x09 0x21, RegWrite 0x04 0x44, RegWrite 0x05 0xc4,
           RegWrite 0x06 0x44, RegWrite 0x13 0x0c, RegWrite 0x13 0x00, RegWrite 0xff 0xd0,
           RegWrite 0x01 0x00, RegWrite 0x02 0x0e, RegWrite 0x05 0x00, RegWrite 0x0a 0x59,
           RegWrite 0x0b 0x20, RegWrite 0xff 0x81, RegWrite 0x09 0xde, RegWrite 0x09 0xdf]\<rparr>)"
  using assms
  by (simp add: lt9211c_mipi_rx_phy_poweron_def MIPI_DSI_MODE_VIDEO_BURST_def bus_defs)

lemma run_mipi_rx_clk_sel:
  "lt9211c_mipi_rx_clk_sel (chip_regs f) m =
     (0,
      m\<lparr>ops := ops m + 7,
        trace := trace m @
          [RegWrite 0xff 0x85, RegWrite 0xe9 0x88, RegWrite 0xff 0x81, RegWrite 0x80 0x51,
           RegWrite 0x81 0x10, RegWrite 0xff 0x86, RegWrite 0x32 0x03]\<rparr>)"
  by (simp add: lt9211c_mipi_rx_clk_sel_def bus_defs)

lemma run_chk_clk_src_sel_byte_clk:
  assumes "f 0x80 = 0"
  shows "lt9211c_system_video_chk_clk_src_sel (chip_regs f) LT9211C_MLRX_BYTE_CLK m =
     (0,
      m\<lparr>ops := ops m + 5,
        trace := trace m @
          [RegWrite 0xff 0x81, RegRead 0x80 1, RegWrite 0x80 0x00, RegRead 0x80 1,
           RegWrite 0x80 0x03]\<rparr>)"
  using assms
  by (simp add: lt9211c_system_video_chk_clk_src_sel_def LT9211C_MLRX_BYTE_CLK_def bus_defs)

lemma run_chk_clk_src_sel_pix_clk:
  assumes "f 0x80 = 0"
  shows "lt9211c_system_video_chk_clk_src_sel (chip_regs f) LT9211C_DESSCPLL_PIX_CLK m =
     (0,
      m\<lparr>ops := ops m + 5,
        trace := trace m @
          [RegWrite 0xff 0x81, RegRead 0x80 1, RegWrite 0x80 0x00, RegRead 0x80 1,
           RegWrite 0x80 0x01]\<rparr>)"
  using assms
  by (simp add: lt9211c_system_video_chk_clk_src_sel_def LT9211C_DESSCPLL_PIX_CLK_def bus_defs)

lemma run_chk_src_sel:
  assumes "f 0x80 = 0"
  shows "lt9211c_system_video_chk_src_sel (chip_regs f) m =
     (0,
      m\<lparr>ops := ops m + 4,
        trace := trace m @
          [RegWrite 0xff 0x86, RegRead 0x80 1, RegWrite 0x3f 0x00, RegWrite 0x3f 0x05]\<rparr>)"
  using assms
  by (simp add: lt9211c_system_video_chk_src_sel_def bus_defs)

lemma run_act_rx_sel:
  assumes "f 0x30 = 0"
  shows "lt9211c_system_act_rx_sel (chip_regs f) m =
     (0,
      m\<lparr>ops := ops m + 7,
        trace := trace m @
          [RegWrite 0xff 0x85, RegRead 0x30 1, RegWrite 0x30 0x00, RegRead 0x30 1,
           RegWrite 0x30 0x01, RegRead 0x30 1, RegWrite 0x30 0x10]\<rparr>)"
  using assms
  by (simp add: lt9211c_system_act_rx_sel_def bus_defs)

lemma run_mipi_rx_dig_set:
  "lt9211c_mipi_rx_dig_set (chip_regs f) m =
     (0,
      m\<lparr>ops := ops m + 15,
        trace := trace m @
          [RegWrite 0xff 0xd0, RegWrite 0x04 0x00, RegWrite 0x21 0x46, RegWrite 0xff 0x85,
           RegWrite 0x3f 0x08, RegWrite 0x40 0x04, RegWrite 0x41 0x03, RegWrite 0x42 0x02,
           RegWrite 0x43 0x01, RegWrite 0x45 0x04, RegWrite 0x46 0x03, RegWrite 0x47 0x02,
           RegWrite 0x48 0x01, RegWrite 0x44 0x00, RegWrite 0x49 0x00]\<rparr>)"
  by (simp add: lt9211c_mipi_rx_dig_set_def lt9211c_mipi_rx_input_sel_def lt9211c_mipi_rx_lane_set_def bus_defs)

lemma run_mipi_rx_source_config:
  assumes "f 0x00 = 0"
    and "f 0x80 = 0"
    and "f 0x30 = 0"
    and "lanes ctx = 4"
    and "mode_flags ctx = 0xe3"
  shows "lt9211c_mipi_rx_source_config (chip_regs f) ctx m =
     (0,
      m\<lparr>ops := ops m + 62,
        trace := trace m @
          [RegWrite 0xff 0xd0, RegRead 0x00 1, RegWrite 0x00 0x00, RegWrite 0xff 0x82,
           RegWrite 0x01 0x11, RegWrite 0x18 0x48, RegWrite 0x01 0x91, RegWrite 0x02 0x00,
           RegWrite 0x03 0xee, RegWrite 0x09 0x21, RegWrite 0x04 0x44, RegWrite 0x05 0xc4,
           RegWrite 0x06 0x44, RegWrite 0x13 0x0c, RegWrite 0x13 0x00, RegWrite 0xff 0xd0,
           RegWrite 0x01 0x00, RegWrite 0x02 0x0e, RegWrite 0x05 0x00, RegWrite 0x0a 0x59,
           RegWrite 0x0b 0x20, RegWrite 0xff 0x81, RegWrite 0x09 0xde, RegWrite 0x09 0xdf,
           RegWrite 0xff 0x85, RegWrite 0xe9 0x88, RegWrite 0xff 0x81, RegWrite 0x80 0x51,
           RegWrite 0x81 0x10, RegWrite 0xff 0x86, RegWrite 0x32 0x03, RegWrite 0xff 0x81,
           RegRead 0x80 1, RegWrite 0x80 0x00, RegRead 0x80 1, RegWrite 0x80 0x03,
           RegWrite 0xff 0x86, RegRead 0x80 1, RegWrite 0x3f 0x00, RegWrite 0x3f 0x05,
           RegWrite 0xff 0x85, RegRead 0x30 1, RegWrite 0x30 0x00, RegRead 0x30 1,
           RegWrite 0x30 0x01, RegRead 0x30 1, RegWrite 0x30 0x10, RegWrite 0xff 0xd0,
           RegWrite 0x04 0x00, RegWrite 0x21 0x46, RegWrite 0xff 0x85, RegWrite 0x3f 0x08,
           RegWrite 0x40 0x04, RegWrite 0x41 0x03, RegWrite 0x42 0x02, RegWrite 0x43 0x01,
           RegWrite 0x45 0x04, RegWrite 0x46 0x03, RegWrite 0x47 0x02, RegWrite 0x48 0x01,
           RegWrite 0x44 0x00, RegWrite 0x49 0x00]\<rparr>)"
  using assms
  by (simp add: lt9211c_mipi_rx_source_config_def run_mipi_rx_phy_poweron run_mipi_rx_clk_sel
      run_chk_clk_src_sel_byte_clk run_chk_src_sel run_act_rx_sel run_mipi_rx_dig_set)

lemma run_lvds_tx_phy_poweroff:
  "lt9211c_lvds_tx_phy_poweroff (chip_regs f) m =
     (0,
      m\<lparr>ops := ops m + 3,
        trace := trace m @
          [RegWrite 0xff 0x82, RegWrite 0x36 0x00, RegWrite 0x37 0x00]\<rparr>)"
  by (simp add: lt9211c_lvds_tx_phy_poweroff_def bus_defs)

lemma run_prepare:
  assumes "f 0x00 = 0" and "f 0x80 = 0" and "f 0x30 = 0"
    and "lanes ctx = 4" and "mode_flags ctx = 0xe3"
  shows "prepare (chip_regs f) ctx m =
     (ctx\<lparr>counter := 0, state := LT9211C_STATE_CHIPRX_VIDTIMING_CONFIG\<rparr>,
      m\<lparr>ops := ops m + 69, trace := trace m @ prepare_events\<rparr>)"
  using assms
  by (simp add: prepare_def lt9211c_module_reset_def usleep_range_def
      gpiod_set_value_cansleep_def run_read_chipid run_mipi_rx_source_config
      run_lvds_tx_phy_poweroff prepare_events_def)

lemma run_mipi_rx_sot_get:
  "lt9211c_mipi_rx_sot_get (chip_regs f) m =
     (0,
      m\<lparr>ops := ops m + 9,
        trace := trace m @
          [RegWrite 0xff 0xd0, RegRead 0x88 1, RegRead 0x89 1, RegRead 0x8a 1,
           RegRead 0x8b 1, RegRead 0x8c 1, RegRead 0x8d 1, RegRead 0x8e 1, RegRead 0x8f 1]\<rparr>)"
  by (simp add: lt9211c_mipi_rx_sot_get_def bus_defs)

lemma run_mipi_rx_hs_settle_set:
  "lt9211c_mipi_rx_hs_settle_set (chip_regs f) m =
     (0,
      m\<lparr>ops := ops m + 2,
        trace := trace m @
          [RegWrite 0xff 0xd0, RegWrite 0x02 0x0a]\<rparr>)"
  by (simp add: lt9211c_mipi_rx_hs_settle_set_def bus_defs)

lemma run_mipi_rx_video_timing_get:
  "snd (snd (lt9211c_mipi_rx_video_timing_get (chip_regs f) ctx m)) =
     m\<lparr>ops := ops m + 18, trace := trace m @ probe_events\<rparr>"
  "fst (snd (lt9211c_mipi_rx_video_timing_get (chip_regs f) ctx m)) =
     ctx\<lparr>mipi_rx_video_timing := (mipi_rx_video_timing ctx)
       \<lparr>wc := word_of_int (uint (f 0x82) * 256 + uint (f 0x83)),
        hact := hact_of_wc (f 0x84 AND 0x0f) (word_of_int (uint (f 0x82) * 256 + uint (f 0x83))),
        vact := word_of_int (uint (f 0x85) * 256 + uint (f 0x86)),
        fmt := f 0x84 AND 0x0f, pa_lpn := f 0x9c\<rparr>\<rparr>"
  by (simp_all add: lt9211c_mipi_rx_video_timing_get_def lt9211c_mipi_rx_hact_get_def
      run_mipi_rx_sot_get run_mipi_rx_hs_settle_set probe_events_def split_def if_proj bus_defs)

text \<open>
  With no line on the input (the word count registers read zero) the timing stage fails
  in the probe, before the frame rate is measured.
\<close>

lemma timing_config_no_signal:
  assumes "f 0x82 = 0" and "f 0x83 = 0"
  shows "lt9211c_mipi_rx_video_timing_config (chip_regs f) stale ctx m =
     Inr (- EPROBE_DEFER,
          ctx\<lparr>mipi_rx_video_timing := (mipi_rx_video_timing ctx)
            \<lparr>wc := 0, hact := 0, vact := word_of_int (uint (f 0x85) * 256 + uint (f 0x86)),
             fmt := f 0x84 AND 0x0f, pa_lpn := f 0x9c\<rparr>\<rparr>,
          m\<lparr>ops := ops m + 18, trace := trace m @ probe_events\<rparr>)"
proof -
  let ?g = "lt9211c_mipi_rx_video_timing_get (chip_regs f) ctx m"
  have h: "hact_of_wc c 0 = 0" for c
    by (simp add: hact_of_wc_def)
  have "fst ?g = - EPROBE_DEFER"
    using assms
    by (simp add: lt9211c_mipi_rx_video_timing_get_def lt9211c_mipi_rx_hact_get_def
        split_def h bus_defs)
  then show ?thesis
    using assms
    by (simp add: lt9211c_mipi_rx_video_timing_config_def split_def
        run_mipi_rx_video_timing_get h EPROBE_DEFER_def)
qed

section \<open>Bring-up state machine: the timing stage\<close>

lemma hact_get_frame:
  "fst (snd (lt9211c_mipi_rx_hact_get hw ctx m)) =
     ctx\<lparr>mipi_rx_video_timing := mipi_rx_video_timing (fst (snd (lt9211c_mipi_rx_hact_get hw ctx m)))\<rparr>"
  by (simp add: lt9211c_mipi_rx_hact_get_def Let_def split_def)

lemma timing_get_frame:
  "fst (snd (lt9211c_mipi_rx_video_timing_get hw ctx m)) =
     ctx\<lparr>mipi_rx_video_timing :=
       mipi_rx_video_timing (fst (snd (lt9211c_mipi_rx_video_timing_get hw ctx m)))\<rparr>"
  by (simp add: lt9211c_mipi_rx_video_timing_get_def Let_def split_def if_distrib [of fst]
      if_distrib [of snd] if_distrib [of mipi_rx_video_timing])
     (metis hact_get_frame)

lemma scan_frame:
  "fst (snd (video_timing_scan hw rate i ctx m)) =
     ctx\<lparr>lt9211c_video_timing :=
       lt9211c_video_timing (fst (snd (video_timing_scan hw rate i ctx m)))\<rparr>"
  by (simp add: video_timing_scan_find program_timing_def split: option.split)

lemma timing_config_frame:
  assumes "lt9211c_mipi_rx_video_timing_config hw stale ctx m = Inr r"
  shows "state (fst (snd r)) = state ctx"
    and "counter (fst (snd r)) = counter ctx"
    and "delayed_work (fst (snd r)) = delayed_work ctx"
    and "lanes (fst (snd r)) = lanes ctx"
    and "mode_flags (fst (snd r)) = mode_flags ctx"
proof -
  let ?g = "lt9211c_mipi_rx_video_timing_get hw ctx m"
  have g: "state (fst (snd ?g)) = state ctx \<and> counter (fst (snd ?g)) = counter ctx \<and>
      delayed_work (fst (snd ?g)) = delayed_work ctx \<and> lanes (fst (snd ?g)) = lanes ctx \<and>
      mode_flags (fst (snd ?g)) = mode_flags ctx"
    by (subst (1 2 3 4 5) timing_get_frame) simp
  have s: "state (fst (snd (video_timing_scan hw rate i c n))) = state c \<and>
      counter (fst (snd (video_timing_scan hw rate i c n))) = counter c \<and>
      delayed_work (fst (snd (video_timing_scan hw rate i c n))) = delayed_work c \<and>
      lanes (fst (snd (video_timing_scan hw rate i c n))) = lanes c \<and>
      mode_flags (fst (snd (video_timing_scan hw rate i c n))) = mode_flags c" for rate i c n
    by (subst (1 2 3 4 5) scan_frame) simp
  from assms g s
  have "state (fst (snd r)) = state ctx \<and> counter (fst (snd r)) = counter ctx \<and>
      delayed_work (fst (snd r)) = delayed_work ctx \<and> lanes (fst (snd r)) = lanes ctx \<and>
      mode_flags (fst (snd r)) = mode_flags ctx"
    by (auto simp: lt9211c_mipi_rx_video_timing_config_def lt9211c_mipi_rx_video_timing_sel_def
        Let_def split_def split: if_splits sum.splits)
  then show "state (fst (snd r)) = state ctx"
    and "counter (fst (snd r)) = counter ctx"
    and "delayed_work (fst (snd r)) = delayed_work ctx"
    and "lanes (fst (snd r)) = lanes ctx"
    and "mode_flags (fst (snd r)) = mode_flags ctx"
    by simp_all
qed

lemma prepare_frame:
  "fst (prepare hw ctx m) = ctx\<lparr>counter := 0, state := LT9211C_STATE_CHIPRX_VIDTIMING_CONFIG\<rparr>"
  by (simp add: prepare_def Let_def split_def)

lemma timing_stage_entry_frame:
  assumes "state ctx = LT9211C_STATE_PREPARE \<or> state ctx = LT9211C_STATE_CHIPRX_VIDTIMING_CONFIG"
  shows "fst (timing_stage_entry hw ctx m) =
     ctx\<lparr>mipi_rx_video_timing := zero_mipi_rx_video_timing,
         counter := (if state ctx = LT9211C_STATE_PREPARE then 0 else counter ctx),
         state := LT9211C_STATE_CHIPRX_VIDTIMING_CONFIG\<rparr>"
  using assms by (auto simp: timing_stage_entry_def prepare_frame Let_def)

lemma module_config_timing_stage:
  assumes "state ctx = LT9211C_STATE_PREPARE \<or> state ctx = LT9211C_STATE_CHIPRX_VIDTIMING_CONFIG"
  shows "lt9211c_module_config hw stale ctx m =
     case_CHIPRX_VIDTIMING_CONFIG hw stale (fst (timing_stage_entry hw ctx m))
       (snd (timing_stage_entry hw ctx m))"
  using assms
  by (auto simp: lt9211c_module_config_def case_PREPARE_def timing_stage_entry_def Let_def
      split_def)

text \<open>
  C2. Whenever the timing stage runs (the handler was entered in
  \<^verbatim>\<open>LT9211C_STATE_CHIPRX_VIDTIMING_CONFIG\<close>, or in \<^verbatim>\<open>LT9211C_STATE_PREPARE\<close> and fell through
  to it) and fails with a negative code, the handler returns that code and leaves the
  context of the stage with exactly three fields set: the failure counter, incremented
  and then reset to 0 if the probed format code is 0x0a; the state,
  \<^verbatim>\<open>LT9211C_STATE_PREPARE\<close> exactly when the incremented counter exceeds 30 and the format
  code is not 0x0a, and \<^verbatim>\<open>LT9211C_STATE_CHIPRX_VIDTIMING_CONFIG\<close> otherwise; and the delayed
  work, scheduled once more with a delay of 0 ms. The counter that is incremented is the
  one the handler was entered with, or 0 when it was entered in \<^verbatim>\<open>LT9211C_STATE_PREPARE\<close>.
\<close>

theorem vidtiming_failure_retry:
  assumes "state ctx = LT9211C_STATE_PREPARE \<or> state ctx = LT9211C_STATE_CHIPRX_VIDTIMING_CONFIG"
    and "timing_stage_entry hw ctx m = (ctx0, m0)"
    and "lt9211c_mipi_rx_video_timing_config hw stale ctx0 m0 = Inr (ret, ctx1, m1)"
    and "ret < 0"
  shows "lt9211c_module_config hw stale ctx m =
           Inr (ret,
                ctx1\<lparr>counter :=
                         (if fmt (mipi_rx_video_timing ctx1) = 0x0a then 0 else counter ctx0 + 1),
                     state :=
                         (if fmt (mipi_rx_video_timing ctx1) \<noteq> 0x0a \<and> counter ctx0 + 1 > 30
                          then LT9211C_STATE_PREPARE else LT9211C_STATE_CHIPRX_VIDTIMING_CONFIG),
                     delayed_work := delayed_work ctx @ [0]\<rparr>,
                m1) \<and>
         counter ctx0 = (if state ctx = LT9211C_STATE_PREPARE then 0 else counter ctx) \<and>
         lanes ctx1 = lanes ctx \<and> mode_flags ctx1 = mode_flags ctx"
proof -
  have e: "ctx0 = ctx\<lparr>mipi_rx_video_timing := zero_mipi_rx_video_timing,
         counter := (if state ctx = LT9211C_STATE_PREPARE then 0 else counter ctx),
         state := LT9211C_STATE_CHIPRX_VIDTIMING_CONFIG\<rparr>"
    using timing_stage_entry_frame [OF assms(1), of hw m] assms(2) by simp
  note f = timing_config_frame [OF assms(3)]
  have "lt9211c_module_config hw stale ctx m = case_CHIPRX_VIDTIMING_CONFIG hw stale ctx0 m0"
    using module_config_timing_stage [OF assms(1), of hw stale m] assms(2) by simp
  also have "\<dots> =
      Inr (ret,
           ctx1\<lparr>counter :=
                    (if fmt (mipi_rx_video_timing ctx1) = 0x0a then 0 else counter ctx0 + 1),
                state :=
                    (if fmt (mipi_rx_video_timing ctx1) \<noteq> 0x0a \<and> counter ctx0 + 1 > 30
                     then LT9211C_STATE_PREPARE else LT9211C_STATE_CHIPRX_VIDTIMING_CONFIG),
                delayed_work := delayed_work ctx @ [0]\<rparr>,
           m1)"
    using assms(3,4) f e
    by (simp add: case_CHIPRX_VIDTIMING_CONFIG_def schedule_delayed_work_def Let_def)
  finally show ?thesis
    using e f by simp
qed

theorem vidtiming_failure_retry_witness:
  "lt9211c_module_config (chip_regs regs_silent) 0 ctx_retrying io0 =
     Inr (- EPROBE_DEFER,
          ctx_retrying\<lparr>counter := 31, state := LT9211C_STATE_PREPARE, delayed_work := [0]\<rparr>,
          \<lparr>ops = 18, trace = probe_events\<rparr>) \<and>
   lt9211c_module_config (chip_regs regs_rgb8_idle) 0 ctx_retrying io0 =
     Inr (- EPROBE_DEFER,
          ctx_retrying\<lparr>mipi_rx_video_timing := zero_mipi_rx_video_timing\<lparr>fmt := 0x0a\<rparr>,
            counter := 0, delayed_work := [0]\<rparr>,
          \<lparr>ops = 18, trace = probe_events\<rparr>) \<and>
   lt9211c_module_config (chip_regs regs_silent) 0 ctx_attached io0 =
     Inr (- EPROBE_DEFER,
          ctx_attached\<lparr>counter := 1, state := LT9211C_STATE_CHIPRX_VIDTIMING_CONFIG,
            delayed_work := [0]\<rparr>,
          \<lparr>ops = 87, trace = prepare_events @ probe_events\<rparr>)"
proof -
  let ?z = "ctx_retrying\<lparr>mipi_rx_video_timing := zero_mipi_rx_video_timing\<rparr>"
  have e: "- EPROBE_DEFER < 0"
    by (simp add: EPROBE_DEFER_def)
  have 1: "lt9211c_module_config (chip_regs regs_silent) 0 ctx_retrying io0 =
     Inr (- EPROBE_DEFER,
          ctx_retrying\<lparr>counter := 31, state := LT9211C_STATE_PREPARE, delayed_work := [0]\<rparr>,
          \<lparr>ops = 18, trace = probe_events\<rparr>)"
  proof -
    have s: "timing_stage_entry (chip_regs regs_silent) ctx_retrying io0 = (?z, io0)"
      by (simp add: timing_stage_entry_def ctx_retrying_def ctx_attached_def)
    have r: "lt9211c_mipi_rx_video_timing_config (chip_regs regs_silent) 0 ?z io0 =
        Inr (- EPROBE_DEFER, ?z, io0\<lparr>ops := ops io0 + 18, trace := trace io0 @ probe_events\<rparr>)"
      by (simp add: timing_config_no_signal regs_silent_def zero_mipi_rx_video_timing_def)
    from vidtiming_failure_retry [OF _ s r e] show ?thesis
      by (simp add: ctx_retrying_def ctx_attached_def io0_def zero_mipi_rx_video_timing_def)
  qed
  have 2: "lt9211c_module_config (chip_regs regs_rgb8_idle) 0 ctx_retrying io0 =
     Inr (- EPROBE_DEFER,
          ctx_retrying\<lparr>mipi_rx_video_timing := zero_mipi_rx_video_timing\<lparr>fmt := 0x0a\<rparr>,
            counter := 0, delayed_work := [0]\<rparr>,
          \<lparr>ops = 18, trace = probe_events\<rparr>)"
  proof -
    have s: "timing_stage_entry (chip_regs regs_rgb8_idle) ctx_retrying io0 = (?z, io0)"
      by (simp add: timing_stage_entry_def ctx_retrying_def ctx_attached_def)
    have r: "lt9211c_mipi_rx_video_timing_config (chip_regs regs_rgb8_idle) 0 ?z io0 =
        Inr (- EPROBE_DEFER,
             ?z\<lparr>mipi_rx_video_timing := zero_mipi_rx_video_timing\<lparr>fmt := 0x0a\<rparr>\<rparr>,
             io0\<lparr>ops := ops io0 + 18, trace := trace io0 @ probe_events\<rparr>)"
      by (simp add: timing_config_no_signal regs_rgb8_idle_def zero_mipi_rx_video_timing_def)
    from vidtiming_failure_retry [OF _ s r e] show ?thesis
      by (simp add: ctx_retrying_def ctx_attached_def io0_def zero_mipi_rx_video_timing_def)
  qed
  have 3: "lt9211c_module_config (chip_regs regs_silent) 0 ctx_attached io0 =
     Inr (- EPROBE_DEFER,
          ctx_attached\<lparr>counter := 1, state := LT9211C_STATE_CHIPRX_VIDTIMING_CONFIG,
            delayed_work := [0]\<rparr>,
          \<lparr>ops = 87, trace = prepare_events @ probe_events\<rparr>)"
  proof -
    let ?c = "ctx_attached\<lparr>mipi_rx_video_timing := zero_mipi_rx_video_timing, counter := 0,
        state := LT9211C_STATE_CHIPRX_VIDTIMING_CONFIG\<rparr>"
    let ?m = "io0\<lparr>ops := ops io0 + 69, trace := trace io0 @ prepare_events\<rparr>"
    have s: "timing_stage_entry (chip_regs regs_silent) ctx_attached io0 = (?c, ?m)"
      by (simp add: timing_stage_entry_def run_prepare regs_silent_def ctx_attached_def)
    have r: "lt9211c_mipi_rx_video_timing_config (chip_regs regs_silent) 0 ?c ?m =
        Inr (- EPROBE_DEFER, ?c, ?m\<lparr>ops := ops ?m + 18, trace := trace ?m @ probe_events\<rparr>)"
      by (simp add: timing_config_no_signal regs_silent_def zero_mipi_rx_video_timing_def)
    from vidtiming_failure_retry [OF _ s r e] show ?thesis
      by (simp add: ctx_attached_def io0_def zero_mipi_rx_video_timing_def)
  qed
  from 1 2 3 show ?thesis
    by simp
qed

section \<open>Bring-up state machine: the pass from Prepare\<close>

lemma after_pll_config_frame:
  "delayed_work (fst (after_pll_config hw ctx m)) = delayed_work ctx"
  "state (fst (after_pll_config hw ctx m)) = LT9211C_STATE_CHIPTX_CONFIG_VIDEO"
  "lanes (fst (after_pll_config hw ctx m)) = lanes ctx"
  "mode_flags (fst (after_pll_config hw ctx m)) = mode_flags ctx"
  "mipi_rx_video_timing (fst (after_pll_config hw ctx m)) = mipi_rx_video_timing ctx"
  "lt9211c_video_timing (fst (after_pll_config hw ctx m)) = lt9211c_video_timing ctx"
  by (simp_all add: after_pll_config_def Let_def split_def)

lemma tx_config_video_frame:
  assumes "lt9211c_lvds_tx_config_video hw ctx m = Inr r"
  shows "delayed_work (fst (snd r)) = delayed_work ctx"
    and "lanes (fst (snd r)) = lanes ctx"
    and "mode_flags (fst (snd r)) = mode_flags ctx"
    and "counter (fst (snd r)) = counter ctx"
    and "mipi_rx_video_timing (fst (snd r)) = mipi_rx_video_timing ctx"
  using assms
  by (auto simp: lt9211c_lvds_tx_config_video_def lt9211c_lvds_tx_pll_ref_pixel_clk_get_def
      Let_def split_def split: sum.splits)

text \<open>
  C7. Entered in \<^verbatim>\<open>LT9211C_STATE_PREPARE\<close>, when the timing stage, the PLL stage and
  the output PLL stage each return a non-negative code on their first run, one call of
  the handler runs the statements of all five labels in order, each on the context and
  the bus that the one before it left: the preparation, the timing stage, the PLL stage,
  the wait for stable video with the output source set-up, the output PLL stage and the
  output formatter. It returns the code of the output formatter, with the state
  \<^verbatim>\<open>LT9211C_STATE_CHIPTX_VIDEO_OUT\<close> and the bus as the output formatter left it, and it
  has not scheduled the delayed work.
\<close>

theorem bringup_falls_through:
  assumes "state ctx = LT9211C_STATE_PREPARE"
    and "prepare hw (ctx\<lparr>mipi_rx_video_timing := zero_mipi_rx_video_timing\<rparr>) m = (ctx1, m1)"
    and "lt9211c_mipi_rx_video_timing_config hw stale ctx1 m1 = Inr (ret2, ctx2, m2)"
    and "0 \<le> ret2"
    and "lt9211c_mipi_rx_pll_config hw (ctx2\<lparr>state := LT9211C_STATE_CHIPRX_PLL_CONFIG\<rparr>) m2 =
           (ret3, m3)"
    and "0 \<le> ret3"
    and "after_pll_config hw (ctx2\<lparr>state := LT9211C_STATE_CHIPRX_PLL_CONFIG\<rparr>) m3 = (ctx4, m4)"
    and "lt9211c_lvds_tx_config_video hw ctx4 m4 = Inr (ret5, ctx5, m5)"
    and "0 \<le> ret5"
    and "lt9211c_lvds_tx_config_video_out hw m5 = (ret6, m6)"
  shows "lt9211c_module_config hw stale ctx m =
           Inr (ret6, ctx5\<lparr>state := LT9211C_STATE_CHIPTX_VIDEO_OUT\<rparr>, m6) \<and>
         delayed_work ctx5 = delayed_work ctx \<and>
         lanes ctx5 = lanes ctx \<and> mode_flags ctx5 = mode_flags ctx \<and>
         mipi_rx_video_timing ctx5 = mipi_rx_video_timing ctx2 \<and>
         counter ctx5 = counter ctx4"
proof -
  have c1: "ctx1 = ctx\<lparr>mipi_rx_video_timing := zero_mipi_rx_video_timing, counter := 0,
      state := LT9211C_STATE_CHIPRX_VIDTIMING_CONFIG\<rparr>"
    using prepare_frame [of hw "ctx\<lparr>mipi_rx_video_timing := zero_mipi_rx_video_timing\<rparr>" m]
      assms(2)
    by simp
  note f2 = timing_config_frame [OF assms(3)]
  note f4 = after_pll_config_frame [of hw "ctx2\<lparr>state := LT9211C_STATE_CHIPRX_PLL_CONFIG\<rparr>" m3]
  note f5 = tx_config_video_frame [OF assms(8)]
  have "lt9211c_module_config hw stale ctx m = case_CHIPRX_VIDTIMING_CONFIG hw stale ctx1 m1"
    using assms(1,2) by (simp add: lt9211c_module_config_def case_PREPARE_def Let_def)
  also have "\<dots> =
      case_CHIPRX_PLL_CONFIG hw (ctx2\<lparr>state := LT9211C_STATE_CHIPRX_PLL_CONFIG\<rparr>) m2"
    using assms(3,4) by (simp add: case_CHIPRX_VIDTIMING_CONFIG_def)
  also have "\<dots> = case_CHIPTX_CONFIG_VIDEO hw ctx4 m4"
    using assms(5,6,7) by (simp add: case_CHIPRX_PLL_CONFIG_def Let_def not_less [symmetric])
  also have "\<dots> =
      case_CHIPTX_VIDEO_OUT hw (ctx5\<lparr>state := LT9211C_STATE_CHIPTX_VIDEO_OUT\<rparr>) m5"
    using assms(8,9) by (simp add: case_CHIPTX_CONFIG_VIDEO_def not_less [symmetric])
  also have "\<dots> = Inr (ret6, ctx5\<lparr>state := LT9211C_STATE_CHIPTX_VIDEO_OUT\<rparr>, m6)"
    using assms(10) by (simp add: case_CHIPTX_VIDEO_OUT_def)
  finally show ?thesis
    using c1 f2 f4 f5 assms(7) by simp
qed

section \<open>The pass on a 1920x1080 stream at 60 Hz\<close>

text \<open>
  The stages on the device \<open>chip_regs regs_1080p60\<close>, from any state of the bus: what
  each returns and what it puts on the bus.
\<close>

lemmas run_defs = bus_defs regs_1080p60_def

lemma regs_1080p60_idle:
  "regs_1080p60 0x00 = 0" "regs_1080p60 0x80 = 0" "regs_1080p60 0x30 = 0"
  by (simp_all add: regs_1080p60_def)

lemma framerate_1080p60:
  "lt9211c_video_check_framerate_get (chip_regs regs_1080p60) 0 m =
     Inr (60, m\<lparr>ops := ops m + 4, trace := trace m @ framerate_events\<rparr>)"
  by (simp add: lt9211c_video_check_framerate_get_def regmap_write_def regmap_bulk_read_def
      framerate_events_def Let_def chip_regs_def regs_1080p60_def data_after_read_0)

lemma find_1080p60:
  "find (qualifies 1920 1080 60) lt9211c_support_timing = Some (lt9211c_support_timing ! 13)"
  by (simp add: lt9211c_support_timing_def qualifies_def timing_def)

lemma run_mipi_rx_video_timing_set:
  "lt9211c_mipi_rx_video_timing_set (chip_regs regs_1080p60)
       ((timing 88 44 148 1920 2200 4 5 36 1080 1125 60)\<lparr>pclk_khz := 148500\<rparr>) m =
     (0,
      m\<lparr>ops := ops m + 15,
        trace := trace m @
          [RegWrite 0xff 0xd0, RegWrite 0x0d 0x04, RegWrite 0x0e 0x65, RegWrite 0x0f 0x04,
           RegWrite 0x10 0x38, RegWrite 0x15 0x05, RegWrite 0x17 0x00, RegWrite 0x18 0x04,
           RegWrite 0x11 0x08, RegWrite 0x12 0x98, RegWrite 0x13 0x07, RegWrite 0x14 0x80,
           RegWrite 0x4c 0x2c, RegWrite 0x19 0x00, RegWrite 0x1a 0x58]\<rparr>)"
  by (simp add: lt9211c_mipi_rx_video_timing_set_def timing_def run_defs)

lemma run_mipi_rx_video_timing_sel:
  assumes "hact (mipi_rx_video_timing ctx) = 1920" and "vact (mipi_rx_video_timing ctx) = 1080"
  shows "lt9211c_mipi_rx_video_timing_sel (chip_regs regs_1080p60) 0 ctx m =
     Inr (0,
          ctx\<lparr>lt9211c_video_timing :=
                (timing 88 44 148 1920 2200 4 5 36 1080 1125 60)\<lparr>pclk_khz := 148500\<rparr>\<rparr>,
          m\<lparr>ops := ops m + 19,
            trace := trace m @ framerate_events @
              [RegWrite 0xff 0xd0, RegWrite 0x0d 0x04, RegWrite 0x0e 0x65,
               RegWrite 0x0f 0x04, RegWrite 0x10 0x38, RegWrite 0x15 0x05,
               RegWrite 0x17 0x00, RegWrite 0x18 0x04, RegWrite 0x11 0x08,
               RegWrite 0x12 0x98, RegWrite 0x13 0x07, RegWrite 0x14 0x80,
               RegWrite 0x4c 0x2c, RegWrite 0x19 0x00, RegWrite 0x1a 0x58]\<rparr>)"
proof -
  have r: "resolved_timing (timing 88 44 148 1920 2200 4 5 36 1080 1125 60) 60 =
      (timing 88 44 148 1920 2200 4 5 36 1080 1125 60)\<lparr>pclk_khz := 148500\<rparr>"
    by (simp add: resolved_timing_def timing_def)
  have "lt9211c_mipi_rx_video_timing_sel (chip_regs regs_1080p60) 0 ctx m =
      Inr (program_timing (chip_regs regs_1080p60) (timing 88 44 148 1920 2200 4 5 36 1080 1125 60) 60
             ctx (m\<lparr>ops := ops m + 4, trace := trace m @ framerate_events\<rparr>))"
    using sel_find [OF framerate_1080p60 [of m], of ctx] find_1080p60 table_13_14(1) assms
    by simp
  then show ?thesis
    by (simp add: program_timing_def r run_mipi_rx_video_timing_set)
qed

lemma run_mipi_rx_video_timing_config:
  assumes "mipi_rx_video_timing ctx = zero_mipi_rx_video_timing"
  shows "lt9211c_mipi_rx_video_timing_config (chip_regs regs_1080p60) 0 ctx m =
     Inr (0,
          ctx\<lparr>mipi_rx_video_timing :=
                \<lparr>wc = 5760, hact = 1920, vact = 1080, fmt = 0x0a, pa_lpn = 0, frame_rate = 0\<rparr>,
              lt9211c_video_timing :=
                (timing 88 44 148 1920 2200 4 5 36 1080 1125 60)\<lparr>pclk_khz := 148500\<rparr>\<rparr>,
          m\<lparr>ops := ops m + 37, trace := trace m @ timing_stage_events\<rparr>)"
proof -
  let ?g = "lt9211c_mipi_rx_video_timing_get (chip_regs regs_1080p60) ctx m"
  have c: "fst (snd ?g) = ctx\<lparr>mipi_rx_video_timing :=
      \<lparr>wc = 5760, hact = 1920, vact = 1080, fmt = 0x0a, pa_lpn = 0, frame_rate = 0\<rparr>\<rparr>"
    using assms
    by (simp add: run_mipi_rx_video_timing_get(2) regs_1080p60_def hact_of_wc_def
        zero_mipi_rx_video_timing_def)
  have "fst ?g = 0"
    by (simp add: lt9211c_mipi_rx_video_timing_get_def lt9211c_mipi_rx_hact_get_def
        split_def hact_of_wc_def run_defs)
  then show ?thesis
    by (simp add: lt9211c_mipi_rx_video_timing_config_def split_def c
        run_mipi_rx_video_timing_get(1) run_mipi_rx_video_timing_sel
        probe_events_def framerate_events_def timing_stage_events_def)
qed

lemma run_mipi_rx_dessc_pll_set:
  assumes "pclk_khz (lt9211c_video_timing ctx) = 148500"
  shows "lt9211c_mipi_rx_dessc_pll_set (chip_regs regs_1080p60) ctx m =
     (0,
      m\<lparr>ops := ops m + 17,
        trace := trace m @
          [RegWrite 0xff 0x82, RegWrite 0x26 0x20, RegWrite 0x27 0x40, RegWrite 0x2f 0x05,
           RegWrite 0xff 0xd0, RegWrite 0x08 0x00, RegWrite 0x26 0x97, RegWrite 0x2d 0x18,
           RegWrite 0x31 0x16, RegWrite 0x27 0xbe, RegWrite 0x28 0x00, RegWrite 0x29 0x00,
           RegRead 0x26 1, RegWrite 0x26 0x00, RegWrite 0xff 0x81, RegWrite 0x03 0xfe,
           Usleep 1000, RegWrite 0x03 0xff]\<rparr>)"
  using assms
  by (simp add: lt9211c_mipi_rx_dessc_pll_set_def lt9211c_mipi_rx_dessc_pll_sdm_cal_def
      dessc_pll_divsel_def pcr_setting_calc_def run_defs)

lemma run_pcr_calibration_setup:
  assumes "pclk_khz (lt9211c_video_timing ctx) = 148500"
  shows "pcr_calibration_setup (chip_regs regs_1080p60) ctx m =
      m\<lparr>ops := ops m + 40,
        trace := trace m @
          [RegWrite 0xff 0xd0, RegWrite 0x0c 0x60, RegWrite 0x1c 0x60, RegWrite 0x24 0x70,
           RegWrite 0x2d 0x30, RegWrite 0x31 0x0a, RegWrite 0x25 0xf0, RegWrite 0x2a 0x30,
           RegWrite 0x21 0x4f, RegWrite 0x22 0x00, RegWrite 0x1e 0x01, RegWrite 0x23 0x80,
           RegWrite 0x0a 0x02, RegWrite 0x38 0x02, RegWrite 0x39 0x04, RegWrite 0x3a 0x08,
           RegWrite 0x3b 0x10, RegWrite 0x3f 0x04, RegWrite 0x40 0x08, RegWrite 0x41 0x10,
           RegWrite 0x42 0x20, RegWrite 0x2b 0xa0, RegWrite 0xff 0xd0, RegWrite 0x26 0x97,
           RegWrite 0x26 0x17, RegWrite 0x27 0x0f, RegWrite 0xff 0x81, RegWrite 0x20 0xbf,
           RegWrite 0x20 0xff, Usleep 5000, RegWrite 0x0b 0x6f, RegWrite 0x0b 0xff,
           RegWrite 0x0c 0x40, RegWrite 0x1b 0x00, RegWrite 0x1c 0x40, RegWrite 0xff 0x81,
           RegWrite 0x09 0xdb, RegWrite 0x09 0xdf, RegWrite 0xff 0xd0, RegWrite 0x08 0x80,
           RegWrite 0x08 0x00, Usleep 10000]\<rparr>"
  using assms
  by (simp add: pcr_calibration_setup_def run_defs)

lemma run_pcr_calibration_poll:
  "pcr_calibration_poll (chip_regs regs_1080p60) 0 m =
     (0,
      m\<lparr>ops := ops m + 2,
        trace := trace m @
          [Usleep 500000, RegRead 0x94 1, RegRead 0x87 1]\<rparr>)"
  by (subst pcr_calibration_poll.simps) (simp add: run_defs)

lemma run_mipi_rx_pcr_calibration:
  assumes "pclk_khz (lt9211c_video_timing ctx) = 148500"
  shows "lt9211c_mipi_rx_pcr_calibration (chip_regs regs_1080p60) ctx m =
     (0,
      m\<lparr>ops := ops m + 42,
        trace := trace m @
          [RegWrite 0xff 0xd0, RegWrite 0x0c 0x60, RegWrite 0x1c 0x60, RegWrite 0x24 0x70,
           RegWrite 0x2d 0x30, RegWrite 0x31 0x0a, RegWrite 0x25 0xf0, RegWrite 0x2a 0x30,
           RegWrite 0x21 0x4f, RegWrite 0x22 0x00, RegWrite 0x1e 0x01, RegWrite 0x23 0x80,
           RegWrite 0x0a 0x02, RegWrite 0x38 0x02, RegWrite 0x39 0x04, RegWrite 0x3a 0x08,
           RegWrite 0x3b 0x10, RegWrite 0x3f 0x04, RegWrite 0x40 0x08, RegWrite 0x41 0x10,
           RegWrite 0x42 0x20, RegWrite 0x2b 0xa0, RegWrite 0xff 0xd0, RegWrite 0x26 0x97,
           RegWrite 0x26 0x17, RegWrite 0x27 0x0f, RegWrite 0xff 0x81, RegWrite 0x20 0xbf,
           RegWrite 0x20 0xff, Usleep 5000, RegWrite 0x0b 0x6f, RegWrite 0x0b 0xff,
           RegWrite 0x0c 0x40, RegWrite 0x1b 0x00, RegWrite 0x1c 0x40, RegWrite 0xff 0x81,
           RegWrite 0x09 0xdb, RegWrite 0x09 0xdf, RegWrite 0xff 0xd0, RegWrite 0x08 0x80,
           RegWrite 0x08 0x00, Usleep 10000, Usleep 500000, RegRead 0x94 1, RegRead 0x87 1]\<rparr>)"
  using assms
  by (simp add: lt9211c_mipi_rx_pcr_calibration_def run_pcr_calibration_setup run_pcr_calibration_poll)

lemma run_mipi_rx_pll_config:
  assumes "pclk_khz (lt9211c_video_timing ctx) = 148500"
  shows "lt9211c_mipi_rx_pll_config (chip_regs regs_1080p60) ctx m =
     (0, m\<lparr>ops := ops m + 68, trace := trace m @ pll_stage_events\<rparr>)"
  using assms
  by (simp add: lt9211c_mipi_rx_pll_config_def run_mipi_rx_dessc_pll_set
      run_mipi_rx_pcr_calibration run_chk_clk_src_sel_pix_clk run_chk_src_sel
      regs_1080p60_idle pll_stage_events_def)

lemma run_mipi_rx_video_check_stable:
  "lt9211c_mipi_rx_video_check_stable (chip_regs regs_1080p60) m =
     (0,
      m\<lparr>ops := ops m + 2,
        trace := trace m @
          [RegWrite 0xff 0x86, RegRead 0x40 1]\<rparr>)"
  by (simp add: lt9211c_mipi_rx_video_check_stable_def run_defs)

lemma run_video_stable_wait:
  "video_stable_wait (chip_regs regs_1080p60) 0 m =
     (0,
      m\<lparr>ops := ops m + 2,
        trace := trace m @
          [RegWrite 0xff 0x86, RegRead 0x40 1]\<rparr>)"
  by (subst video_stable_wait.simps) (simp add: run_mipi_rx_video_check_stable)

lemma run_lvds_tx_source_config:
  "lt9211c_lvds_tx_source_config (chip_regs regs_1080p60) m =
     (0,
      m\<lparr>ops := ops m + 28,
        trace := trace m @
          [RegWrite 0xff 0x85, RegRead 0x30 1, RegWrite 0x30 0x00, RegRead 0x30 1,
           RegWrite 0x30 0x40, RegWrite 0xff 0x82, RegWrite 0x36 0x03, RegWrite 0x37 0x44,
           RegWrite 0x38 0x14, RegWrite 0x39 0x31, RegWrite 0x3a 0xc8, RegWrite 0x3b 0x00,
           RegWrite 0x3c 0x0f, RegWrite 0x46 0x40, RegWrite 0x47 0x40, RegWrite 0x48 0x40,
           RegWrite 0x49 0x40, RegWrite 0x4a 0x40, RegWrite 0x4b 0x40, RegWrite 0x4c 0x40,
           RegWrite 0x4d 0x40, RegWrite 0x4e 0x40, RegWrite 0x4f 0x40, RegWrite 0x50 0x40,
           RegWrite 0x51 0x40, RegWrite 0xff 0x81, RegWrite 0x03 0xbf, RegWrite 0x03 0xff]\<rparr>)"
  by (simp add: lt9211c_lvds_tx_source_config_def lt9211c_system_tx_sram_sel_def
      lt9211c_lvds_tx_phy_poweron_def run_defs)

lemma run_after_pll_config:
  "after_pll_config (chip_regs regs_1080p60) ctx m =
     (ctx\<lparr>counter := 0, state := LT9211C_STATE_CHIPTX_CONFIG_VIDEO\<rparr>,
      m\<lparr>ops := ops m + 30, trace := trace m @ output_source_events\<rparr>)"
  by (simp add: after_pll_config_def run_video_stable_wait run_lvds_tx_source_config
      output_source_events_def)

lemma run_system_fm_clk_get:
  "lt9211c_system_fm_clk_get (chip_regs regs_1080p60) LT9211C_AD_DESSCPLL_PIX_CLK m =
     (148500,
      m\<lparr>ops := ops m + 8,
        trace := trace m @
          [RegWrite 0xff 0x86, RegWrite 0x90 0x10, Usleep 5000, RegWrite 0x90 0x90,
           RegRead 0x98 1, RegRead 0x99 1, RegRead 0x9a 1, RegRead 0x90 1, RegWrite 0x90 0x7f]\<rparr>)"
  by (simp add: lt9211c_system_fm_clk_get_def LT9211C_AD_DESSCPLL_PIX_CLK_def run_defs)

lemma run_lvds_tx_pll_ref_pixel_clk_set:
  "lt9211c_lvds_tx_pll_ref_pixel_clk_set (chip_regs regs_1080p60) m =
     (0,
      m\<lparr>ops := ops m + 2,
        trace := trace m @
          [RegWrite 0xff 0x82, RegWrite 0x30 0x00]\<rparr>)"
  by (simp add: lt9211c_lvds_tx_pll_ref_pixel_clk_set_def run_defs)

lemma run_lvds_tx_pll_config:
  assumes "pclk_khz (lt9211c_video_timing ctx) = 148500"
  shows "lt9211c_lvds_tx_pll_config (chip_regs regs_1080p60) ctx m =
     Inr (0,
      m\<lparr>ops := ops m + 11,
        trace := trace m @
          [RegWrite 0xff 0x85, RegRead 0x6f 1, RegWrite 0x6f 0x01, RegWrite 0xff 0x82,
           RegWrite 0x31 0x2a, RegWrite 0xff 0x82, RegWrite 0x32 0x02, RegWrite 0xff 0x82,
           RegWrite 0x33 0x04, RegWrite 0x34 0x01, RegWrite 0x35 0x1c]\<rparr>)"
  using assms
  by (simp add: lt9211c_lvds_tx_pll_config_def lvds_tx_phy_clk_def txpll_prediv_sel_def
      txpll_serick_divsel_def run_defs)

lemma run_tx_pll_calibration_rounds:
  "tx_pll_calibration_rounds (chip_regs regs_1080p60) 0 m =
      m\<lparr>ops := ops m + 4,
        trace := trace m @
          [RegWrite 0xff 0x87, RegWrite 0x0f 0x00, RegWrite 0x0f 0x01, Usleep 20000,
           RegRead 0x39 1]\<rparr>"
  by (subst tx_pll_calibration_rounds.simps) (simp add: run_defs)

lemma run_lvds_tx_pll_calibration:
  "lt9211c_lvds_tx_pll_calibration (chip_regs regs_1080p60) m =
     (0,
      m\<lparr>ops := ops m + 8,
        trace := trace m @
          [RegWrite 0xff 0x81, RegWrite 0x0c 0xfe, Usleep 1000, RegWrite 0x0c 0xff,
           RegWrite 0xff 0x87, RegWrite 0x0f 0x00, RegWrite 0x0f 0x01, Usleep 20000,
           RegRead 0x39 1, RegRead 0x39 1]\<rparr>)"
  by (simp add: lt9211c_lvds_tx_pll_calibration_def run_tx_pll_calibration_rounds run_defs)

lemma run_lvds_tx_config_video:
  "lt9211c_lvds_tx_config_video (chip_regs regs_1080p60) ctx m =
     Inr (0,
          ctx\<lparr>lt9211c_video_timing := (lt9211c_video_timing ctx)\<lparr>pclk_khz := 148500\<rparr>\<rparr>,
          m\<lparr>ops := ops m + 29, trace := trace m @ output_pll_events\<rparr>)"
  by (simp add: lt9211c_lvds_tx_config_video_def lt9211c_lvds_tx_pll_ref_pixel_clk_get_def
      run_system_fm_clk_get run_lvds_tx_pll_ref_pixel_clk_set run_lvds_tx_pll_config
      run_lvds_tx_pll_calibration output_pll_events_def)

lemma run_video_check_get:
  "snd (snd (lt9211c_video_check_get (chip_regs regs_1080p60) vt m)) =
      m\<lparr>ops := ops m + 24,
        trace := trace m @
          [RegWrite 0xff 0x81, RegWrite 0x0b 0x7f, RegWrite 0x0b 0xff, Usleep 80000,
           RegWrite 0xff 0x86, RegRead 0x60 1, RegRead 0x61 1, RegRead 0x5c 1,
           RegRead 0x5d 1, RegRead 0x58 1, RegRead 0x59 1, RegRead 0x50 1, RegRead 0x51 1,
           RegRead 0x54 1, RegRead 0x55 1, RegRead 0x62 1, RegRead 0x63 1, RegRead 0x5e 1,
           RegRead 0x5f 1, RegRead 0x5a 1, RegRead 0x5b 1, RegRead 0x52 1, RegRead 0x53 1,
           RegRead 0x56 1, RegRead 0x57 1]\<rparr>"
  "fst (lt9211c_video_check_get (chip_regs regs_1080p60) vt m) = 0"
  by (simp_all add: lt9211c_video_check_get_def video_check_read16_def run_defs)

lemma run_lvds_tx_dig_set:
  "lt9211c_lvds_tx_dig_set (chip_regs regs_1080p60) vt m =
     (0,
      m\<lparr>ops := ops m + 32,
        trace := trace m @
          [RegWrite 0xff 0x85, RegRead 0x6f 1, RegWrite 0x6f 0x90, RegWrite 0xff 0x85,
           RegRead 0x6e 1, RegWrite 0x6e 0x00, RegRead 0x6f 1, RegWrite 0x6f 0x00,
           RegRead 0x6f 1, RegWrite 0x6f 0x04, RegWrite 0x68 0x00, RegWrite 0xff 0x85,
           RegWrite 0x4a 0x01, RegWrite 0x4b 0x00, RegWrite 0x4c 0x10, RegWrite 0x4d 0x20,
           RegWrite 0x4e 0x50, RegWrite 0x4f 0x30, RegWrite 0x50 0x46, RegWrite 0x51 0x10,
           RegWrite 0x52 0x20, RegWrite 0x53 0x50, RegWrite 0x54 0x30, RegWrite 0x55 0x00,
           RegWrite 0x56 0x20, RegWrite 0xff 0x85, RegWrite 0x4a 0x01, RegRead 0x50 1,
           RegWrite 0x50 0x00, RegWrite 0xff 0x81, RegWrite 0x08 0x6f, Usleep 2000,
           RegWrite 0x08 0x7f]\<rparr>)"
  by (simp add: lt9211c_lvds_tx_dig_set_def lt9211c_lvds_tx_port_set_def
      lt9211c_lvds_tx_video_format_set_def lt9211c_lvds_tx_lane_num_set_def
      lt9211c_lvds_tx_port_swap_def lt9211c_lvds_tx_sw_reset_def run_defs)

lemma run_lvds_tx_config_video_out:
  "lt9211c_lvds_tx_config_video_out (chip_regs regs_1080p60) m =
     (0, m\<lparr>ops := ops m + 56, trace := trace m @ video_out_events\<rparr>)"
  by (simp add: lt9211c_lvds_tx_config_video_out_def split_def Let_def run_video_check_get
      run_lvds_tx_dig_set video_out_events_def)

theorem bringup_falls_through_witness:
  "lt9211c_module_config (chip_regs regs_1080p60) 0 ctx_attached io0 =
     Inr (0,
          \<lparr>lanes = 4, mode_flags = 0xe3, state = LT9211C_STATE_CHIPTX_VIDEO_OUT,
             mipi_rx_video_timing =
               \<lparr>wc = 5760, hact = 1920, vact = 1080, fmt = 0x0a, pa_lpn = 0, frame_rate = 0\<rparr>,
             lt9211c_video_timing =
               (timing 88 44 148 1920 2200 4 5 36 1080 1125 60)\<lparr>pclk_khz := 148500\<rparr>,
             counter = 0, delayed_work = []\<rparr>,
          \<lparr>ops = 289,
             trace = prepare_events @ timing_stage_events @ pll_stage_events @
               output_source_events @ output_pll_events @ video_out_events\<rparr>)"
proof -
  let ?hw = "chip_regs regs_1080p60"
  let ?c0 = "ctx_attached\<lparr>mipi_rx_video_timing := zero_mipi_rx_video_timing\<rparr>"
  define ctx1 where
    "ctx1 = ?c0\<lparr>counter := 0, state := LT9211C_STATE_CHIPRX_VIDTIMING_CONFIG\<rparr>"
  define m1 where "m1 = io0\<lparr>ops := ops io0 + 69, trace := trace io0 @ prepare_events\<rparr>"
  define ctx2 where
    "ctx2 = ctx1\<lparr>mipi_rx_video_timing :=
         \<lparr>wc = 5760, hact = 1920, vact = 1080, fmt = 0x0a, pa_lpn = 0, frame_rate = 0\<rparr>,
       lt9211c_video_timing :=
         (timing 88 44 148 1920 2200 4 5 36 1080 1125 60)\<lparr>pclk_khz := 148500\<rparr>\<rparr>"
  define m2 where "m2 = m1\<lparr>ops := ops m1 + 37, trace := trace m1 @ timing_stage_events\<rparr>"
  define m3 where "m3 = m2\<lparr>ops := ops m2 + 68, trace := trace m2 @ pll_stage_events\<rparr>"
  define ctx4 where
    "ctx4 = ctx2\<lparr>state := LT9211C_STATE_CHIPRX_PLL_CONFIG, counter := 0,
       state := LT9211C_STATE_CHIPTX_CONFIG_VIDEO\<rparr>"
  define m4 where "m4 = m3\<lparr>ops := ops m3 + 30, trace := trace m3 @ output_source_events\<rparr>"
  define ctx5 where
    "ctx5 = ctx4\<lparr>lt9211c_video_timing := (lt9211c_video_timing ctx4)\<lparr>pclk_khz := 148500\<rparr>\<rparr>"
  define m5 where "m5 = m4\<lparr>ops := ops m4 + 29, trace := trace m4 @ output_pll_events\<rparr>"
  define m6 where "m6 = m5\<lparr>ops := ops m5 + 56, trace := trace m5 @ video_out_events\<rparr>"
  have s: "state ctx_attached = LT9211C_STATE_PREPARE"
    by (simp add: ctx_attached_def)
  have r1: "prepare ?hw ?c0 io0 = (ctx1, m1)"
    by (simp add: run_prepare regs_1080p60_idle ctx_attached_def ctx1_def m1_def)
  have r2: "lt9211c_mipi_rx_video_timing_config ?hw 0 ctx1 m1 = Inr (0, ctx2, m2)"
    by (simp add: run_mipi_rx_video_timing_config ctx1_def ctx2_def m2_def)
  have p: "pclk_khz (lt9211c_video_timing (ctx2\<lparr>state := LT9211C_STATE_CHIPRX_PLL_CONFIG\<rparr>)) =
      148500"
    by (simp add: ctx2_def)
  have r3: "lt9211c_mipi_rx_pll_config ?hw (ctx2\<lparr>state := LT9211C_STATE_CHIPRX_PLL_CONFIG\<rparr>) m2 =
      (0, m3)"
    by (simp add: run_mipi_rx_pll_config [OF p] m3_def)
  have r4: "after_pll_config ?hw (ctx2\<lparr>state := LT9211C_STATE_CHIPRX_PLL_CONFIG\<rparr>) m3 =
      (ctx4, m4)"
    by (simp add: run_after_pll_config ctx4_def m4_def)
  have r5: "lt9211c_lvds_tx_config_video ?hw ctx4 m4 = Inr (0, ctx5, m5)"
    by (simp add: run_lvds_tx_config_video ctx5_def m5_def)
  have r6: "lt9211c_lvds_tx_config_video_out ?hw m5 = (0, m6)"
    by (simp add: run_lvds_tx_config_video_out m6_def)
  from bringup_falls_through [OF s r1 r2 _ r3 _ r4 r5 _ r6]
  have "lt9211c_module_config ?hw 0 ctx_attached io0 =
      Inr (0, ctx5\<lparr>state := LT9211C_STATE_CHIPTX_VIDEO_OUT\<rparr>, m6)"
    by simp
  then show ?thesis
    by (simp add: ctx5_def ctx4_def ctx2_def ctx1_def m6_def m5_def m4_def m3_def m2_def m1_def
        ctx_attached_def io0_def)
qed

end
